theory Spec2Isabelle
  imports Main
begin

section \<open>Strings\<close>

text \<open>
  A Python string is modelled as the \<^typ>\<open>string\<close> of its UTF-8 encoding, so the ASCII
  characters are the characters below 128. \<open>upper_char\<close> and \<open>lower_char\<close> are \<open>str.upper\<close>
  and \<open>str.lower\<close> on one ASCII character.
\<close>

definition upper_char :: "char \<Rightarrow> char" where
  "upper_char c =
     (case map_of (zip ''abcdefghijklmnopqrstuvwxyz'' ''ABCDEFGHIJKLMNOPQRSTUVWXYZ'') c of
        Some u \<Rightarrow> u | None \<Rightarrow> c)"

definition lower_char :: "char \<Rightarrow> char" where
  "lower_char c =
     (case map_of (zip ''ABCDEFGHIJKLMNOPQRSTUVWXYZ'' ''abcdefghijklmnopqrstuvwxyz'') c of
        Some l \<Rightarrow> l | None \<Rightarrow> c)"

definition is_ascii :: "string \<Rightarrow> bool" where
  "is_ascii s = list_all (\<lambda>c. (of_char c :: nat) < 128) s"

text \<open>
  \<open>str.lower\<close>. The tool only compares a lower-cased string with \<open>yes\<close>, \<open>http\<close>, \<open>https\<close>
  and the four vectorizer names, and searches one for \<open>not found\<close>. The only character
  outside ASCII whose lower case consists of ASCII characters is the Kelvin sign, which
  gives \<open>k\<close>, and no \<open>k\<close> occurs in those words; so for these tests it is exact to map the
  ASCII letters and to leave every other byte as it is.
\<close>

definition lower :: "string \<Rightarrow> string" where
  "lower s = map lower_char s"

text \<open>\<open>s.split(sep, 1)\<close>: the whole string when \<open>sep\<close> does not occur, otherwise the
  text before the first \<open>sep\<close> and the text after it.\<close>

fun split_1 :: "char \<Rightarrow> string \<Rightarrow> string list" where
  "split_1 sep [] = [[]]"
| "split_1 sep (c # cs) =
     (if c = sep then [[], cs]
      else (case split_1 sep cs of [] \<Rightarrow> [] | a # rest \<Rightarrow> (c # a) # rest))"

text \<open>\<open>needle in s\<close> for strings.\<close>

fun starts_with :: "string \<Rightarrow> string \<Rightarrow> bool" where
  "starts_with s [] = True"
| "starts_with [] (p # ps) = False"
| "starts_with (c # cs) (p # ps) = (c = p \<and> starts_with cs ps)"

fun contains :: "string \<Rightarrow> string \<Rightarrow> bool" where
  "contains [] needle = (needle = [])"
| "contains (c # cs) needle = (starts_with (c # cs) needle \<or> contains cs needle)"

section \<open>Exceptions, results, printed output\<close>

datatype exn_class =
    ValueError | AttributeError | TypeError | EOFError | FileNotFoundError | YAMLError
  | WeaviateConnectionError | WeaviateStartUpError | WeaviateQueryException | OtherException

text \<open>An exception object: its class and the text \<open>str(e)\<close>; for the SDK's query
  exception \<open>e.message\<close> is that text too. Only subclasses of \<open>Exception\<close> occur, and
  the class is the first of these that the exception is an instance of, \<open>OtherException\<close>
  when it is an instance of none.\<close>

datatype exn = Exn exn_class string

fun exn_class_of :: "exn \<Rightarrow> exn_class" where
  "exn_class_of (Exn c m) = c"

fun exn_text :: "exn \<Rightarrow> string" where
  "exn_text (Exn c m) = m"

text \<open>JSON-like values of Python; \<open>JOpaque\<close> is an object \<open>json.dumps\<close> cannot serialise.\<close>

datatype json =
    JNull | JBool bool | JInt int | JStr string
  | JList "json list" | JObj "(string \<times> json) list" | JOpaque

text \<open>
  What \<open>print\<close> wrote. A status line is recorded by its format string with the
  placeholders left unexpanded; a line that formats an exception also carries that
  exception; the output of \<open>json.dumps\<close> carries the document.
\<close>

datatype out = Line string | About string exn | Json json

section \<open>Collection properties\<close>

datatype data_type =
    DT_TEXT | DT_INT | DT_NUMBER | DT_BOOL | DT_DATE | DT_UUID
  | DT_TEXT_ARRAY | DT_INT_ARRAY | DT_NUMBER_ARRAY | DT_BOOL_ARRAY | DT_DATE_ARRAY | DT_UUID_ARRAY
  | DT_GEO_COORDINATES | DT_PHONE_NUMBER | DT_BLOB
  | Member string

record property =
  prop_name :: string
  prop_data_type :: data_type

text \<open>\<open>name, data_type_str = parts\<close>: unpacking anything but two parts raises ValueError.\<close>

fun unpack2 :: "string list \<Rightarrow> exn + string \<times> string" where
  "unpack2 [a, b] = Inr (a, b)"
| "unpack2 parts = Inl (Exn ValueError ''not enough values to unpack'')"

section \<open>Values of dynamic type\<close>

text \<open>
  What a command-line option or a scalar of the YAML configuration file holds: \<open>None\<close>, a
  string or an integer. \<open>truthy\<close> is Python's truth test.
\<close>

datatype pyval = PNone | PStr string | PInt int

fun truthy :: "pyval \<Rightarrow> bool" where
  "truthy PNone = False"
| "truthy (PStr s) = (s \<noteq> [])"
| "truthy (PInt n) = (n \<noteq> 0)"

text \<open>\<open>d.get(key)\<close> and \<open>d.get(key, default)\<close> on the configuration dictionary.\<close>

definition dict_get_default :: "(string \<rightharpoonup> pyval) \<Rightarrow> string \<Rightarrow> pyval \<Rightarrow> pyval" where
  "dict_get_default d key dflt = (case d key of None \<Rightarrow> dflt | Some v \<Rightarrow> v)"

definition dict_get :: "(string \<rightharpoonup> pyval) \<Rightarrow> string \<Rightarrow> pyval" where
  "dict_get d key = dict_get_default d key PNone"

text \<open>
  What \<open>yaml.safe_load\<close> read from the configuration file: a mapping, a sequence or a
  scalar. \<open>doc_truthy\<close> is Python's truth test on it, and \<open>config_get\<close> is
  \<open>config_from_file.get(key, default)\<close>, a method that only a mapping has.
\<close>

datatype yaml_doc = YMapping "string \<rightharpoonup> pyval" | YSequence "pyval list" | YScalar pyval

fun doc_truthy :: "yaml_doc \<Rightarrow> bool" where
  "doc_truthy (YMapping d) = (d \<noteq> Map.empty)"
| "doc_truthy (YSequence vs) = (vs \<noteq> [])"
| "doc_truthy (YScalar v) = truthy v"

definition no_get :: "yaml_doc \<Rightarrow> exn" where
  "no_get doc =
     Exn AttributeError
       (case doc of YSequence vs \<Rightarrow> ''list object has no attribute get''
                  | _ \<Rightarrow> ''object has no attribute get'')"

fun config_get :: "yaml_doc \<Rightarrow> string \<Rightarrow> pyval \<Rightarrow> exn + pyval" where
  "config_get (YMapping d) key dflt = Inr (dict_get_default d key dflt)"
| "config_get (YSequence vs) key dflt = Inl (no_get (YSequence vs))"
| "config_get (YScalar v) key dflt = Inl (no_get (YScalar v))"

text \<open>
  The value of \<open>--vectorizer-options\<close> is whatever \<open>json.loads\<close> made of the argument.
  \<open>json_truthy\<close> is the truth test on it, and \<open>json_get\<close> is \<open>v_options.get(key, default)\<close>,
  a method that only an object has.
\<close>

fun json_truthy :: "json \<Rightarrow> bool" where
  "json_truthy JNull = False"
| "json_truthy (JBool b) = b"
| "json_truthy (JInt n) = (n \<noteq> 0)"
| "json_truthy (JStr t) = (t \<noteq> [])"
| "json_truthy (JList xs) = (xs \<noteq> [])"
| "json_truthy (JObj kvs) = (kvs \<noteq> [])"
| "json_truthy JOpaque = True"

definition json_get :: "json \<Rightarrow> string \<Rightarrow> json \<Rightarrow> exn + json" where
  "json_get v_options key dflt =
     (case v_options of
        JObj kvs \<Rightarrow> Inr (case map_of kvs key of None \<Rightarrow> dflt | Some v \<Rightarrow> v)
      | _ \<Rightarrow> Inl (Exn AttributeError ''object has no attribute get''))"

section \<open>The client library\<close>

text \<open>
  The SDK is not part of the repository. Its configuration objects are data, named by the
  function that makes them and its arguments; each of its methods that the tool calls on
  a client is a request, answered by the environment with a response or an exception.
\<close>

record conn_args =
  http_host :: string
  http_port :: nat
  http_secure :: bool
  grpc_host :: pyval
  grpc_port :: pyval
  grpc_secure :: bool
  auth_credentials :: "pyval option"
  timeout :: "nat \<times> nat"
  startup_period :: nat

datatype vectorizer_config =
    Text2vecOpenai json json json
  | Text2vecCohere json json json
  | Text2vecHuggingface json json json "string list option" json json
  | VectorizerNone

record create_args =
  create_name :: string
  create_description :: string
  create_properties :: "property list option"
  create_vectorizer_config :: "vectorizer_config option"
  create_replication_config :: "int option"
  create_sharding_config :: "int option"
  create_inverted_index_config :: json

datatype permission =
    PermissionsCollections "string list" bool bool bool bool
  | PermissionsData "string list" bool bool bool bool

text \<open>A role object read back from the server; \<open>role_permissions\<close> is None when the
  object has no such attribute.\<close>

record role =
  role_name :: string
  role_permissions :: "string list option"

text \<open>An element of a role listing: an object with a \<open>name\<close>, a string, or neither.\<close>

datatype role_item = ItemRole role | ItemStr string | ItemOther

record prop_config =
  pc_name :: string
  pc_data_type :: "string list + string"
  pc_description :: json
  pc_index_filterable :: json
  pc_index_searchable :: json
  pc_tokenization :: "string option"
  pc_vectorizer_config :: "(string \<times> json) option"

text \<open>A collection configuration object: the outcome of its \<open>to_dict()\<close> and the
  attributes that \<open>handle_collection_describe\<close> and \<open>handle_collection_list\<close> read.\<close>

record collection_config =
  cfg_to_dict :: "exn + json"
  cfg_name :: string
  cfg_description :: json
  cfg_vectorizer :: string
  cfg_vector_index_type :: string
  cfg_properties :: "prop_config list"
  cfg_replication_factor :: "json option"
  cfg_sharding_config :: "json option"
  cfg_inverted_index_config :: "json option"

datatype request =
    ConnectToCustom conn_args | IsConnected | IsReady | IsLive | Close
  | CollectionsExists string | CollectionsCreate create_args | CollectionsDelete string
  | CollectionsListAll bool | CollectionsGet string | ConfigGet string
  | UsersListAll | UsersDelete string | UsersCreate string
  | UsersAssignRoles string "string list" | UsersGetAssignedRoles string
  | RolesExists string | RolesCreate string "permission list" | RolesDelete string
  | RolesGet string | RolesListAll

datatype response =
    RNone | RBool bool | RStr string | RNames "string list"
  | RConfig collection_config | RRole "role option" | RItems "role_item list"

type_synonym event = "request \<times> (exn + response)"

text \<open>
  What the tool takes, while it runs, from the module \<open>weaviate.classes\<close> that it imports as
  \<open>wvc\<close>: a member of \<open>wvc.DataType\<close> by its name; the object \<open>wvc.Property(...)\<close>; a
  function of \<open>wvc.Configure.Vectorizer\<close> by its name, read before its arguments are
  evaluated, and the object it makes of them; and the objects
  \<open>wvc.Configure.replication(...)\<close> and \<open>wvc.Configure.sharding(...)\<close>. Evaluating such an
  expression raises AttributeError when the module, or the object reached in it, has no
  attribute of that name, and a constructor may reject its arguments.
\<close>

datatype wvc_expr =
    WvcDataType string
  | WvcProperty string data_type
  | WvcVectorizerFunction string
  | WvcVectorizer vectorizer_config
  | WvcReplication int
  | WvcSharding int

text \<open>What \<open>urlparse\<close> found in a URL: the scheme, the host name if any, and the port,
  whose reading raises ValueError when it is not a number in range.\<close>

record url_parts =
  scheme :: string
  hostname :: "string option"
  port :: "exn + nat option"

text \<open>
  The environment of one run of the tool: the installed SDK's version; for each expression
  on \<open>wvc\<close> the exception its evaluation raises, if any; \<open>str.upper\<close> on the strings that
  are not ASCII, which follows the interpreter's Unicode tables; the configuration file;
  the process environment; what the terminal answers to \<open>getpass\<close> and to \<open>input\<close>;
  \<open>urlparse\<close>; and the server's answer to each request, which may depend on all the
  requests made before.
\<close>

record world =
  version :: "exn + string"
  wvc :: "wvc_expr \<Rightarrow> exn option"
  unicode_upper :: "string \<Rightarrow> string"
  load_yaml :: "string \<Rightarrow> exn + yaml_doc"
  environ :: "string \<rightharpoonup> string"
  getpass :: "exn + string"
  stdin_input :: "exn + string"
  urlparse :: "string \<Rightarrow> exn + url_parts"
  sdk_none :: "event list \<Rightarrow> request \<Rightarrow> exn + unit"
  sdk_bool :: "event list \<Rightarrow> request \<Rightarrow> exn + bool"
  sdk_str :: "event list \<Rightarrow> request \<Rightarrow> exn + string"
  sdk_names :: "event list \<Rightarrow> request \<Rightarrow> exn + string list"
  sdk_config :: "event list \<Rightarrow> request \<Rightarrow> exn + collection_config"
  sdk_role :: "event list \<Rightarrow> request \<Rightarrow> exn + role option"
  sdk_items :: "event list \<Rightarrow> request \<Rightarrow> exn + role_item list"

text \<open>\<open>str.upper\<close>: on an ASCII string it maps the letters \<open>a\<close> to \<open>z\<close>; on any other string
  the result is the environment's (the upper case of a dotless i, for one, is \<open>I\<close>).\<close>

definition upper :: "world \<Rightarrow> string \<Rightarrow> string" where
  "upper w s = (if is_ascii s then map upper_char s else unicode_upper w s)"

section \<open>State, exceptions and exit\<close>

text \<open>
  The state of the process: whether the module-level \<open>client\<close> holds a client object,
  the lines printed, and the requests made with their answers, oldest first.
\<close>

record state =
  client :: bool
  printed :: "out list"
  calls :: "event list"

text \<open>A statement returns a value, raises an exception, or leaves through \<open>exit(n)\<close>;
  SystemExit is not an \<open>Exception\<close>, so no \<open>except\<close> clause of the tool catches it.\<close>

datatype 'a res = Val 'a | Raise exn | Exit nat

type_synonym 'a m = "state \<Rightarrow> 'a res \<times> state"

definition ret :: "'a \<Rightarrow> 'a m" where
  "ret x = (\<lambda>s. (Val x, s))"

definition raise :: "exn \<Rightarrow> 'a m" where
  "raise e = (\<lambda>s. (Raise e, s))"

definition sys_exit :: "nat \<Rightarrow> 'a m" where
  "sys_exit n = (\<lambda>s. (Exit n, s))"

definition lift :: "exn + 'a \<Rightarrow> 'a m" where
  "lift r = (case r of Inl e \<Rightarrow> raise e | Inr v \<Rightarrow> ret v)"

definition bind :: "'a m \<Rightarrow> ('a \<Rightarrow> 'b m) \<Rightarrow> 'b m" where
  "bind m f = (\<lambda>s. case m s of
                 (Val x, s') \<Rightarrow> f x s'
               | (Raise e, s') \<Rightarrow> (Raise e, s')
               | (Exit n, s') \<Rightarrow> (Exit n, s'))"

definition andthen :: "'a m \<Rightarrow> 'b m \<Rightarrow> 'b m" where
  "andthen m k = bind m (\<lambda>x. k)"

text \<open>\<open>try: m  except Exception as e: h e\<close>; a handler with several clauses tests the
  class of \<open>e\<close> in their order.\<close>

definition try_except :: "'a m \<Rightarrow> (exn \<Rightarrow> 'a m) \<Rightarrow> 'a m" where
  "try_except m h = (\<lambda>s. case m s of
                       (Val x, s') \<Rightarrow> (Val x, s')
                     | (Raise e, s') \<Rightarrow> h e s'
                     | (Exit n, s') \<Rightarrow> (Exit n, s'))"

text \<open>\<open>try: m  finally: c\<close>: \<open>c\<close> runs however \<open>m\<close> ends, and \<open>m\<close>'s outcome stands
  unless \<open>c\<close> itself raises or exits.\<close>

definition try_finally :: "'a m \<Rightarrow> unit m \<Rightarrow> 'a m" where
  "try_finally m c = (\<lambda>s. case m s of
                        (r, s') \<Rightarrow> (case c s' of
                            (Val u, s'') \<Rightarrow> (r, s'')
                          | (Raise e, s'') \<Rightarrow> (Raise e, s'')
                          | (Exit n, s'') \<Rightarrow> (Exit n, s'')))"

definition print :: "out \<Rightarrow> unit m" where
  "print l = (\<lambda>s. (Val (), s\<lparr>printed := printed s @ [l]\<rparr>))"

fun print_all :: "out list \<Rightarrow> unit m" where
  "print_all [] = ret ()"
| "print_all (l # ls) = andthen (print l) (print_all ls)"

definition get_client :: "bool m" where
  "get_client = (\<lambda>s. (Val (client s), s))"

definition set_client :: "bool \<Rightarrow> unit m" where
  "set_client b = (\<lambda>s. (Val (), s\<lparr>client := b\<rparr>))"

text \<open>One call of an SDK method: the environment answers from the requests made so far,
  and the request is logged with its answer.\<close>

definition call ::
  "(event list \<Rightarrow> request \<Rightarrow> exn + 'a) \<Rightarrow> ('a \<Rightarrow> response) \<Rightarrow> request \<Rightarrow> 'a m" where
  "call answer wrap rq = (\<lambda>s. case answer (calls s) rq of
       Inl e \<Rightarrow> (Raise e, s\<lparr>calls := calls s @ [(rq, Inl e)]\<rparr>)
     | Inr v \<Rightarrow> (Val v, s\<lparr>calls := calls s @ [(rq, Inr (wrap v))]\<rparr>))"

definition call_none :: "world \<Rightarrow> request \<Rightarrow> unit m" where
  "call_none w rq = call (sdk_none w) (\<lambda>u. RNone) rq"

definition call_bool :: "world \<Rightarrow> request \<Rightarrow> bool m" where
  "call_bool w rq = call (sdk_bool w) RBool rq"

definition call_str :: "world \<Rightarrow> request \<Rightarrow> string m" where
  "call_str w rq = call (sdk_str w) RStr rq"

definition call_names :: "world \<Rightarrow> request \<Rightarrow> string list m" where
  "call_names w rq = call (sdk_names w) RNames rq"

definition call_config :: "world \<Rightarrow> request \<Rightarrow> collection_config m" where
  "call_config w rq = call (sdk_config w) RConfig rq"

definition call_role :: "world \<Rightarrow> request \<Rightarrow> role option m" where
  "call_role w rq = call (sdk_role w) RRole rq"

definition call_items :: "world \<Rightarrow> request \<Rightarrow> role_item list m" where
  "call_items w rq = call (sdk_items w) RItems rq"

text \<open>The value \<open>v\<close> of an expression on \<open>wvc\<close>, when its evaluation does not raise.\<close>

definition wvc_eval :: "world \<Rightarrow> wvc_expr \<Rightarrow> 'a \<Rightarrow> 'a m" where
  "wvc_eval w expr v = (case wvc w expr of Some e \<Rightarrow> raise e | None \<Rightarrow> ret v)"

text \<open>\<open>input(prompt)\<close> writes the prompt and reads a line.\<close>

definition input_line :: "world \<Rightarrow> string \<Rightarrow> string m" where
  "input_line w prompt = andthen (print (Line prompt)) (lift (stdin_input w))"

section \<open>Start-up helpers\<close>

definition print_client_version :: "world \<Rightarrow> unit m" where
  "print_client_version w =
     try_except
       (bind (lift (version w)) (\<lambda>v.
        andthen (print (Line ''Using weaviate-client version: {weaviate.__version__}''))
          (if \<not> starts_with v ''4.''
           then print (Line ''WARNING: This script is designed for weaviate-client v4.x.'')
           else ret ())))
       (\<lambda>e. print (About ''Could not determine weaviate-client version: {e!r}'' e))"

text \<open>\<open>load_config_from_yaml\<close>: \<open>config if config else {}\<close> returns whatever truthy value
  the file holds, mapping or not.\<close>

definition load_config_from_yaml :: "world \<Rightarrow> string \<Rightarrow> yaml_doc m" where
  "load_config_from_yaml w file_path =
     (case load_yaml w file_path of
        Inr config \<Rightarrow>
          andthen (print (Line ''Loaded configuration from {file_path}''))
            (ret (if doc_truthy config then config else YMapping Map.empty))
      | Inl e \<Rightarrow>
          if exn_class_of e = FileNotFoundError then
            andthen (print (Line ''Warning: Config file not found at {file_path}. Proceeding without it.''))
              (ret (YMapping Map.empty))
          else if exn_class_of e = YAMLError then
            andthen (print (About ''Error parsing YAML config file {file_path}: {e!r}. Proceeding without it.'' e))
              (ret (YMapping Map.empty))
          else
            andthen (print (About ''Error loading config file {file_path}: {e!r}. Proceeding without it.'' e))
              (ret (YMapping Map.empty)))"

text \<open>
  \<open>parse_http_url_details\<close>. \<open>urlparse\<close> of None or of 0 yields empty components, so the
  scheme test raises ValueError; \<open>urlparse\<close> of another integer raises AttributeError; and
  \<open>urlparse\<close> of a string may itself raise ValueError.
\<close>

definition parse_http_url_details :: "world \<Rightarrow> pyval \<Rightarrow> exn + string \<times> nat \<times> bool" where
  "parse_http_url_details w url_str =
     (case url_str of
        PNone \<Rightarrow> Inl (Exn ValueError ''Invalid URL scheme: . Must be 'http' or 'https'.'')
      | PInt n \<Rightarrow>
          if n = 0 then Inl (Exn ValueError ''Invalid URL scheme: . Must be 'http' or 'https'.'')
          else Inl (Exn AttributeError ''int object has no attribute decode'')
      | PStr u \<Rightarrow>
          (case urlparse w u of
             Inl e \<Rightarrow> Inl e
           | Inr parsed_url \<Rightarrow>
               (let http_scheme = lower (scheme parsed_url)
                in if http_scheme \<noteq> ''http'' \<and> http_scheme \<noteq> ''https'' then
                     Inl (Exn ValueError ''Invalid URL scheme: {parsed_url.scheme}. Must be 'http' or 'https'.'')
                   else
                     (let secure = (http_scheme = ''https'') in
                      case hostname parsed_url of
                        None \<Rightarrow> Inl (Exn ValueError ''Could not determine host from URL: {url_str}'')
                      | Some host \<Rightarrow>
                          if host = [] then
                            Inl (Exn ValueError ''Could not determine host from URL: {url_str}'')
                          else
                            (case port parsed_url of
                               Inl e \<Rightarrow> Inl e
                             | Inr None \<Rightarrow> Inr (host, if secure then 443 else 80, secure)
                             | Inr (Some hport) \<Rightarrow>
                                 if hport = 0 then
                                   Inr (host, if secure then 443 else 80, secure)
                                 else Inr (host, hport, secure))))))"

section \<open>Connecting and closing\<close>

text \<open>The end of every \<open>except\<close> clause of \<open>connect_to_weaviate\<close>:
  \<open>if client: client.close()\<close>, \<open>client = None\<close>, \<open>exit(1)\<close>.\<close>

definition connect_failed :: "world \<Rightarrow> unit m" where
  "connect_failed w =
     andthen (bind get_client (\<lambda>c. if c then call_none w Close else ret ()))
    (andthen (set_client False)
     (sys_exit 1))"

text \<open>The four \<open>except\<close> clauses, in their order. Exceptions carry no
  \<open>original_exception\<close>, so the lines that print one are not written.\<close>

definition connect_except :: "world \<Rightarrow> exn \<Rightarrow> unit m" where
  "connect_except w e =
     (if exn_class_of e = ValueError then
        andthen (print (About ''Error parsing URL or parameters for custom connection: {ve!r}'' e))
          (connect_failed w)
      else if exn_class_of e = WeaviateConnectionError then
        andthen (print (Line ''WeaviateConnectionError: Could not connect to Weaviate. Please check network, firewall, and server status.''))
       (andthen (print (About ''  Raw Exception Details: {wce!r}'' e))
       (andthen (print (Line ''  Attempted HTTP: {http_host}:{http_port} (secure: {http_secure})''))
       (andthen (print (Line ''  Attempted gRPC: {grpc_host_to_use}:{grpc_port_to_use} (secure: {grpc_secure_to_use})''))
          (connect_failed w))))
      else if exn_class_of e = WeaviateStartUpError then
        andthen (print (Line ''WeaviateStartUpError: Problem during Weaviate startup or client initialization.''))
       (andthen (print (About ''  Raw Exception Details: {wse!r}'' e))
          (connect_failed w))
      else
        andthen (print (About ''An unexpected error occurred during Weaviate connection: {type(e).__name__} - {e!r}'' e))
          (connect_failed w))"

text \<open>The arguments of \<open>weaviate.connect_to_custom\<close>, lines 95 to 124.\<close>

definition custom_connection ::
  "string \<times> nat \<times> bool \<Rightarrow> pyval \<Rightarrow> pyval \<Rightarrow> pyval \<Rightarrow> conn_args" where
  "custom_connection http api_key cli_grpc_host cli_grpc_port =
     (case http of (host, hport, secure) \<Rightarrow>
        \<lparr>http_host = host,
         http_port = hport,
         http_secure = secure,
         grpc_host = (if truthy cli_grpc_host then cli_grpc_host else PStr host),
         grpc_port = (if cli_grpc_port \<noteq> PNone then cli_grpc_port else PInt 50051),
         grpc_secure =
           (if cli_grpc_port \<noteq> PNone then
              (if cli_grpc_port = PInt 443 then True
               else if cli_grpc_port = PInt 80 then False
               else secure)
            else secure),
         auth_credentials = (if truthy api_key then Some api_key else None),
         timeout = (20, 120),
         startup_period = 30\<rparr>)"

text \<open>\<open>client and client.is_connected() and client.is_ready()\<close>.\<close>

definition existing_healthy :: "world \<Rightarrow> bool m" where
  "existing_healthy w =
     bind get_client (\<lambda>c.
       if c then bind (call_bool w IsConnected) (\<lambda>connected.
                   if connected then call_bool w IsReady else ret False)
       else ret False)"

text \<open>The \<open>try\<close> block of \<open>connect_to_weaviate\<close>, lines 90 to 138.\<close>

definition connect_attempt :: "world \<Rightarrow> pyval \<Rightarrow> pyval \<Rightarrow> pyval \<Rightarrow> pyval \<Rightarrow> unit m" where
  "connect_attempt w url api_key cli_grpc_host cli_grpc_port =
     andthen (bind get_client (\<lambda>c.
         if c then
           andthen (print (Line ''Closing pre-existing client instance.''))
          (andthen (call_none w Close)
           (set_client False))
         else ret ()))
    (bind (lift (parse_http_url_details w url)) (\<lambda>http.
     andthen (print (Line ''  HTTP connection: host='{http_host}', port={http_port}, secure={http_secure}''))
    (andthen (print (Line ''  gRPC connection: host='{grpc_host_to_use}', port={grpc_port_to_use}, secure={grpc_secure_to_use}''))
    (andthen (call_none w (ConnectToCustom (custom_connection http api_key cli_grpc_host cli_grpc_port)))
    (bind (call_bool w IsReady) (\<lambda>ready.
       if \<not> ready then
         andthen (print (Line ''Error: Weaviate client object created, but instance is not ready. Check Weaviate server logs and network.''))
        (andthen (try_except
                    (bind (call_bool w IsLive) (\<lambda>live_status.
                       print (Line ''  Instance live status: {live_status}'')))
                    (\<lambda>live_err. print (About ''  Could not get live status: {live_err!r}'' live_err)))
        (andthen (call_none w Close)
         (sys_exit 1)))
       else
         andthen (set_client True)
           (print (Line ''Successfully connected to Weaviate.''))))))))"

definition connect_to_weaviate :: "world \<Rightarrow> pyval \<Rightarrow> pyval \<Rightarrow> pyval \<Rightarrow> pyval \<Rightarrow> unit m" where
  "connect_to_weaviate w url api_key cli_grpc_host cli_grpc_port =
     bind (existing_healthy w) (\<lambda>healthy.
       if healthy then print (Line ''Using existing healthy Weaviate connection.'')
       else
         andthen (print (Line ''Attempting to connect to Weaviate at {url} (client v4.x) using custom connection parameters...''))
           (try_except (connect_attempt w url api_key cli_grpc_host cli_grpc_port)
              (connect_except w)))"

definition close_connection :: "world \<Rightarrow> unit m" where
  "close_connection w =
     bind get_client (\<lambda>c.
       if c then
         try_finally
           (try_except
              (andthen (call_none w Close) (print (Line ''Weaviate client connection closed.'')))
              (\<lambda>e. print (About ''Error closing Weaviate client connection: {e!r}'' e)))
           (set_client False)
       else ret ())"

section \<open>Command line\<close>

record collection_create_opts =
  cc_name :: string
  cc_description :: string
  cc_property :: "string list option"
  cc_vectorizer :: "string option"
  cc_vectorizer_options :: "json option"
  cc_vectorizer_source_properties :: "string list option"
  cc_replication_factor :: "int option"
  cc_shards :: "int option"

record role_create_opts =
  rc_role_name :: string
  rc_collection_pattern :: "string list"
  rc_allow_data_create :: bool
  rc_allow_data_read :: bool
  rc_allow_data_update :: bool
  rc_allow_data_delete :: bool
  rc_allow_collection_create :: bool
  rc_allow_collection_read_config :: bool
  rc_allow_collection_update_config :: bool
  rc_allow_collection_delete :: bool

text \<open>The subcommand with its own options. Both levels of subparsers are required, so a
  parsed command line always names one of the twelve.\<close>

datatype command =
    CollectionCreate collection_create_opts
  | CollectionDelete string
  | CollectionList bool
  | CollectionDescribe string
  | UserCreate string "string list option"
  | UserDelete string
  | UserList
  | UserUpdateRoles string "string list option"
  | RoleCreate role_create_opts
  | RoleDelete string
  | RoleGet string
  | RoleList bool

text \<open>The namespace \<open>args\<close>. The four connection settings hold what the command line
  gave and, once \<open>main\<close> has merged the configuration file, what the file gave.\<close>

record args =
  config_file :: "string option"
  url :: pyval
  root_key :: pyval
  arg_grpc_host :: pyval
  arg_grpc_port :: pyval
  recreate_api_key :: bool
  command :: command

definition connect :: "world \<Rightarrow> args \<Rightarrow> unit m" where
  "connect w a = connect_to_weaviate w (url a) (root_key a) (arg_grpc_host a) (arg_grpc_port a)"

section \<open>Collection properties\<close>

text \<open>
  The \<open>if\<close>/\<open>elif\<close> chain of \<open>parse_properties_v4\<close>. Each branch reads a member of
  \<open>wvc.DataType\<close>, and an exception of that reading leaves the chain; only the last branch,
  \<open>getattr(wvc.DataType, data_type_str_upper)\<close>, has its own \<open>except AttributeError\<close>, which
  prints the warning and goes on to the next string: the result \<open>None\<close>.
\<close>

definition data_type_enum :: "world \<Rightarrow> string \<Rightarrow> data_type option m" where
  "data_type_enum w data_type_str_upper =
     (if data_type_str_upper = ''TEXT'' then wvc_eval w (WvcDataType ''TEXT'') (Some DT_TEXT)
      else if data_type_str_upper = ''INT'' then wvc_eval w (WvcDataType ''INT'') (Some DT_INT)
      else if data_type_str_upper = ''NUMBER'' then wvc_eval w (WvcDataType ''NUMBER'') (Some DT_NUMBER)
      else if data_type_str_upper = ''BOOL'' then wvc_eval w (WvcDataType ''BOOL'') (Some DT_BOOL)
      else if data_type_str_upper = ''DATE'' then wvc_eval w (WvcDataType ''DATE'') (Some DT_DATE)
      else if data_type_str_upper = ''UUID'' then wvc_eval w (WvcDataType ''UUID'') (Some DT_UUID)
      else if data_type_str_upper = ''TEXT_ARRAY'' then
        wvc_eval w (WvcDataType ''TEXT_ARRAY'') (Some DT_TEXT_ARRAY)
      else if data_type_str_upper = ''INT_ARRAY'' then
        wvc_eval w (WvcDataType ''INT_ARRAY'') (Some DT_INT_ARRAY)
      else if data_type_str_upper = ''NUMBER_ARRAY'' then
        wvc_eval w (WvcDataType ''NUMBER_ARRAY'') (Some DT_NUMBER_ARRAY)
      else if data_type_str_upper = ''BOOL_ARRAY'' then
        wvc_eval w (WvcDataType ''BOOL_ARRAY'') (Some DT_BOOL_ARRAY)
      else if data_type_str_upper = ''DATE_ARRAY'' then
        wvc_eval w (WvcDataType ''DATE_ARRAY'') (Some DT_DATE_ARRAY)
      else if data_type_str_upper = ''UUID_ARRAY'' then
        wvc_eval w (WvcDataType ''UUID_ARRAY'') (Some DT_UUID_ARRAY)
      else if data_type_str_upper = ''GEO_COORDINATES'' then
        wvc_eval w (WvcDataType ''GEO_COORDINATES'') (Some DT_GEO_COORDINATES)
      else if data_type_str_upper = ''PHONE_NUMBER'' then
        wvc_eval w (WvcDataType ''PHONE_NUMBER'') (Some DT_PHONE_NUMBER)
      else if data_type_str_upper = ''BLOB'' then wvc_eval w (WvcDataType ''BLOB'') (Some DT_BLOB)
      else
        try_except
          (wvc_eval w (WvcDataType data_type_str_upper) (Some (Member data_type_str_upper)))
          (\<lambda>e. if exn_class_of e = AttributeError then
                 andthen (print (Line ''Warning: Unsupported or unknown dataType '{data_type_str}' for property '{name}'. Skipping this property.''))
                   (ret None)
               else raise e))"

text \<open>The body of the loop of \<open>parse_properties_v4\<close>, for one string: the list
  \<open>properties\<close> after it. The \<open>try\<close> around the body has one clause, \<open>except ValueError\<close>.\<close>

definition parse_property :: "world \<Rightarrow> string \<Rightarrow> property list \<Rightarrow> property list m" where
  "parse_property w prop_str properties =
     try_except
       (bind (lift (unpack2 (split_1 CHR '':'' prop_str))) (\<lambda>parts.
          case parts of (name, data_type_str) \<Rightarrow>
            bind (data_type_enum w (upper w data_type_str)) (\<lambda>found.
              case found of
                None \<Rightarrow> ret properties
              | Some dt \<Rightarrow>
                  wvc_eval w (WvcProperty name dt)
                    (properties @ [\<lparr>prop_name = name, prop_data_type = dt\<rparr>]))))
       (\<lambda>e. if exn_class_of e = ValueError then
              andthen (print (Line ''Warning: Invalid property format '{prop_str}'. Expected 'name:dataType'. Skipping.''))
                (ret properties)
            else raise e)"

fun parse_properties_loop :: "world \<Rightarrow> string list \<Rightarrow> property list \<Rightarrow> property list m" where
  "parse_properties_loop w [] properties = ret properties"
| "parse_properties_loop w (prop_str # rest) properties =
     bind (parse_property w prop_str properties) (parse_properties_loop w rest)"

definition parse_properties_v4 :: "world \<Rightarrow> string list option \<Rightarrow> property list option m" where
  "parse_properties_v4 w props_str_list =
     (case props_str_list of
        None \<Rightarrow> ret None
      | Some strs \<Rightarrow>
          if strs = [] then ret None
          else bind (parse_properties_loop w strs []) (\<lambda>properties.
                 ret (if properties = [] then None else Some properties)))"

section \<open>Collection commands\<close>

text \<open>Lines 231 to 260 of \<open>handle_collection_create\<close>. Python reads the function of
  \<open>wvc.Configure.Vectorizer\<close> before it evaluates the arguments of the call.\<close>

definition vectorizer_config_of :: "world \<Rightarrow> collection_create_opts \<Rightarrow> vectorizer_config option m" where
  "vectorizer_config_of w opts =
     (case cc_vectorizer opts of
        None \<Rightarrow> ret None
      | Some vectorizer \<Rightarrow>
          if vectorizer = [] then ret None
          else
            (let vectorizer_name = lower vectorizer;
                 v_options = (case cc_vectorizer_options opts of
                                None \<Rightarrow> JObj []
                              | Some given \<Rightarrow> if json_truthy given then given else JObj [])
             in if vectorizer_name = ''text2vec-openai'' then
                  andthen (wvc_eval w (WvcVectorizerFunction ''text2vec_openai'') ())
                 (bind (lift (json_get v_options ''model'' JNull)) (\<lambda>model.
                  bind (lift (json_get v_options ''type'' JNull)) (\<lambda>type_arg.
                  bind (lift (json_get v_options ''vectorizeClassName'' (JBool True))) (\<lambda>vectorize_collection_name.
                    wvc_eval w (WvcVectorizer (Text2vecOpenai model type_arg vectorize_collection_name))
                      (Some (Text2vecOpenai model type_arg vectorize_collection_name))))))
                else if vectorizer_name = ''text2vec-cohere'' then
                  andthen (wvc_eval w (WvcVectorizerFunction ''text2vec_cohere'') ())
                 (bind (lift (json_get v_options ''model'' JNull)) (\<lambda>model.
                  bind (lift (json_get v_options ''truncate'' JNull)) (\<lambda>truncate.
                  bind (lift (json_get v_options ''vectorizeClassName'' (JBool True))) (\<lambda>vectorize_collection_name.
                    wvc_eval w (WvcVectorizer (Text2vecCohere model truncate vectorize_collection_name))
                      (Some (Text2vecCohere model truncate vectorize_collection_name))))))
                else if vectorizer_name = ''text2vec-huggingface'' then
                  andthen (wvc_eval w (WvcVectorizerFunction ''text2vec_huggingface'') ())
                 (bind (lift (json_get v_options ''model'' JNull)) (\<lambda>model.
                  bind (lift (json_get v_options ''passageModel'' JNull)) (\<lambda>passage_model.
                  bind (lift (json_get v_options ''queryModel'' JNull)) (\<lambda>query_model.
                  bind (lift (json_get v_options ''options'' JNull)) (\<lambda>options.
                  bind (lift (json_get v_options ''vectorizeClassName'' (JBool True))) (\<lambda>vectorize_collection_name.
                    wvc_eval w (WvcVectorizer (Text2vecHuggingface model passage_model query_model
                                  (cc_vectorizer_source_properties opts) options vectorize_collection_name))
                      (Some (Text2vecHuggingface model passage_model query_model
                               (cc_vectorizer_source_properties opts) options vectorize_collection_name))))))))
                else if vectorizer_name = ''none'' then
                  andthen (wvc_eval w (WvcVectorizerFunction ''none'') ())
                    (wvc_eval w (WvcVectorizer VectorizerNone) (Some VectorizerNone))
                else
                  andthen (print (Line ''Warning: Unknown or unsupported vectorizer '{args.vectorizer}'. No vectorizer will be configured.''))
                    (ret None)))"

text \<open>Lines 262 to 268: \<open>wvc.Configure.replication\<close> and \<open>wvc.Configure.sharding\<close>.\<close>

definition replication_config_of :: "world \<Rightarrow> collection_create_opts \<Rightarrow> int option m" where
  "replication_config_of w opts =
     (case cc_replication_factor opts of
        None \<Rightarrow> ret None
      | Some factor \<Rightarrow> wvc_eval w (WvcReplication factor) (Some factor))"

definition sharding_config_of :: "world \<Rightarrow> collection_create_opts \<Rightarrow> int option m" where
  "sharding_config_of w opts =
     (case cc_shards opts of
        None \<Rightarrow> ret None
      | Some desired_count \<Rightarrow> wvc_eval w (WvcSharding desired_count) (Some desired_count))"

text \<open>\<open>handle_collection_create\<close>. Only \<open>client.collections.create\<close> is inside the \<open>try\<close>:
  the call of \<open>exists\<close>, \<open>parse_properties_v4\<close> and the three configurations come before it.\<close>

definition handle_collection_create :: "world \<Rightarrow> args \<Rightarrow> collection_create_opts \<Rightarrow> unit m" where
  "handle_collection_create w a opts =
     andthen (connect w a)
    (andthen (print (Line ''Attempting to create collection '{args.name}'...''))
    (bind (call_bool w (CollectionsExists (cc_name opts))) (\<lambda>exists.
       if exists then
         print (Line ''Collection '{args.name}' already exists. Skipping creation.'')
       else
         bind (parse_properties_v4 w (cc_property opts)) (\<lambda>properties.
         bind (vectorizer_config_of w opts) (\<lambda>vectorizer_config.
         bind (replication_config_of w opts) (\<lambda>replication_config.
         bind (sharding_config_of w opts) (\<lambda>sharding_config.
           try_except
             (andthen (call_none w (CollectionsCreate
                 \<lparr>create_name = cc_name opts,
                  create_description = cc_description opts,
                  create_properties = properties,
                  create_vectorizer_config = vectorizer_config,
                  create_replication_config = replication_config,
                  create_sharding_config = sharding_config,
                  create_inverted_index_config = JNull\<rparr>))
                (print (Line ''Collection '{args.name}' created successfully.'')))
             (\<lambda>e. if exn_class_of e = WeaviateQueryException
                       \<or> exn_class_of e = WeaviateConnectionError
                   then print (About ''Error creating collection '{args.name}': {e!r}'' e)
                   else print (About ''An unexpected error occurred: {e!r}'' e)))))))))"

definition handle_collection_delete :: "world \<Rightarrow> args \<Rightarrow> string \<Rightarrow> unit m" where
  "handle_collection_delete w a name =
     andthen (connect w a)
    (bind (input_line w ''Are you sure you want to delete collection '{args.name}'? This cannot be undone. (yes/no): '') (\<lambda>confirm.
       if lower confirm \<noteq> ''yes'' then print (Line ''Collection deletion cancelled.'')
       else
         andthen (print (Line ''Attempting to delete collection '{args.name}'...''))
        (try_except
           (andthen (call_none w (CollectionsDelete name))
              (print (Line ''Collection '{args.name}' deleted successfully.'')))
           (\<lambda>e. if exn_class_of e = WeaviateQueryException
                 then print (About ''Error deleting collection '{args.name}': {e!r}'' e)
                 else print (About ''An unexpected error occurred: {e!r}'' e)))))"

text \<open>The lines \<open>handle_collection_list\<close> prints for one configuration.\<close>

definition print_collection_details :: "collection_config \<Rightarrow> unit m" where
  "print_collection_details config =
     andthen (print (Line ''    Description: {config.description}''))
    (andthen (print (Line ''    Properties: {[(p.name, p.data_type, p.description) for p in config.properties] if config.properties else 'None'}''))
    (andthen (print (Line ''    Vectorizer: {config.vectorizer}''))
    (andthen (if cfg_replication_factor config \<noteq> None
              then print (Line ''    Replication Factor: {config.replication_config.factor}'')
              else ret ())
             (if cfg_sharding_config config \<noteq> None
              then print (Line ''    Sharding: Desired={s_config.desired_count}, Actual={s_config.actual_count}, VirtualDesired={s_config.desired_virtual_count}, VirtualActual={s_config.actual_virtual_count}'')
              else ret ()))))"

text \<open>The body of the loop of \<open>handle_collection_list\<close>, for one collection.\<close>

definition collection_list_item :: "world \<Rightarrow> bool \<Rightarrow> string \<Rightarrow> unit m" where
  "collection_list_item w detailed name =
     (if detailed then
        andthen (print (Line ''  Name: {name}''))
          (try_except
             (bind (call_config w (ConfigGet name)) print_collection_details)
             (\<lambda>detail_err. print (About ''    Could not fetch full details for {name}: {detail_err!r}'' detail_err)))
      else print (Line ''  - {name}''))"

fun collection_list_loop :: "world \<Rightarrow> bool \<Rightarrow> string list \<Rightarrow> unit m" where
  "collection_list_loop w detailed [] = ret ()"
| "collection_list_loop w detailed (name # rest) =
     andthen (collection_list_item w detailed name) (collection_list_loop w detailed rest)"

definition handle_collection_list :: "world \<Rightarrow> args \<Rightarrow> bool \<Rightarrow> unit m" where
  "handle_collection_list w a detailed =
     andthen (connect w a)
    (andthen (print (Line ''Fetching list of collections...''))
    (try_except
       (bind (call_names w (CollectionsListAll (\<not> detailed))) (\<lambda>collections_dict.
          if collections_dict \<noteq> [] then
            andthen (print (Line ''Collections:''))
              (collection_list_loop w detailed collections_dict)
          else print (Line ''No collections found.'')))
       (\<lambda>e. if exn_class_of e = WeaviateQueryException
                 \<or> exn_class_of e = WeaviateConnectionError
             then print (About ''Error listing collections: {e!r}'' e)
             else print (About ''An unexpected error occurred: {e!r}'' e))))"

text \<open>\<open>json.dumps\<close> raises TypeError on an object it cannot serialise.\<close>

fun serializable :: "json \<Rightarrow> bool" where
  "serializable (JList xs) = list_all serializable xs"
| "serializable (JObj kvs) = list_all serializable (map snd kvs)"
| "serializable JOpaque = False"
| "serializable j = True"

definition json_dumps :: "json \<Rightarrow> exn + json" where
  "json_dumps j =
     (if serializable j then Inr j
      else Inl (Exn TypeError ''Object is not JSON serializable''))"

definition opt_json :: "json option \<Rightarrow> json" where
  "opt_json x = (case x of None \<Rightarrow> JNull | Some j \<Rightarrow> j)"

text \<open>The dictionary \<open>handle_collection_describe\<close> builds from the attributes when
  \<open>to_dict()\<close> raises.\<close>

definition prop_dict :: "prop_config \<Rightarrow> json" where
  "prop_dict prop =
     JObj [(''name'', JStr (pc_name prop)),
           (''dataType'', (case pc_data_type prop of
                             Inl dts \<Rightarrow> JList (map JStr dts) | Inr dt \<Rightarrow> JStr dt)),
           (''description'', pc_description prop),
           (''indexFilterable'', pc_index_filterable prop),
           (''indexSearchable'', pc_index_searchable prop),
           (''tokenization'', (case pc_tokenization prop of
                                 None \<Rightarrow> JNull | Some t \<Rightarrow> if t = [] then JNull else JStr t)),
           (''vectorizer_module'', (case pc_vectorizer_config prop of
                                      None \<Rightarrow> JStr ''default'' | Some vc \<Rightarrow> JStr (fst vc))),
           (''vectorize_property_name'', (case pc_vectorizer_config prop of
                                            None \<Rightarrow> JBool False | Some vc \<Rightarrow> snd vc))]"

definition fallback_dict :: "collection_config \<Rightarrow> json" where
  "fallback_dict collection_config =
     JObj [(''name'', JStr (cfg_name collection_config)),
           (''description'', cfg_description collection_config),
           (''vectorizer'', JStr (cfg_vectorizer collection_config)),
           (''vector_index_type'', JStr (cfg_vector_index_type collection_config)),
           (''properties'', JList (map prop_dict (cfg_properties collection_config))),
           (''replication_config'', (case cfg_replication_factor collection_config of
                                       None \<Rightarrow> JNull | Some f \<Rightarrow> JObj [(''factor'', f)])),
           (''sharding_config'', opt_json (cfg_sharding_config collection_config)),
           (''inverted_index_config'', opt_json (cfg_inverted_index_config collection_config))]"

definition config_dict :: "collection_config \<Rightarrow> json" where
  "config_dict collection_config =
     (case cfg_to_dict collection_config of
        Inr d \<Rightarrow> d
      | Inl e \<Rightarrow> fallback_dict collection_config)"

definition handle_collection_describe :: "world \<Rightarrow> args \<Rightarrow> string \<Rightarrow> unit m" where
  "handle_collection_describe w a name =
     andthen (connect w a)
    (andthen (print (Line ''Fetching details for collection '{args.name}'...''))
    (try_except
       (bind (call_bool w (CollectionsExists name)) (\<lambda>exists.
          if \<not> exists then print (Line ''Collection '{args.name}' does not exist.'')
          else
            andthen (call_none w (CollectionsGet name))
           (bind (call_config w (ConfigGet name)) (\<lambda>collection_config.
            bind (lift (json_dumps (config_dict collection_config))) (\<lambda>doc.
              print (Json doc))))))
       (\<lambda>e. if exn_class_of e = WeaviateQueryException
                 \<or> exn_class_of e = WeaviateConnectionError
             then print (About ''Error describing collection '{args.name}': {e!r}'' e)
             else print (About ''An unexpected error occurred while describing collection '{args.name}': {type(e).__name__} - {e!r}'' e))))"

section \<open>User commands\<close>

definition handle_user_create :: "world \<Rightarrow> args \<Rightarrow> string \<Rightarrow> string list option \<Rightarrow> unit m" where
  "handle_user_create w a user_id_to_create role_opt =
     andthen (connect w a)
    (let roles_to_assign = (case role_opt of None \<Rightarrow> [] | Some rs \<Rightarrow> rs) in
     andthen (print (Line ''Attempting to create API key for user_id '{user_id_to_create}'...''))
    (try_except
       (bind (call_names w UsersListAll) (\<lambda>existing_keys.
          let user_id_exists = (user_id_to_create \<in> set existing_keys) in
          andthen
            (if user_id_exists \<and> \<not> recreate_api_key a then
               print (Line ''User_id '{user_id_to_create}' already has an API key. Use --recreate-api-key to force.'')
             else
               andthen
                 (if user_id_exists \<and> recreate_api_key a then
                    andthen (print (Line ''  --recreate-api-key: Deleting existing API key for '{user_id_to_create}'...''))
                      (try_except
                         (andthen (call_none w (UsersDelete user_id_to_create))
                            (print (Line ''  Deleted existing API key for '{user_id_to_create}'.'')))
                         (\<lambda>del_err. print (About ''  Warning: Failed to delete existing API key for '{user_id_to_create}': {del_err!r}'' del_err)))
                  else ret ())
                (bind (call_str w (UsersCreate user_id_to_create)) (\<lambda>key_str.
                 andthen (print (Line ''  SUCCESS: API key generated for user_id '{user_id_to_create}'.''))
                   (print (Line ''  IMPORTANT: Store this API key securely: {key_str} (This key is shown only once).'')))))
            (if roles_to_assign \<noteq> [] then
               andthen (print (Line ''  Assigning roles {roles_to_assign} to user_id '{user_id_to_create}'...''))
              (andthen (call_none w (UsersAssignRoles user_id_to_create roles_to_assign))
                 (print (Line ''  Successfully assigned roles to '{user_id_to_create}'.'')))
             else print (Line ''  No roles specified to assign to user_id '{user_id_to_create}'.''))))
       (\<lambda>e. if exn_class_of e = WeaviateQueryException
             then print (About ''Error processing user_id '{user_id_to_create}': {e!r}'' e)
             else print (About ''An unexpected error occurred while processing user_id '{user_id_to_create}': {e!r}'' e))))"

definition handle_user_delete :: "world \<Rightarrow> args \<Rightarrow> string \<Rightarrow> unit m" where
  "handle_user_delete w a user_id_to_delete =
     andthen (connect w a)
    (bind (input_line w ''Are you sure you want to delete user_id '{user_id_to_delete}' and its API key(s)? This cannot be undone. (yes/no): '') (\<lambda>confirm.
       if lower confirm \<noteq> ''yes'' then print (Line ''User_id deletion cancelled.'')
       else
         andthen (print (Line ''Attempting to delete user_id '{user_id_to_delete}' and its API key(s)...''))
        (try_except
           (andthen (call_none w (UsersDelete user_id_to_delete))
              (print (Line ''User_id '{user_id_to_delete}' and associated API key(s) deleted successfully.'')))
           (\<lambda>e. if exn_class_of e = WeaviateQueryException then
                   (if contains (lower (exn_text e)) ''not found''
                    then print (Line ''User_id '{user_id_to_delete}' not found. Nothing to delete.'')
                    else print (About ''Error deleting user_id '{user_id_to_delete}': {e!r}'' e))
                 else print (About ''An unexpected error occurred: {e!r}'' e)))))"

fun is_str :: "role_item \<Rightarrow> bool" where
  "is_str (ItemStr n) = True"
| "is_str r = False"

fun has_name :: "role_item \<Rightarrow> bool" where
  "has_name (ItemRole r) = True"
| "has_name r = False"

text \<open>The body of the loop of \<open>handle_user_list\<close>, for one user.\<close>

definition user_list_item :: "world \<Rightarrow> string \<Rightarrow> unit m" where
  "user_list_item w user_id =
     andthen
       (try_except
          (bind (call_items w (UsersGetAssignedRoles user_id)) (\<lambda>roles_data.
             if roles_data \<noteq> [] then
               (if list_all is_str roles_data then ret ()
                else if list_all has_name roles_data then ret ()
                else print (Line ''    Warning: Unexpected format for roles_data for user_id '{user_id}': {roles_data!r}. Displaying as strings.''))
             else ret ()))
          (\<lambda>role_err. print (About ''    Could not fetch roles for user_id '{user_id}': {role_err!r}'' role_err)))
       (print (Line ''  - User ID: {user_id}, Roles: {assigned_roles if assigned_roles else 'None'}''))"

fun user_list_loop :: "world \<Rightarrow> string list \<Rightarrow> unit m" where
  "user_list_loop w [] = ret ()"
| "user_list_loop w (user_id # rest) =
     andthen (user_list_item w user_id) (user_list_loop w rest)"

definition handle_user_list :: "world \<Rightarrow> args \<Rightarrow> unit m" where
  "handle_user_list w a =
     andthen (connect w a)
    (andthen (print (Line ''Fetching list of user_ids with API keys and their assigned roles...''))
    (try_except
       (bind (call_names w UsersListAll) (\<lambda>api_keys_list.
          if api_keys_list \<noteq> [] then
            andthen (print (Line ''User_IDs with API Keys:''))
              (user_list_loop w api_keys_list)
          else print (Line ''No user_ids with API keys found.'')))
       (\<lambda>e. if exn_class_of e = WeaviateQueryException
                 \<or> exn_class_of e = WeaviateConnectionError
             then print (About ''Error listing user_ids: {e!r}'' e)
             else print (About ''An unexpected error occurred: {e!r}'' e))))"

definition handle_user_update_roles :: "world \<Rightarrow> args \<Rightarrow> string \<Rightarrow> string list option \<Rightarrow> unit m" where
  "handle_user_update_roles w a user_id_to_update role_opt =
     andthen (connect w a)
    (let new_roles = (case role_opt of None \<Rightarrow> [] | Some rs \<Rightarrow> rs) in
     andthen (print (Line ''Attempting to set roles for user_id '{user_id_to_update}' to: {new_roles}...''))
    (try_except
       (andthen (call_none w (UsersAssignRoles user_id_to_update new_roles))
          (print (Line ''Roles for user_id '{user_id_to_update}' set successfully to: {new_roles if new_roles else 'None (all removed)'}.'')))
       (\<lambda>e. if exn_class_of e = WeaviateQueryException
             then print (About ''Error setting roles for user_id '{user_id_to_update}': {e!r}.'' e)
             else print (About ''An unexpected error occurred: {e!r}'' e))))"

section \<open>Role commands\<close>

definition role_permissions_list :: "role_create_opts \<Rightarrow> permission list" where
  "role_permissions_list opts =
     [PermissionsCollections (rc_collection_pattern opts)
        (rc_allow_collection_create opts) (rc_allow_collection_read_config opts)
        (rc_allow_collection_update_config opts) (rc_allow_collection_delete opts),
      PermissionsData (rc_collection_pattern opts)
        (rc_allow_data_create opts) (rc_allow_data_read opts)
        (rc_allow_data_update opts) (rc_allow_data_delete opts)]"

definition handle_role_create :: "world \<Rightarrow> args \<Rightarrow> role_create_opts \<Rightarrow> unit m" where
  "handle_role_create w a opts =
     andthen (connect w a)
    (andthen (print (Line ''Attempting to create role '{args.role_name}'...''))
    (try_except
       (bind (call_bool w (RolesExists (rc_role_name opts))) (\<lambda>exists.
          if exists then print (Line ''Role '{args.role_name}' already exists. Skipping creation.'')
          else
            (let permissions_list = role_permissions_list opts in
             andthen (print (Line ''  Constructed permissions for role '{args.role_name}':''))
            (andthen (print_all (map (\<lambda>p_obj. Line ''    - {p_obj}'') permissions_list))
            (andthen (call_none w (RolesCreate (rc_role_name opts) permissions_list))
               (print (Line ''Role '{args.role_name}' created successfully.'')))))))
       (\<lambda>e. if exn_class_of e = WeaviateQueryException
             then print (About ''Error creating role '{args.role_name}': {e.message if hasattr(e, 'message') else e!r}'' e)
             else print (About ''An unexpected error occurred while creating role '{args.role_name}': {e!r}'' e))))"

definition handle_role_delete :: "world \<Rightarrow> args \<Rightarrow> string \<Rightarrow> unit m" where
  "handle_role_delete w a role_name_arg =
     andthen (connect w a)
    (bind (input_line w ''Are you sure you want to delete role '{args.role_name}'? This cannot be undone. (yes/no): '') (\<lambda>confirm.
       if lower confirm \<noteq> ''yes'' then print (Line ''Role deletion cancelled.'')
       else
         andthen (print (Line ''Attempting to delete role '{args.role_name}'...''))
        (try_except
           (andthen (call_none w (RolesDelete role_name_arg))
              (print (Line ''Role '{args.role_name}' deleted successfully.'')))
           (\<lambda>e. if exn_class_of e = WeaviateQueryException then
                   (if contains (lower (exn_text e)) ''not found''
                    then print (Line ''Role '{args.role_name}' not found. Nothing to delete.'')
                    else print (About ''Error deleting role '{args.role_name}': {e.message if hasattr(e, 'message') else e!r}'' e))
                 else print (About ''An unexpected error occurred: {e!r}'' e)))))"

definition handle_role_get :: "world \<Rightarrow> args \<Rightarrow> string \<Rightarrow> unit m" where
  "handle_role_get w a role_name_arg =
     andthen (connect w a)
    (andthen (print (Line ''Fetching details for role '{args.role_name}'...''))
    (try_except
       (bind (call_role w (RolesGet role_name_arg)) (\<lambda>role.
          case role of
            Some r \<Rightarrow>
              andthen (print (Line ''Role Name: {role.name}''))
             (andthen (print (Line ''Permissions:''))
                (case role_permissions r of
                   None \<Rightarrow> raise (Exn AttributeError ''Role object has no attribute permissions'')
                 | Some perms \<Rightarrow>
                     if perms \<noteq> [] then print_all (map (\<lambda>perm. Line ''  - {perm}'') perms)
                     else print (Line ''  - No permissions defined for this role.'')))
          | None \<Rightarrow> print (Line ''Role '{args.role_name}' not found.'')))
       (\<lambda>e. if exn_class_of e = WeaviateQueryException then
               (if contains (lower (exn_text e)) ''not found''
                then print (Line ''Role '{args.role_name}' not found.'')
                else print (About ''Error fetching role '{args.role_name}': {e.message if hasattr(e, 'message') else e!r}'' e))
             else print (About ''An unexpected error occurred: {e!r}'' e))))"

text \<open>What \<open>handle_role_list\<close> prints for one role once its name and permissions are
  known.\<close>

definition print_role :: "bool \<Rightarrow> string list \<Rightarrow> unit m" where
  "print_role detailed permissions_to_display =
     andthen (print (Line ''  Role Name: {role_name_to_display}''))
       (if detailed then
          (if permissions_to_display \<noteq> [] then
             andthen (print (Line ''    Permissions:''))
               (print_all (map (\<lambda>perm. Line ''      - {perm}'') permissions_to_display))
           else print (Line ''    Permissions: None defined or could not be fetched.''))
        else ret ())"

definition permissions_of :: "role \<Rightarrow> string list" where
  "permissions_of r = (case role_permissions r of None \<Rightarrow> [] | Some perms \<Rightarrow> perms)"

text \<open>The body of the loop of \<open>handle_role_list\<close>, for one item; an item that is
  neither a role object nor a string is reported and skipped.\<close>

definition role_list_item :: "world \<Rightarrow> bool \<Rightarrow> role_item \<Rightarrow> unit m" where
  "role_list_item w detailed role_item =
     (case role_item of
        ItemRole r \<Rightarrow> print_role detailed (permissions_of r)
      | ItemStr role_name_to_display \<Rightarrow>
          bind
            (if detailed then
               try_except
                 (bind (call_role w (RolesGet role_name_to_display)) (\<lambda>detailed_role.
                    ret (case detailed_role of None \<Rightarrow> [] | Some r \<Rightarrow> permissions_of r)))
                 (\<lambda>detail_err.
                    andthen (print (About ''    Could not fetch details for role '{role_name_to_display}': {detail_err!r}'' detail_err))
                      (ret []))
             else ret [])
            (print_role detailed)
      | ItemOther \<Rightarrow> print (Line ''  Unrecognized role item format: {role_item!r}''))"

fun role_list_loop :: "world \<Rightarrow> bool \<Rightarrow> role_item list \<Rightarrow> unit m" where
  "role_list_loop w detailed [] = ret ()"
| "role_list_loop w detailed (role_item # rest) =
     andthen (role_list_item w detailed role_item) (role_list_loop w detailed rest)"

definition handle_role_list :: "world \<Rightarrow> args \<Rightarrow> bool \<Rightarrow> unit m" where
  "handle_role_list w a detailed =
     andthen (connect w a)
    (andthen (print (Line ''Fetching all defined roles...''))
    (try_except
       (bind (call_items w RolesListAll) (\<lambda>all_roles_data.
          if all_roles_data \<noteq> [] then
            andthen (print (Line ''Defined Roles:''))
              (role_list_loop w detailed all_roles_data)
          else print (Line ''No roles defined on the server.'')))
       (\<lambda>e. if exn_class_of e = WeaviateQueryException
                 \<or> exn_class_of e = WeaviateConnectionError
             then print (About ''Error listing roles: {e!r}'' e)
             else print (About ''An unexpected error occurred: {e!r}'' e))))"

section \<open>The main program\<close>

text \<open>\<open>args.func(args)\<close>: each subparser sets \<open>func\<close> to its handler.\<close>

definition func :: "world \<Rightarrow> args \<Rightarrow> unit m" where
  "func w a =
     (case command a of
        CollectionCreate opts \<Rightarrow> handle_collection_create w a opts
      | CollectionDelete name \<Rightarrow> handle_collection_delete w a name
      | CollectionList detailed \<Rightarrow> handle_collection_list w a detailed
      | CollectionDescribe name \<Rightarrow> handle_collection_describe w a name
      | UserCreate user_id roles \<Rightarrow> handle_user_create w a user_id roles
      | UserDelete user_id \<Rightarrow> handle_user_delete w a user_id
      | UserList \<Rightarrow> handle_user_list w a
      | UserUpdateRoles user_id roles \<Rightarrow> handle_user_update_roles w a user_id roles
      | RoleCreate opts \<Rightarrow> handle_role_create w a opts
      | RoleDelete name \<Rightarrow> handle_role_delete w a name
      | RoleGet name \<Rightarrow> handle_role_get w a name
      | RoleList detailed \<Rightarrow> handle_role_list w a detailed)"

text \<open>Lines 731 to 740 of \<open>main\<close>: a setting the command line left at None is read from
  the configuration file with \<open>get\<close>, which raises AttributeError when the file does not
  hold a mapping; a setting that the command line gives is not looked up.\<close>

definition merge_config :: "yaml_doc \<Rightarrow> args \<Rightarrow> args m" where
  "merge_config config_from_file a =
     bind (if url a \<noteq> PNone then ret (url a)
           else lift (config_get config_from_file ''weaviate_url'' PNone)) (\<lambda>final_url.
     bind (if root_key a \<noteq> PNone then ret (root_key a)
           else bind (lift (config_get config_from_file ''root_key'' PNone)) (\<lambda>file_root_key.
                  lift (config_get config_from_file ''api_key'' file_root_key))) (\<lambda>final_api_key.
     bind (if arg_grpc_host a \<noteq> PNone then ret (arg_grpc_host a)
           else lift (config_get config_from_file ''grpc_host'' PNone)) (\<lambda>final_grpc_host.
     bind (if arg_grpc_port a \<noteq> PNone then ret (arg_grpc_port a)
           else lift (config_get config_from_file ''grpc_port'' PNone)) (\<lambda>final_grpc_port.
       ret (a\<lparr>url := final_url, root_key := final_api_key,
              arg_grpc_host := final_grpc_host, arg_grpc_port := final_grpc_port\<rparr>)))))"

text \<open>\<open>os.environ.get("WEAVIATE_API_KEY", os.environ.get("WEAVIATE_ROOT_KEY"))\<close>.\<close>

definition environ_key :: "world \<Rightarrow> pyval" where
  "environ_key w =
     (case environ w ''WEAVIATE_API_KEY'' of
        Some v \<Rightarrow> PStr v
      | None \<Rightarrow> (case environ w ''WEAVIATE_ROOT_KEY'' of Some v \<Rightarrow> PStr v | None \<Rightarrow> PNone))"

text \<open>Lines 754 to 760 of \<open>main\<close>: the key from the environment and then from the
  prompt, when the merged key is empty.\<close>

definition require_root_key :: "world \<Rightarrow> args \<Rightarrow> args m" where
  "require_root_key w a =
     (if \<not> truthy (root_key a) then
        (let env_key = environ_key w in
         if \<not> truthy env_key then
           andthen (print (Line ''Weaviate API key not provided via CLI, config file, or environment variables.''))
          (bind (try_except (lift (getpass w))
                   (\<lambda>e. andthen (print (About ''Error reading API key: {e!r}'' e))
                        (andthen (close_connection w) (sys_exit 1))))
             (\<lambda>entered.
                if entered = [] then
                  andthen (print (Line ''Error: Admin API Key is required for this command.''))
                 (andthen (close_connection w) (sys_exit 1))
                else ret (a\<lparr>root_key := PStr entered\<rparr>)))
         else ret (a\<lparr>root_key := env_key\<rparr>))
      else ret a)"

text \<open>\<open>main\<close> after \<open>parser.parse_args()\<close>. Lines 742 to 752, for a command line without
  command or action, are not reached, because the subparsers are required; and every
  subparser sets \<open>func\<close>, so the \<open>else\<close> of line 765 is not reached either.\<close>

definition main :: "world \<Rightarrow> args \<Rightarrow> unit m" where
  "main w a =
     andthen (print_client_version w)
    (bind (case config_file a of
             None \<Rightarrow> ret (YMapping Map.empty)
           | Some file_path \<Rightarrow>
               if file_path = [] then ret (YMapping Map.empty)
               else load_config_from_yaml w file_path)
       (\<lambda>config_from_file.
     bind (merge_config config_from_file a) (\<lambda>merged.
     bind (require_root_key w merged) (\<lambda>a'.
       try_finally (func w a') (close_connection w)))))"

text \<open>A process starts with no client, nothing printed and no request made. It ends with
  status 0 when \<open>main\<close> returns, with \<open>n\<close> after \<open>exit(n)\<close>, and with 1 when an exception
  reaches the top level.\<close>

definition initial :: state where
  "initial = \<lparr>client = False, printed = [], calls = []\<rparr>"

fun exit_status :: "'a res \<Rightarrow> nat" where
  "exit_status (Val x) = 0"
| "exit_status (Exit n) = n"
| "exit_status (Raise e) = 1"

definition run :: "world \<Rightarrow> args \<Rightarrow> unit res \<times> state" where
  "run w a = main w a initial"

section \<open>Observations on a run\<close>

text \<open>The requests that manage the connection; every other request is a data request
  against the server.\<close>

fun is_conn :: "request \<Rightarrow> bool" where
  "is_conn (ConnectToCustom c) = True"
| "is_conn IsConnected = True"
| "is_conn IsReady = True"
| "is_conn IsLive = True"
| "is_conn Close = True"
| "is_conn rq = False"

definition conn_event :: "event \<Rightarrow> bool" where
  "conn_event ev = is_conn (fst ev)"

definition data_event :: "event \<Rightarrow> bool" where
  "data_event ev = (\<not> is_conn (fst ev))"

definition data_calls :: "event list \<Rightarrow> event list" where
  "data_calls evs = filter data_event evs"

text \<open>The readiness check that answered True: the one point after which
  \<open>connect_to_weaviate\<close> binds the module-level \<open>client\<close>.\<close>

definition ready_true :: event where
  "ready_true = (IsReady, Inr (RBool True))"

text \<open>A connection attempt carries the fixed timeout configuration.\<close>

definition fixed_timeouts :: "event \<Rightarrow> bool" where
  "fixed_timeouts ev =
     (case fst ev of
        ConnectToCustom c \<Rightarrow> timeout c = (20, 120) \<and> startup_period c = 30
      | _ \<Rightarrow> True)"

text \<open>The number of items in the answer to the first request of a list of events, when
  that answer is a listing.\<close>

fun listed :: "event list \<Rightarrow> nat" where
  "listed ((rq, Inr (RNames names)) # evs) = length names"
| "listed ((rq, Inr (RItems items)) # evs) = length items"
| "listed evs = 0"

text \<open>How many data requests a subcommand may make, given the data requests it made.\<close>

definition call_bound :: "command \<Rightarrow> event list \<Rightarrow> nat" where
  "call_bound c evs =
     (case c of
        CollectionCreate opts \<Rightarrow> 2
      | CollectionDelete name \<Rightarrow> 1
      | CollectionList detailed \<Rightarrow> 1 + (if detailed then listed evs else 0)
      | CollectionDescribe name \<Rightarrow> 3
      | UserCreate user_id roles \<Rightarrow> 4
      | UserDelete user_id \<Rightarrow> 1
      | UserList \<Rightarrow> 1 + listed evs
      | UserUpdateRoles user_id roles \<Rightarrow> 1
      | RoleCreate opts \<Rightarrow> 2
      | RoleDelete name \<Rightarrow> 1
      | RoleGet name \<Rightarrow> 1
      | RoleList detailed \<Rightarrow> 1 + (if detailed then listed evs else 0))"

fun is_destructive :: "command \<Rightarrow> bool" where
  "is_destructive (CollectionDelete name) = True"
| "is_destructive (UserDelete user_id) = True"
| "is_destructive (RoleDelete name) = True"
| "is_destructive c = False"

text \<open>The JSON documents among the printed lines.\<close>

fun jsons :: "out list \<Rightarrow> json list" where
  "jsons [] = []"
| "jsons (Json j # ls) = j # jsons ls"
| "jsons (l # ls) = jsons ls"

text \<open>The exceptions that printed lines describe.\<close>

fun described :: "out list \<Rightarrow> exn list" where
  "described [] = []"
| "described (About t e # ls) = e # described ls"
| "described (l # ls) = described ls"

text \<open>The collection configurations that \<open>config.get()\<close> returned.\<close>

fun fetched_configs :: "event list \<Rightarrow> collection_config list" where
  "fetched_configs [] = []"
| "fetched_configs ((ConfigGet name, Inr (RConfig cfg)) # evs) = cfg # fetched_configs evs"
| "fetched_configs (ev # evs) = fetched_configs evs"

text \<open>The documents \<open>json.dumps\<close> makes of a list of configurations.\<close>

definition dumped :: "collection_config list \<Rightarrow> json list" where
  "dumped cfgs = map config_dict (filter (\<lambda>cfg. serializable (config_dict cfg)) cfgs)"

subsection \<open>What \<open>collection describe\<close> reports\<close>

text \<open>The line that reports an exception caught by \<open>handle_collection_describe\<close>.\<close>

definition describe_error :: "exn \<Rightarrow> out" where
  "describe_error e =
     (if exn_class_of e = WeaviateQueryException \<or> exn_class_of e = WeaviateConnectionError
      then About ''Error describing collection '{args.name}': {e!r}'' e
      else About ''An unexpected error occurred while describing collection '{args.name}': {type(e).__name__} - {e!r}'' e)"

text \<open>
  The report that goes with the last data request of \<open>collection describe\<close>: the exception
  when the request raised; \<open>does not exist\<close> when \<open>exists\<close> answered False; and for a
  configuration that \<open>config.get()\<close> returned, its JSON document, or the TypeError of
  \<open>json.dumps\<close> when it cannot be serialised.
\<close>

fun describe_report :: "event \<Rightarrow> out option" where
  "describe_report (rq, Inl e) = Some (describe_error e)"
| "describe_report (CollectionsExists name, Inr (RBool False))
     = Some (Line ''Collection '{args.name}' does not exist.'')"
| "describe_report (ConfigGet name, Inr (RConfig cfg))
     = Some (if serializable (config_dict cfg) then Json (config_dict cfg)
             else describe_error (Exn TypeError ''Object is not JSON serializable''))"
| "describe_report ev = None"

subsection \<open>Precedence of the sources of a setting\<close>

text \<open>The first value that is not None, and the first value that is true (neither None
  nor empty).\<close>

fun first_given :: "pyval list \<Rightarrow> pyval" where
  "first_given [] = PNone"
| "first_given (v # vs) = (if v \<noteq> PNone then v else first_given vs)"

fun first_truthy :: "pyval list \<Rightarrow> pyval" where
  "first_truthy [] = PNone"
| "first_truthy (v # vs) = (if truthy v then v else first_truthy vs)"

text \<open>The configuration \<open>main\<close> works with: the empty mapping without \<open>--config-file\<close>,
  when the file cannot be loaded and when what it holds is false; otherwise what it holds.\<close>

definition config_from_file :: "world \<Rightarrow> args \<Rightarrow> yaml_doc" where
  "config_from_file w a =
     (case config_file a of
        None \<Rightarrow> YMapping Map.empty
      | Some file_path \<Rightarrow>
          if file_path = [] then YMapping Map.empty
          else (case load_yaml w file_path of
                  Inl e \<Rightarrow> YMapping Map.empty
                | Inr config \<Rightarrow> if doc_truthy config then config else YMapping Map.empty))"

text \<open>The value the file gives to a key: None when the file does not hold a mapping.\<close>

definition file_value :: "world \<Rightarrow> args \<Rightarrow> string \<Rightarrow> pyval" where
  "file_value w a key =
     (case config_from_file w a of YMapping d \<Rightarrow> dict_get d key | _ \<Rightarrow> PNone)"

text \<open>The key of the file: \<open>api_key\<close>, or \<open>root_key\<close> when the file has no \<open>api_key\<close>.\<close>

definition file_key :: "world \<Rightarrow> args \<Rightarrow> pyval" where
  "file_key w a =
     (case config_from_file w a of
        YMapping d \<Rightarrow> dict_get_default d ''api_key'' (dict_get d ''root_key'')
      | _ \<Rightarrow> PNone)"

text \<open>The file holds something other than a mapping, and one of the four settings is not
  given on the command line, so that \<open>main\<close> looks it up in the file.\<close>

definition unreadable :: "world \<Rightarrow> args \<Rightarrow> bool" where
  "unreadable w a =
     ((case config_from_file w a of YMapping d \<Rightarrow> False | _ \<Rightarrow> True)
      \<and> (url a = PNone \<or> root_key a = PNone \<or> arg_grpc_host a = PNone \<or> arg_grpc_port a = PNone))"

text \<open>What the terminal gave to the prompt for the key.\<close>

definition prompted_key :: "world \<Rightarrow> pyval" where
  "prompted_key w = (case getpass w of Inl e \<Rightarrow> PNone | Inr entered \<Rightarrow> PStr entered)"

text \<open>An environment variable as a value: None when it is not set.\<close>

definition env_var :: "world \<Rightarrow> string \<Rightarrow> pyval" where
  "env_var w var = (case environ w var of None \<Rightarrow> PNone | Some v \<Rightarrow> PStr v)"

text \<open>
  The settings by precedence. URL, gRPC host and gRPC port: the command line if it gives
  the setting, otherwise the configuration file. Key: the command line if it gives one,
  even an empty one, otherwise the file; when the key so chosen is None or empty, the
  environment (\<open>WEAVIATE_API_KEY\<close> if set, even to the empty string, otherwise
  \<open>WEAVIATE_ROOT_KEY\<close>); when that is None or empty too, the prompt.
\<close>

definition chosen_url :: "world \<Rightarrow> args \<Rightarrow> pyval" where
  "chosen_url w a = first_given [url a, file_value w a ''weaviate_url'']"

definition chosen_grpc_host :: "world \<Rightarrow> args \<Rightarrow> pyval" where
  "chosen_grpc_host w a = first_given [arg_grpc_host a, file_value w a ''grpc_host'']"

definition chosen_grpc_port :: "world \<Rightarrow> args \<Rightarrow> pyval" where
  "chosen_grpc_port w a = first_given [arg_grpc_port a, file_value w a ''grpc_port'']"

definition chosen_key :: "world \<Rightarrow> args \<Rightarrow> pyval" where
  "chosen_key w a =
     first_truthy
       [first_given [root_key a, file_key w a],
        first_given [env_var w ''WEAVIATE_API_KEY'', env_var w ''WEAVIATE_ROOT_KEY''],
        prompted_key w]"

text \<open>The arguments the handler is called with: none when no source gives a key that is
  not empty.\<close>

definition effective_args :: "world \<Rightarrow> args \<Rightarrow> args option" where
  "effective_args w a =
     (if truthy (chosen_key w a) then
        Some (a\<lparr>url := chosen_url w a,
                root_key := chosen_key w a,
                arg_grpc_host := chosen_grpc_host w a,
                arg_grpc_port := chosen_grpc_port w a\<rparr>)
      else None)"

subsection \<open>Summaries used in the proofs\<close>

text \<open>
  \<open>bounded bnd m\<close>: from any state, \<open>m\<close> only appends data requests to the log, at most
  \<open>bnd\<close> of them, and leaves \<open>client\<close> as it was.
\<close>

definition bounded :: "(event list \<Rightarrow> nat) \<Rightarrow> 'a m \<Rightarrow> bool" where
  "bounded bnd m =
     (\<forall>s. \<exists>ext. calls (snd (m s)) = calls s @ ext \<and> list_all data_event ext
            \<and> length ext \<le> bnd ext \<and> client (snd (m s)) = client s)"

definition emits :: "nat \<Rightarrow> 'a m \<Rightarrow> bool" where
  "emits n m = bounded (\<lambda>ext. n) m"

text \<open>\<open>quiet m\<close>: \<open>m\<close> makes no request, leaves \<open>client\<close> as it was and prints no JSON
  document.\<close>

definition quiet :: "'a m \<Rightarrow> bool" where
  "quiet m =
     (\<forall>s. calls (snd (m s)) = calls s \<and> client (snd (m s)) = client s
          \<and> jsons (printed (snd (m s))) = jsons (printed s))"

text \<open>\<open>returns m\<close>: \<open>m\<close> always returns normally. \<open>no_exit m\<close>: \<open>m\<close> never leaves through
  \<open>exit\<close>.\<close>

definition returns :: "'a m \<Rightarrow> bool" where
  "returns m = (\<forall>s. \<exists>x. fst (m s) = Val x)"

definition no_exit :: "'a m \<Rightarrow> bool" where
  "no_exit m = (\<forall>s n. fst (m s) \<noteq> Exit n)"

text \<open>
  The two ways a connection attempt from a process without client ends: failed, with
  \<open>exit(1)\<close>, only connection requests made, none of them a readiness check that answered
  True, and no client bound; or connected, with two requests made and the client bound.
\<close>

definition failed_state :: "state \<Rightarrow> state \<Rightarrow> bool" where
  "failed_state s s' =
     (\<not> client s' \<and> jsons (printed s') = jsons (printed s)
      \<and> (\<exists>ext. calls s' = calls s @ ext \<and> list_all conn_event ext
             \<and> list_all fixed_timeouts ext \<and> ready_true \<notin> set ext))"

definition connect_failure :: "state \<Rightarrow> 'a res \<times> state \<Rightarrow> bool" where
  "connect_failure s rs = (fst rs = Exit 1 \<and> failed_state s (snd rs))"

definition connected :: "state \<Rightarrow> state \<Rightarrow> bool" where
  "connected s s' =
     (client s' \<and> jsons (printed s') = jsons (printed s)
      \<and> (\<exists>c. calls s' = calls s @ [(ConnectToCustom c, Inr RNone), ready_true]
             \<and> timeout c = (20, 120) \<and> startup_period c = 30))"

text \<open>What a handler does from a process without client: the connection fails, or it
  connects and then makes data requests within the bound.\<close>

definition handler_ok :: "(event list \<Rightarrow> nat) \<Rightarrow> 'a m \<Rightarrow> bool" where
  "handler_ok bnd m =
     (\<forall>s. \<not> client s \<longrightarrow>
        connect_failure s (m s)
        \<or> (\<exists>s1 dat. connected s s1 \<and> client (snd (m s))
              \<and> calls (snd (m s)) = calls s1 @ dat
              \<and> list_all data_event dat \<and> length dat \<le> bnd dat))"

section \<open>Sample environments\<close>

text \<open>
  The module \<open>weaviate.classes\<close> of weaviate-client 4.x: it holds submodules (\<open>config\<close>,
  \<open>rbac\<close>, from which the tool itself imports \<open>Permissions\<close>, and others) and none of the
  names \<open>DataType\<close>, \<open>Property\<close> and \<open>Configure\<close>, which are defined in
  \<open>weaviate.classes.config\<close>; so every expression the tool evaluates on \<open>wvc\<close> raises
  AttributeError.
\<close>

definition client_v4_wvc :: "wvc_expr \<Rightarrow> exn option" where
  "client_v4_wvc expr =
     Some (Exn AttributeError
       (case expr of
          WvcDataType member_name \<Rightarrow> ''module 'weaviate.classes' has no attribute 'DataType' ''
        | WvcProperty name dt \<Rightarrow> ''module 'weaviate.classes' has no attribute 'Property' ''
        | _ \<Rightarrow> ''module 'weaviate.classes' has no attribute 'Configure' ''))"

text \<open>A module that defines them, with the members \<open>OBJECT\<close> and \<open>OBJECT_ARRAY\<close> next to
  the fifteen that \<open>parse_properties_v4\<close> names.\<close>

definition flat_wvc :: "wvc_expr \<Rightarrow> exn option" where
  "flat_wvc expr =
     (case expr of
        WvcDataType member_name \<Rightarrow>
          if member_name \<in> set [''TEXT'', ''INT'', ''NUMBER'', ''BOOL'', ''DATE'', ''UUID'',
               ''TEXT_ARRAY'', ''INT_ARRAY'', ''NUMBER_ARRAY'', ''BOOL_ARRAY'', ''DATE_ARRAY'',
               ''UUID_ARRAY'', ''GEO_COORDINATES'', ''PHONE_NUMBER'', ''BLOB'', ''OBJECT'',
               ''OBJECT_ARRAY'']
          then None
          else Some (Exn AttributeError ''type object 'DataType' has no attribute '{name}' '')
      | _ \<Rightarrow> None)"

text \<open>The UTF-8 encoding of \<open>int\<close> written with a dotless i, whose upper case is \<open>INT\<close>.\<close>

definition dotless_int :: string where
  "dotless_int = [CHR 0xC4, CHR 0xB1, CHR ''n'', CHR ''t'']"

text \<open>A server that answers every request, a terminal that answers the confirmation
  with \<open>no\<close>, a URL parser that finds \<open>http://localhost:8080\<close>, and weaviate-client 4.14.\<close>

definition demo_world :: world where
  "demo_world =
     \<lparr>version = Inr ''4.14.1'',
      wvc = client_v4_wvc,
      unicode_upper = (\<lambda>s. if s = dotless_int then ''INT'' else s),
      load_yaml = (\<lambda>file_path. Inl (Exn FileNotFoundError ''No such file or directory'')),
      environ = Map.empty,
      getpass = Inr ''secret'',
      stdin_input = Inr ''no'',
      urlparse = (\<lambda>u. Inr \<lparr>scheme = ''http'', hostname = Some ''localhost'', port = Inr (Some 8080)\<rparr>),
      sdk_none = (\<lambda>h rq. Inr ()),
      sdk_bool = (\<lambda>h rq. Inr True),
      sdk_str = (\<lambda>h rq. Inr ''generated-key''),
      sdk_names = (\<lambda>h rq. Inr [''alice'', ''bob'']),
      sdk_config = (\<lambda>h rq. Inl (Exn OtherException ''no configuration'')),
      sdk_role = (\<lambda>h rq. Inr None),
      sdk_items = (\<lambda>h rq. Inr [])\<rparr>"

definition demo_args :: "command \<Rightarrow> args" where
  "demo_args c =
     \<lparr>config_file = None, url = PStr ''http://localhost:8080'', root_key = PStr ''admin'',
      arg_grpc_host = PNone, arg_grpc_port = PNone, recreate_api_key = True, command = c\<rparr>"

text \<open>The same, with a server whose \<open>collections.exists\<close> raises.\<close>

definition exists_raises_world :: world where
  "exists_raises_world =
     demo_world\<lparr>sdk_bool :=
       (\<lambda>h rq. case rq of
          CollectionsExists name \<Rightarrow> Inl (Exn WeaviateQueryException ''Query call failed'')
        | _ \<Rightarrow> Inr True)\<rparr>"

text \<open>The same, with a server that is ready and knows no collection.\<close>

definition empty_server_world :: world where
  "empty_server_world = demo_world\<lparr>sdk_bool := (\<lambda>h rq. Inr (rq = IsReady))\<rparr>"

text \<open>The same, with every environment variable set to a URL.\<close>

definition env_url_world :: world where
  "env_url_world = demo_world\<lparr>environ := (\<lambda>var. Some ''http://envhost:8080'')\<rparr>"

text \<open>The same, with a configuration file that gives a key, a gRPC host and a gRPC port,
  and with the variable \<open>WEAVIATE_API_KEY\<close> set; and the command line that names the file
  and gives the URL only.\<close>

definition yaml_world :: world where
  "yaml_world =
     demo_world\<lparr>load_yaml := (\<lambda>file_path. Inr (YMapping
                    [''api_key'' \<mapsto> PStr ''yaml-key'', ''grpc_host'' \<mapsto> PStr ''yamlgrpc'',
                     ''grpc_port'' \<mapsto> PInt 443])),
                environ := [''WEAVIATE_API_KEY'' \<mapsto> ''env-key'']\<rparr>"

definition yaml_args :: "command \<Rightarrow> args" where
  "yaml_args c =
     \<lparr>config_file = Some ''config.yaml'', url = PStr ''http://localhost:8080'', root_key = PNone,
      arg_grpc_host = PNone, arg_grpc_port = PNone, recreate_api_key = False, command = c\<rparr>"

text \<open>The same, with a configuration file that holds a list.\<close>

definition yaml_list_world :: world where
  "yaml_list_world = demo_world\<lparr>load_yaml := (\<lambda>file_path. Inr (YSequence [PStr ''a'']))\<rparr>"

definition sample_collection :: collection_create_opts where
  "sample_collection =
     \<lparr>cc_name = ''Articles'', cc_description = [], cc_property = Some [''title:text''],
      cc_vectorizer = None, cc_vectorizer_options = None,
      cc_vectorizer_source_properties = None, cc_replication_factor = None, cc_shards = None\<rparr>"

section \<open>Running the statements\<close>

lemmas monad_defs = ret_def raise_def sys_exit_def lift_def bind_def andthen_def try_except_def
  try_finally_def print_def get_client_def set_client_def call_def call_none_def call_bool_def
  call_str_def call_names_def call_config_def call_role_def call_items_def input_line_def
  wvc_eval_def

lemma jsons_append: "jsons (xs @ ys) = jsons xs @ jsons ys"
  by (induction xs rule: jsons.induct) simp_all

lemma close_connection_effect:
  "\<exists>s' ans. close_connection w s = (Val (), s') \<and> \<not> client s'
      \<and> jsons (printed s') = jsons (printed s)
      \<and> set (printed s) \<subseteq> set (printed s')
      \<and> calls s' = (if client s then calls s @ [(Close, ans)] else calls s)"
  by (cases "sdk_none w (calls s) Close")
     (auto simp: close_connection_def monad_defs jsons_append)

lemma failed_stateI:
  "\<not> client s' \<Longrightarrow> jsons (printed s') = jsons (printed s) \<Longrightarrow> calls s' = calls s @ ext \<Longrightarrow>
   list_all conn_event ext \<Longrightarrow> list_all fixed_timeouts ext \<Longrightarrow> ready_true \<notin> set ext \<Longrightarrow>
   failed_state s s'"
  unfolding failed_state_def by blast

lemma fixed_timeouts_custom:
  "fixed_timeouts (ConnectToCustom (custom_connection http k h p), ans)"
  by (cases http) (simp add: fixed_timeouts_def custom_connection_def)

lemma custom_connection_timeouts:
  "timeout (custom_connection http k h p) = (20, 120)"
  "startup_period (custom_connection http k h p) = 30"
  by (cases http; simp add: custom_connection_def)+

lemma event_simps:
  "conn_event (ConnectToCustom c, ans)" "conn_event (IsReady, a2)" "conn_event (IsLive, a3)"
  "conn_event (Close, a4)" "conn_event (IsConnected, a5)"
  "fixed_timeouts (IsReady, a2)" "fixed_timeouts (IsLive, a3)" "fixed_timeouts (Close, a4)"
  "fixed_timeouts (IsConnected, a5)"
  "ready_true \<noteq> (ConnectToCustom c, ans)" "ready_true \<noteq> (IsLive, a3)" "ready_true \<noteq> (Close, a4)"
  "ready_true \<noteq> (IsReady, Inl e)" "ready_true \<noteq> (IsReady, Inr (RBool False))"
  by (simp_all add: conn_event_def fixed_timeouts_def ready_true_def)

text \<open>The \<open>try\<close> block from a process without client: it connects, or it ends in an
  exception or in \<open>exit(1)\<close> with the client unbound.\<close>

lemma connect_attempt_cases:
  assumes nc: "\<not> client s"
  shows "(\<exists>s1. connect_attempt w u k h p s = (Val (), s1) \<and> connected s s1)
       \<or> (\<exists>s'. connect_attempt w u k h p s = (Exit 1, s') \<and> failed_state s s')
       \<or> (\<exists>e s'. connect_attempt w u k h p s = (Raise e, s') \<and> failed_state s s')"
proof (cases "parse_http_url_details w u")
  case (Inl e)
  with nc have "connect_attempt w u k h p s = (Raise e, s)"
    by (simp add: connect_attempt_def monad_defs)
  moreover have "failed_state s s"
    using nc by (intro failed_stateI [where ext = "[]"]) simp_all
  ultimately show ?thesis by blast
next
  case (Inr http)
  define c where "c = custom_connection http k h p"
  define s1 where "s1 = s\<lparr>printed := printed s @
     [Line ''  HTTP connection: host='{http_host}', port={http_port}, secure={http_secure}'',
      Line ''  gRPC connection: host='{grpc_host_to_use}', port={grpc_port_to_use}, secure={grpc_secure_to_use}'']\<rparr>"
  have s1: "\<not> client s1" "calls s1 = calls s" "jsons (printed s1) = jsons (printed s)"
    using nc by (simp_all add: s1_def jsons_append)
  have start: "connect_attempt w u k h p s =
     andthen (call_none w (ConnectToCustom c))
       (bind (call_bool w IsReady) (\<lambda>ready.
         if \<not> ready then
           andthen (print (Line ''Error: Weaviate client object created, but instance is not ready. Check Weaviate server logs and network.''))
          (andthen (try_except
                      (bind (call_bool w IsLive) (\<lambda>live_status.
                         print (Line ''  Instance live status: {live_status}'')))
                      (\<lambda>live_err. print (About ''  Could not get live status: {live_err!r}'' live_err)))
          (andthen (call_none w Close)
           (sys_exit 1)))
         else
           andthen (set_client True)
             (print (Line ''Successfully connected to Weaviate.'')))) s1"
    using nc Inr by (simp add: connect_attempt_def c_def s1_def ret_def raise_def lift_def bind_def
        andthen_def print_def get_client_def)
  have ft: "\<And>ans. fixed_timeouts (ConnectToCustom c, ans)"
    unfolding c_def by (rule fixed_timeouts_custom)
  show ?thesis
  proof (cases "sdk_none w (calls s) (ConnectToCustom c)")
    case (Inl e)
    have "connect_attempt w u k h p s = (Raise e, s1\<lparr>calls := calls s @ [(ConnectToCustom c, Inl e)]\<rparr>)"
      unfolding start using Inl s1 by (simp add: monad_defs)
    moreover have "failed_state s (s1\<lparr>calls := calls s @ [(ConnectToCustom c, Inl e)]\<rparr>)"
      using s1 ft by (intro failed_stateI [where ext = "[(ConnectToCustom c, Inl e)]"])
        (simp_all add: event_simps)
    ultimately show ?thesis by blast
  next
    case okc: (Inr x)
    define h1 where "h1 = calls s @ [(ConnectToCustom c, Inr RNone)]"
    show ?thesis
    proof (cases "sdk_bool w h1 IsReady")
      case (Inl e)
      have "connect_attempt w u k h p s = (Raise e, s1\<lparr>calls := h1 @ [(IsReady, Inl e)]\<rparr>)"
        unfolding start using okc Inl s1 by (simp add: monad_defs h1_def)
      moreover have "failed_state s (s1\<lparr>calls := h1 @ [(IsReady, Inl e)]\<rparr>)"
        using s1 ft
        by (intro failed_stateI [where ext = "[(ConnectToCustom c, Inr RNone), (IsReady, Inl e)]"])
           (simp_all add: event_simps h1_def)
      ultimately show ?thesis by blast
    next
      case rdy: (Inr ready)
      show ?thesis
      proof (cases ready)
        case True
        define s2 where "s2 = s1\<lparr>calls := h1 @ [ready_true], client := True,
          printed := printed s1 @ [Line ''Successfully connected to Weaviate.'']\<rparr>"
        have "connect_attempt w u k h p s = (Val (), s2)"
          unfolding start using okc rdy True s1
          by (simp add: monad_defs h1_def s2_def ready_true_def)
        moreover have "connected s s2"
          using s1 by (auto simp: connected_def s2_def h1_def jsons_append c_def custom_connection_timeouts)
        ultimately show ?thesis by blast
      next
        case False
        define h2 where "h2 = h1 @ [(IsReady, Inr (RBool False))]"
        obtain la where la: "la = map_sum id RBool (sdk_bool w h2 IsLive)" by simp
        define h3 where "h3 = h2 @ [(IsLive, la)]"
        obtain ca where ca: "ca = map_sum id (\<lambda>u. RNone) (sdk_none w h3 Close)" by simp
        have ext: "h3 @ [(Close, ca)] = calls s @ [(ConnectToCustom c, Inr RNone), (IsReady, Inr (RBool False)), (IsLive, la), (Close, ca)]"
          by (simp add: h3_def h2_def h1_def)
        have "\<exists>r s'. connect_attempt w u k h p s = (r, s') \<and> (r = Exit 1 \<or> (\<exists>e. r = Raise e))
                \<and> \<not> client s' \<and> jsons (printed s') = jsons (printed s) \<and> calls s' = h3 @ [(Close, ca)]"
          unfolding start using okc rdy False s1
          by (cases "sdk_bool w h2 IsLive"; cases "sdk_none w h3 Close")
             (simp_all add: monad_defs h1_def h2_def h3_def la ca jsons_append)
        then obtain r s' where run: "connect_attempt w u k h p s = (r, s')"
          and r: "r = Exit 1 \<or> (\<exists>e. r = Raise e)"
          and s': "\<not> client s'" "jsons (printed s') = jsons (printed s)" "calls s' = h3 @ [(Close, ca)]"
          by blast
        have "failed_state s s'"
          using s' ft unfolding ext
          by (intro failed_stateI [where ext = "[(ConnectToCustom c, Inr RNone), (IsReady, Inr (RBool False)), (IsLive, la), (Close, ca)]"])
             (simp_all add: event_simps)
        with run r show ?thesis by blast
      qed
    qed
  qed
qed


lemma connect_except_effect:
  assumes "\<not> client s"
  shows "\<exists>s'. connect_except w e s = (Exit 1, s') \<and> \<not> client s' \<and> calls s' = calls s
            \<and> jsons (printed s') = jsons (printed s)"
  using assms
  by (simp add: connect_except_def connect_failed_def monad_defs jsons_append)

lemma failed_state_printed:
  "failed_state (s\<lparr>printed := printed s @ [Line t]\<rparr>) s' \<Longrightarrow> failed_state s s'"
  by (simp add: failed_state_def jsons_append)

lemma connected_printed:
  "connected (s\<lparr>printed := printed s @ [Line t]\<rparr>) s' \<Longrightarrow> connected s s'"
  by (simp add: connected_def jsons_append)

lemma failed_state_same_calls:
  "failed_state s s' \<Longrightarrow> \<not> client s'' \<Longrightarrow> calls s'' = calls s' \<Longrightarrow>
   jsons (printed s'') = jsons (printed s') \<Longrightarrow> failed_state s s''"
  by (simp add: failed_state_def)

lemma connect_to_weaviate_cases:
  assumes nc: "\<not> client s"
  shows "connect_failure s (connect_to_weaviate w u k h p s)
         \<or> (\<exists>s1. connect_to_weaviate w u k h p s = (Val (), s1) \<and> connected s s1)"
proof -
  define s0 where "s0 = s\<lparr>printed := printed s @ [Line ''Attempting to connect to Weaviate at {url} (client v4.x) using custom connection parameters...'']\<rparr>"
  have s0: "\<not> client s0" using nc by (simp add: s0_def)
  have start: "connect_to_weaviate w u k h p s
                 = try_except (connect_attempt w u k h p) (connect_except w) s0"
    using nc by (simp add: connect_to_weaviate_def existing_healthy_def s0_def ret_def bind_def
        andthen_def print_def get_client_def)
  from connect_attempt_cases [OF s0, of w u k h p]
  consider (ok) s1 where "connect_attempt w u k h p s0 = (Val (), s1)" "connected s0 s1"
    | (exit) s' where "connect_attempt w u k h p s0 = (Exit 1, s')" "failed_state s0 s'"
    | (exn) e s' where "connect_attempt w u k h p s0 = (Raise e, s')" "failed_state s0 s'"
    by blast
  then show ?thesis
  proof cases
    case ok
    then have "connect_to_weaviate w u k h p s = (Val (), s1)" "connected s s1"
      unfolding start by (simp_all add: try_except_def s0_def connected_printed)
    then show ?thesis by blast
  next
    case exit
    then have "connect_to_weaviate w u k h p s = (Exit 1, s')" "failed_state s s'"
      unfolding start by (simp_all add: try_except_def s0_def failed_state_printed)
    then show ?thesis by (simp add: connect_failure_def)
  next
    case exn
    from exn(2) have ncs: "\<not> client s'" by (simp add: failed_state_def)
    from connect_except_effect [OF ncs, of w e] obtain s'' where
      ce: "connect_except w e s' = (Exit 1, s'')" "\<not> client s''" "calls s'' = calls s'"
          "jsons (printed s'') = jsons (printed s')" by blast
    have "failed_state s s'"
      using exn(2) by (simp add: s0_def failed_state_printed)
    then have "failed_state s s''"
      using ce(2-4) by (rule failed_state_same_calls)
    moreover have "connect_to_weaviate w u k h p s = (Exit 1, s'')"
      unfolding start using exn(1) ce(1) by (simp add: try_except_def)
    ultimately show ?thesis by (simp add: connect_failure_def)
  qed
qed

lemma connect_cases:
  assumes "\<not> client s"
  shows "connect_failure s (connect w a s)
         \<or> (\<exists>s1. connect w a s = (Val (), s1) \<and> connected s s1)"
  unfolding connect_def using assms by (rule connect_to_weaviate_cases)

section \<open>Statements that only make data requests\<close>

lemma boundedI:
  assumes "\<And>s. \<exists>ext. calls (snd (m s)) = calls s @ ext \<and> list_all data_event ext
              \<and> length ext \<le> bnd ext \<and> client (snd (m s)) = client s"
  shows "bounded bnd m"
  using assms unfolding bounded_def by blast

lemma emits_ret [intro!]: "emits 0 (ret x)"
  by (simp add: emits_def bounded_def ret_def)

lemma emits_raise [intro!]: "emits 0 (raise e)"
  by (simp add: emits_def bounded_def raise_def)

lemma emits_lift [intro!]: "emits 0 (lift r)"
  by (cases r) (simp_all add: emits_def bounded_def lift_def ret_def raise_def)

lemma emits_print [intro!]: "emits 0 (print l)"
  by (simp add: emits_def bounded_def print_def)

lemma emits_mono: "emits n m \<Longrightarrow> n \<le> k \<Longrightarrow> emits k m"
  unfolding emits_def bounded_def by (meson le_trans)

lemma emits_call:
  assumes "\<not> is_conn rq"
  shows "emits 1 (call answer wrap rq)"
  unfolding emits_def bounded_def
proof
  fix s
  show "\<exists>ext. calls (snd (call answer wrap rq s)) = calls s @ ext \<and> list_all data_event ext
          \<and> length ext \<le> 1 \<and> client (snd (call answer wrap rq s)) = client s"
    using assms by (cases "answer (calls s) rq") (simp_all add: call_def data_event_def)
qed

lemma emits_bind:
  assumes m: "emits i m" and f: "\<And>x. emits j (f x)"
  shows "emits (i + j) (bind m f)"
  unfolding emits_def bounded_def
proof
  fix s
  obtain r s1 where ms: "m s = (r, s1)" by (cases "m s")
  from m obtain e1 where e1: "calls s1 = calls s @ e1" "list_all data_event e1" "length e1 \<le> i"
      "client s1 = client s"
    unfolding emits_def bounded_def using ms by (metis snd_conv)
  show "\<exists>ext. calls (snd (bind m f s)) = calls s @ ext \<and> list_all data_event ext
          \<and> length ext \<le> i + j \<and> client (snd (bind m f s)) = client s"
  proof (cases r)
    case (Val x)
    from f [of x] obtain e2 where e2: "calls (snd (f x s1)) = calls s1 @ e2" "list_all data_event e2"
        "length e2 \<le> j" "client (snd (f x s1)) = client s1"
      unfolding emits_def bounded_def by blast
    have "bind m f s = f x s1" using ms Val by (simp add: bind_def)
    with e1 e2 show ?thesis
      by (intro exI [of _ "e1 @ e2"]) simp
  next
    case (Raise e)
    then have "bind m f s = (Raise e, s1)" using ms by (simp add: bind_def)
    with e1 show ?thesis by (intro exI [of _ e1]) simp
  next
    case (Exit n)
    then have "bind m f s = (Exit n, s1)" using ms by (simp add: bind_def)
    with e1 show ?thesis by (intro exI [of _ e1]) simp
  qed
qed

lemma emits_andthen:
  "emits i m \<Longrightarrow> emits j k \<Longrightarrow> emits (i + j) (andthen m k)"
  unfolding andthen_def by (rule emits_bind)

lemma emits_try_except:
  assumes m: "emits i m" and h: "\<And>e. emits j (h e)"
  shows "emits (i + j) (try_except m h)"
  unfolding emits_def bounded_def
proof
  fix s
  obtain r s1 where ms: "m s = (r, s1)" by (cases "m s")
  from m obtain e1 where e1: "calls s1 = calls s @ e1" "list_all data_event e1" "length e1 \<le> i"
      "client s1 = client s"
    unfolding emits_def bounded_def using ms by (metis snd_conv)
  show "\<exists>ext. calls (snd (try_except m h s)) = calls s @ ext \<and> list_all data_event ext
          \<and> length ext \<le> i + j \<and> client (snd (try_except m h s)) = client s"
  proof (cases r)
    case (Raise e)
    from h [of e] obtain e2 where e2: "calls (snd (h e s1)) = calls s1 @ e2" "list_all data_event e2"
        "length e2 \<le> j" "client (snd (h e s1)) = client s1"
      unfolding emits_def bounded_def by blast
    have "try_except m h s = h e s1" using ms Raise by (simp add: try_except_def)
    with e1 e2 show ?thesis
      by (intro exI [of _ "e1 @ e2"]) simp
  next
    case (Val x)
    then have "try_except m h s = (Val x, s1)" using ms by (simp add: try_except_def)
    with e1 show ?thesis by (intro exI [of _ e1]) simp
  next
    case (Exit n)
    then have "try_except m h s = (Exit n, s1)" using ms by (simp add: try_except_def)
    with e1 show ?thesis by (intro exI [of _ e1]) simp
  qed
qed

named_theorems emits_rules

lemma emits_zero_le: "emits 0 m \<Longrightarrow> emits n m"
  by (erule emits_mono) simp

lemma emits_ret_n [emits_rules]: "emits n (ret x)"
  by (rule emits_zero_le) (rule emits_ret)

lemma emits_raise_n [emits_rules]: "emits n (raise e)"
  by (rule emits_zero_le) (rule emits_raise)

lemma emits_lift_n [emits_rules]: "emits n (lift r)"
  by (rule emits_zero_le) (rule emits_lift)

lemma emits_print_n [emits_rules]: "emits n (print l)"
  by (rule emits_zero_le) (rule emits_print)

lemma emits_print_all [intro!]: "emits 0 (print_all ls)"
proof (induction ls)
  case Nil
  show ?case by (simp add: emits_ret)
next
  case (Cons l ls)
  from emits_andthen [OF emits_print Cons] show ?case by simp
qed

lemma emits_print_all_n [emits_rules]: "emits n (print_all ls)"
  by (rule emits_zero_le) (rule emits_print_all)

lemma emits_input_line_n [emits_rules]: "emits n (input_line w prompt)"
  unfolding input_line_def
  using emits_andthen [OF emits_print emits_lift] by (auto intro: emits_zero_le)

lemma emits_andthen_print [emits_rules]:
  "emits n k \<Longrightarrow> emits n (andthen (print l) k)"
  using emits_andthen [OF emits_print, of n k l] by simp

lemma emits_andthen_print_all [emits_rules]:
  "emits n k \<Longrightarrow> emits n (andthen (print_all ls) k)"
  using emits_andthen [OF emits_print_all, of n k ls] by simp

lemma emits_bind_input_line [emits_rules]:
  "(\<And>x. emits n (f x)) \<Longrightarrow> emits n (bind (input_line w prompt) f)"
  using emits_bind [OF emits_input_line_n [of 0], of n f] by simp

lemma emits_bind_lift [emits_rules]:
  "(\<And>x. emits n (f x)) \<Longrightarrow> emits n (bind (lift r) f)"
  using emits_bind [OF emits_lift, of n f] by simp

lemma emits_call_n [emits_rules]:
  "\<not> is_conn rq \<Longrightarrow> emits (Suc n) (call answer wrap rq)"
  by (rule emits_mono [OF emits_call]) simp_all

lemma emits_bind_call [emits_rules]:
  "\<not> is_conn rq \<Longrightarrow> (\<And>x. emits n (f x)) \<Longrightarrow> emits (Suc n) (bind (call answer wrap rq) f)"
  using emits_bind [OF emits_call, of rq n f] by simp

lemma emits_andthen_call [emits_rules]:
  "\<not> is_conn rq \<Longrightarrow> emits n k \<Longrightarrow> emits (Suc n) (andthen (call answer wrap rq) k)"
  using emits_andthen [OF emits_call, of rq n k] by simp

lemma emits_try_except_n [emits_rules]:
  "emits n m \<Longrightarrow> (\<And>e. emits 0 (h e)) \<Longrightarrow> emits n (try_except m h)"
  using emits_try_except [of n m 0 h] by simp

lemma emits_if [emits_rules]:
  "emits n m1 \<Longrightarrow> emits n m2 \<Longrightarrow> emits n (if b then m1 else m2)"
  by simp

lemma emits_case_prod [emits_rules]:
  "(\<And>a b. emits n (f a b)) \<Longrightarrow> emits n (case p of (a, b) \<Rightarrow> f a b)"
  by (cases p) simp

lemma emits_case_option [emits_rules]:
  "emits n m1 \<Longrightarrow> (\<And>y. emits n (f y)) \<Longrightarrow> emits n (case x of None \<Rightarrow> m1 | Some y \<Rightarrow> f y)"
  by (cases x) simp_all

lemmas call_defs = call_none_def call_bool_def call_str_def call_names_def call_config_def
  call_role_def call_items_def

lemma emits_bind_0: "emits 0 m \<Longrightarrow> (\<And>x. emits n (f x)) \<Longrightarrow> emits n (bind m f)"
  using emits_bind [of 0 m n f] by simp

lemma emits_wvc_eval [intro!]: "emits 0 (wvc_eval w expr v)"
  by (cases "wvc w expr") (simp_all add: wvc_eval_def emits_ret emits_raise)

lemma emits_wvc_eval_n [emits_rules]: "emits n (wvc_eval w expr v)"
  by (rule emits_zero_le) (rule emits_wvc_eval)

lemma emits_andthen_wvc [emits_rules]:
  "emits n k \<Longrightarrow> emits n (andthen (wvc_eval w expr v) k)"
  unfolding andthen_def by (rule emits_bind_0 [OF emits_wvc_eval])

subsection \<open>Building the arguments of \<open>collections.create\<close>\<close>

lemma emits_data_type_enum: "emits 0 (data_type_enum w u)"
  unfolding data_type_enum_def by (intro emits_rules)

lemma emits_bind_data_type_enum [emits_rules]:
  "(\<And>x. emits n (f x)) \<Longrightarrow> emits n (bind (data_type_enum w u) f)"
  by (rule emits_bind_0 [OF emits_data_type_enum])

lemma emits_parse_property: "emits 0 (parse_property w prop_str properties)"
  unfolding parse_property_def by (intro emits_rules)

lemma emits_parse_properties_loop: "emits 0 (parse_properties_loop w strs properties)"
proof (induction strs arbitrary: properties)
  case Nil
  show ?case by (simp add: emits_ret)
next
  case (Cons s strs)
  show ?case
    unfolding parse_properties_loop.simps
    by (rule emits_bind_0 [OF emits_parse_property]) (rule Cons)
qed

lemma emits_parse_properties_v4: "emits 0 (parse_properties_v4 w props_str_list)"
  unfolding parse_properties_v4_def
  by (intro emits_rules emits_bind_0 [OF emits_parse_properties_loop])

lemma emits_vectorizer_config_of: "emits 0 (vectorizer_config_of w opts)"
  unfolding vectorizer_config_of_def Let_def by (intro emits_rules)

lemma emits_replication_config_of: "emits 0 (replication_config_of w opts)"
  unfolding replication_config_of_def by (intro emits_rules)

lemma emits_sharding_config_of: "emits 0 (sharding_config_of w opts)"
  unfolding sharding_config_of_def by (intro emits_rules)

lemma emits_bind_create_arguments [emits_rules]:
  "(\<And>x. emits n (f1 x)) \<Longrightarrow> emits n (bind (parse_properties_v4 w props_str_list) f1)"
  "(\<And>y. emits n (f2 y)) \<Longrightarrow> emits n (bind (vectorizer_config_of w opts) f2)"
  "(\<And>z. emits n (f3 z)) \<Longrightarrow> emits n (bind (replication_config_of w opts) f3)"
  "(\<And>z. emits n (f3 z)) \<Longrightarrow> emits n (bind (sharding_config_of w opts) f3)"
  by (rule emits_bind_0 [OF emits_parse_properties_v4], assumption)
     (rule emits_bind_0 [OF emits_vectorizer_config_of], assumption,
      rule emits_bind_0 [OF emits_replication_config_of], assumption,
      rule emits_bind_0 [OF emits_sharding_config_of], assumption)

section \<open>The handlers after connecting\<close>

lemma connect_then:
  assumes k: "bounded bnd k"
  shows "handler_ok bnd (andthen (connect w a) k)"
  unfolding handler_ok_def
proof (intro allI impI)
  fix s :: state
  assume nc: "\<not> client s"
  from connect_cases [OF nc, of w a]
  show "connect_failure s (andthen (connect w a) k s)
        \<or> (\<exists>s1 dat. connected s s1 \<and> client (snd (andthen (connect w a) k s))
              \<and> calls (snd (andthen (connect w a) k s)) = calls s1 @ dat
              \<and> list_all data_event dat \<and> length dat \<le> bnd dat)"
  proof
    assume f: "connect_failure s (connect w a s)"
    then have "andthen (connect w a) k s = (Exit 1, snd (connect w a s))"
      by (cases "connect w a s") (simp add: connect_failure_def andthen_def bind_def)
    with f show ?thesis by (simp add: connect_failure_def)
  next
    assume "\<exists>s1. connect w a s = (Val (), s1) \<and> connected s s1"
    then obtain s1 where c: "connect w a s = (Val (), s1)" "connected s s1" by blast
    then have run: "andthen (connect w a) k s = k s1"
      by (simp add: andthen_def bind_def)
    from k obtain dat where "calls (snd (k s1)) = calls s1 @ dat" "list_all data_event dat"
        "length dat \<le> bnd dat" "client (snd (k s1)) = client s1"
      unfolding bounded_def by blast
    moreover have "client s1" using c(2) by (simp add: connected_def)
    ultimately show ?thesis using c(2) run by auto
  qed
qed

lemma connect_then_emits:
  "emits n k \<Longrightarrow> handler_ok (\<lambda>dat. n) (andthen (connect w a) k)"
  unfolding emits_def by (rule connect_then)

lemma handle_collection_create_shape:
  "\<exists>k. handle_collection_create w a opts = andthen (connect w a) k \<and> emits 2 k"
  unfolding handle_collection_create_def call_defs numeral_2_eq_2
  by (intro exI conjI, rule refl) (intro emits_rules; simp)

lemma handle_collection_delete_shape:
  "\<exists>k. handle_collection_delete w a name = andthen (connect w a) k \<and> emits 1 k"
  unfolding handle_collection_delete_def call_defs One_nat_def
  by (intro exI conjI, rule refl) (intro emits_rules; simp)

lemma handle_collection_describe_shape:
  "\<exists>k. handle_collection_describe w a name = andthen (connect w a) k \<and> emits 3 k"
  unfolding handle_collection_describe_def call_defs numeral_3_eq_3
  by (intro exI conjI, rule refl) (intro emits_rules; simp)

lemma handle_user_delete_shape:
  "\<exists>k. handle_user_delete w a name = andthen (connect w a) k \<and> emits 1 k"
  unfolding handle_user_delete_def call_defs One_nat_def
  by (intro exI conjI, rule refl) (intro emits_rules; simp)

lemma handle_user_update_roles_shape:
  "\<exists>k. handle_user_update_roles w a name roles = andthen (connect w a) k \<and> emits 1 k"
  unfolding handle_user_update_roles_def call_defs One_nat_def Let_def
  by (intro exI conjI, rule refl) (intro emits_rules; simp)

lemma handle_role_create_shape:
  "\<exists>k. handle_role_create w a opts = andthen (connect w a) k \<and> emits 2 k"
  unfolding handle_role_create_def call_defs numeral_2_eq_2 Let_def
  by (intro exI conjI, rule refl) (intro emits_rules; simp)

lemma handle_role_delete_shape:
  "\<exists>k. handle_role_delete w a name = andthen (connect w a) k \<and> emits 1 k"
  unfolding handle_role_delete_def call_defs One_nat_def
  by (intro exI conjI, rule refl) (intro emits_rules; simp)

lemma handle_role_get_shape:
  "\<exists>k. handle_role_get w a name = andthen (connect w a) k \<and> emits 1 k"
  unfolding handle_role_get_def call_defs One_nat_def
  by (intro exI conjI, rule refl) (intro emits_rules; simp)


lemma handle_user_create_shape:
  "\<exists>k. handle_user_create w a user_id roles = andthen (connect w a) k \<and> emits 4 k"
proof -
  have four: "(4::nat) = Suc (Suc (Suc (Suc 0)))" by simp
  show ?thesis
    unfolding handle_user_create_def call_defs Let_def four
    apply (intro exI conjI, rule refl)
    apply (rule emits_andthen_print)
    apply (rule emits_try_except_n)
     apply (rule emits_bind_call, simp)
     apply (rule emits_mono [OF emits_andthen [of "Suc (Suc 0)" _ "Suc 0"]])
       apply (rule emits_if)
        apply (rule emits_print_n)
       apply (rule emits_mono [OF emits_andthen [of "Suc 0" _ "Suc 0"]])
         apply (intro emits_rules; simp)
        apply (intro emits_rules; simp)
       apply simp
      apply (intro emits_rules; simp)
     apply simp
    apply (intro emits_rules)
    done
qed

subsection \<open>The listing handlers\<close>

lemma user_list_item_emits: "emits (Suc 0) (user_list_item w user_id)"
proof -
  have "emits (Suc 0 + 0) (user_list_item w user_id)"
    unfolding user_list_item_def call_defs
    by (rule emits_andthen) (intro emits_rules; simp)+
  then show ?thesis by simp
qed

lemma user_list_loop_emits: "emits (length ks) (user_list_loop w ks)"
proof (induction ks)
  case Nil
  show ?case by (simp add: emits_ret)
next
  case (Cons k ks)
  from emits_andthen [OF user_list_item_emits Cons, of w k] show ?case by simp
qed

lemma emits_print_collection_details: "emits 0 (print_collection_details config)"
proof -
  have "emits (0 + 0)
     (andthen (if cfg_replication_factor config \<noteq> None
              then print (Line ''    Replication Factor: {config.replication_config.factor}'')
              else ret ())
             (if cfg_sharding_config config \<noteq> None
              then print (Line ''    Sharding: Desired={s_config.desired_count}, Actual={s_config.actual_count}, VirtualDesired={s_config.desired_virtual_count}, VirtualActual={s_config.actual_virtual_count}'')
              else ret ()))"
    by (rule emits_andthen) (intro emits_rules)+
  then show ?thesis
    unfolding print_collection_details_def by (intro emits_rules) simp
qed

lemma collection_list_item_emits:
  "emits (if detailed then Suc 0 else 0) (collection_list_item w detailed name)"
proof (cases detailed)
  case True
  have "emits (Suc 0) (collection_list_item w True name)"
    unfolding collection_list_item_def call_defs
    by (simp, intro emits_rules emits_print_collection_details; simp)
  with True show ?thesis by simp
next
  case False
  then show ?thesis by (simp add: collection_list_item_def emits_print)
qed

lemma collection_list_loop_emits:
  "emits (if detailed then length names else 0) (collection_list_loop w detailed names)"
proof (induction names)
  case Nil
  show ?case by (simp add: emits_ret_n)
next
  case (Cons n names)
  from emits_andthen [OF collection_list_item_emits [of detailed w n] Cons] show ?case
    by (cases detailed) simp_all
qed

lemma emits_print_role: "emits n (print_role detailed perms)"
  unfolding print_role_def by (intro emits_rules)

lemma role_list_item_emits:
  "emits (if detailed then Suc 0 else 0) (role_list_item w detailed item)"
proof (cases item)
  case (ItemRole r)
  then show ?thesis by (simp add: role_list_item_def emits_print_role)
next
  case ItemOther
  then show ?thesis by (simp add: role_list_item_def emits_print_n)
next
  case (ItemStr n)
  show ?thesis
  proof (cases detailed)
    case True
    have "emits (Suc 0 + 0) (role_list_item w True (ItemStr n))"
      unfolding role_list_item_def call_defs
      by (simp only: role_item.case if_True, rule emits_bind)
         (intro emits_rules emits_print_role; simp)+
    with True ItemStr show ?thesis by simp
  next
    case False
    from emits_bind [OF emits_ret, of 0 "print_role False" "[]"] False ItemStr
    show ?thesis by (simp add: role_list_item_def emits_print_role)
  qed
qed

lemma role_list_loop_emits:
  "emits (if detailed then length items else 0) (role_list_loop w detailed items)"
proof (induction items)
  case Nil
  show ?case by (simp add: emits_ret_n)
next
  case (Cons item items)
  from emits_andthen [OF role_list_item_emits [of detailed w item] Cons] show ?case
    by (cases detailed) simp_all
qed

text \<open>A listing request followed by work on each item, inside \<open>try\<close>.\<close>

lemma bounded_listing:
  fixes f :: "'a \<Rightarrow> unit m"
  assumes rq: "\<not> is_conn rq"
    and len: "\<And>x evs. listed ((rq, Inr (wrap x)) # evs) = len x"
    and f: "\<And>x. emits (g (len x)) (f x)"
    and h: "\<And>e. emits 0 (h e)"
  shows "bounded (\<lambda>ext. 1 + g (listed ext))
           (andthen (print l) (try_except (bind (call answer wrap rq) f) h))"
proof (rule boundedI)
  fix s :: state
  define s0 where "s0 = s\<lparr>printed := printed s @ [l]\<rparr>"
  define m where "m = andthen (print l) (try_except (bind (call answer wrap rq) f) h)"
  have quiet_h: "\<And>e t. calls (snd (h e t)) = calls t \<and> client (snd (h e t)) = client t"
    using h unfolding emits_def bounded_def by (metis append_Nil2 le_zero_eq length_0_conv)
  show "\<exists>ext. calls (snd (m s)) = calls s @ ext \<and> list_all data_event ext
          \<and> length ext \<le> 1 + g (listed ext) \<and> client (snd (m s)) = client s"
  proof (cases "answer (calls s) rq")
    case (Inl e)
    have "m s = h e (s0\<lparr>calls := calls s @ [(rq, Inl e)]\<rparr>)"
      using Inl by (simp add: m_def s0_def andthen_def bind_def print_def try_except_def call_def)
    with quiet_h [of e "s0\<lparr>calls := calls s @ [(rq, Inl e)]\<rparr>"] rq show ?thesis
      by (intro exI [of _ "[(rq, Inl e)]"]) (simp add: s0_def data_event_def)
  next
    case (Inr x)
    define s1 where "s1 = s0\<lparr>calls := calls s @ [(rq, Inr (wrap x))]\<rparr>"
    obtain r s2 where fx: "f x s1 = (r, s2)" by (cases "f x s1")
    from f [of x] obtain e2 where e2: "calls s2 = calls s1 @ e2" "list_all data_event e2"
        "length e2 \<le> g (len x)" "client s2 = client s1"
      unfolding emits_def bounded_def using fx by (metis snd_conv)
    have ms: "m s = try_except (f x) h s1"
      using Inr by (simp add: m_def s0_def s1_def andthen_def bind_def print_def try_except_def call_def)
    have "calls (snd (m s)) = calls s2 \<and> client (snd (m s)) = client s2"
      unfolding ms using fx quiet_h by (cases r) (simp_all add: try_except_def)
    with e2 rq len [of x e2] show ?thesis
      by (intro exI [of _ "(rq, Inr (wrap x)) # e2"]) (simp add: s1_def s0_def data_event_def)
  qed
qed

lemma handle_user_list_shape:
  "\<exists>k. handle_user_list w a = andthen (connect w a) k
        \<and> bounded (\<lambda>dat. 1 + listed dat) k"
  unfolding handle_user_list_def call_names_def
  by (intro exI conjI, rule refl, rule bounded_listing [where g = "\<lambda>n. n" and len = length])
     (intro emits_rules user_list_loop_emits | simp)+

lemma handle_collection_list_shape:
  "\<exists>k. handle_collection_list w a detailed = andthen (connect w a) k
        \<and> bounded (\<lambda>dat. 1 + (if detailed then listed dat else 0)) k"
  unfolding handle_collection_list_def call_names_def
  by (intro exI conjI, rule refl, rule bounded_listing [where g = "\<lambda>n. if detailed then n else 0" and len = length])
     (intro emits_rules collection_list_loop_emits | simp)+

lemma handle_role_list_shape:
  "\<exists>k. handle_role_list w a detailed = andthen (connect w a) k
        \<and> bounded (\<lambda>dat. 1 + (if detailed then listed dat else 0)) k"
  unfolding handle_role_list_def call_items_def
  by (intro exI conjI, rule refl, rule bounded_listing [where g = "\<lambda>n. if detailed then n else 0" and len = length])
     (intro emits_rules role_list_loop_emits | simp)+

lemma call_bound_simps:
  "call_bound (CollectionCreate cc) = (\<lambda>dat. 2)"
  "call_bound (CollectionDelete n) = (\<lambda>dat. 1)"
  "call_bound (CollectionList d) = (\<lambda>dat. 1 + (if d then listed dat else 0))"
  "call_bound (CollectionDescribe n) = (\<lambda>dat. 3)"
  "call_bound (UserCreate n rs) = (\<lambda>dat. 4)"
  "call_bound (UserDelete n) = (\<lambda>dat. 1)"
  "call_bound UserList = (\<lambda>dat. 1 + listed dat)"
  "call_bound (UserUpdateRoles n rs) = (\<lambda>dat. 1)"
  "call_bound (RoleCreate rc) = (\<lambda>dat. 2)"
  "call_bound (RoleDelete n) = (\<lambda>dat. 1)"
  "call_bound (RoleGet n) = (\<lambda>dat. 1)"
  "call_bound (RoleList d) = (\<lambda>dat. 1 + (if d then listed dat else 0))"
  by (rule ext, simp add: call_bound_def)+

lemma func_shape:
  "\<exists>k. func w a = andthen (connect w a) k \<and> bounded (call_bound (command a)) k"
  by (cases "command a")
     (simp_all only: func_def call_bound_simps command.case
        handle_collection_create_shape [unfolded emits_def]
        handle_collection_delete_shape [unfolded emits_def]
        handle_collection_list_shape
        handle_collection_describe_shape [unfolded emits_def]
        handle_user_create_shape [unfolded emits_def]
        handle_user_delete_shape [unfolded emits_def]
        handle_user_list_shape
        handle_user_update_roles_shape [unfolded emits_def]
        handle_role_create_shape [unfolded emits_def]
        handle_role_delete_shape [unfolded emits_def]
        handle_role_get_shape [unfolded emits_def]
        handle_role_list_shape)

lemma func_ok: "handler_ok (call_bound (command a)) (func w a)"
proof -
  from func_shape [of w a] obtain k where
    "func w a = andthen (connect w a) k" "bounded (call_bound (command a)) k" by blast
  then show ?thesis by (simp add: connect_then)
qed

section \<open>Before the handler starts\<close>

lemma print_client_version_quiet: "quiet (print_client_version w)"
  unfolding quiet_def
  by (cases "version w") (simp_all add: print_client_version_def monad_defs jsons_append)

lemma load_config_from_yaml_quiet: "quiet (load_config_from_yaml w file_path)"
  unfolding quiet_def
  by (cases "load_yaml w file_path") (simp_all add: load_config_from_yaml_def monad_defs jsons_append)

lemma close_connection_no_client:
  "\<not> client s \<Longrightarrow> close_connection w s = (Val (), s)"
  by (simp add: close_connection_def monad_defs)

lemma environ_key_first_given:
  "environ_key w = first_given [env_var w ''WEAVIATE_API_KEY'', env_var w ''WEAVIATE_ROOT_KEY'']"
  by (simp add: environ_key_def env_var_def split: option.splits)

text \<open>Lines 731 to 740: the settings of the command line and of the file, merged; or the
  AttributeError of a file that holds no mapping.\<close>

lemma merge_config_exact:
  "merge_config (config_from_file w a) a s
     = (if unreadable w a then (Raise (no_get (config_from_file w a)), s)
        else (Val (a\<lparr>url := chosen_url w a,
                      root_key := first_given [root_key a, file_key w a],
                      arg_grpc_host := chosen_grpc_host w a,
                      arg_grpc_port := chosen_grpc_port w a\<rparr>), s))"
  by (cases "config_from_file w a")
     (simp_all add: merge_config_def monad_defs unreadable_def chosen_url_def
        chosen_grpc_host_def chosen_grpc_port_def file_value_def file_key_def dict_get_def)

text \<open>Lines 754 to 760: the key that is true first among the merged key, the environment's
  and the prompt's, or \<open>exit(1)\<close>; no request is made.\<close>

lemma require_root_key_exact:
  assumes nc: "\<not> client s"
  shows "\<exists>s'. calls s' = calls s \<and> \<not> client s' \<and> jsons (printed s') = jsons (printed s)
           \<and> require_root_key w a s
               = (if truthy (first_truthy [root_key a, environ_key w, prompted_key w])
                  then (Val (a\<lparr>root_key := first_truthy [root_key a, environ_key w, prompted_key w]\<rparr>), s')
                  else (Exit 1, s'))"
proof (cases "truthy (root_key a)")
  case True
  then have "require_root_key w a s = (Val (a\<lparr>root_key := root_key a\<rparr>), s)"
    by (simp add: require_root_key_def ret_def)
  with nc True show ?thesis by (intro exI [of _ s]) simp
next
  case no_key: False
  show ?thesis
  proof (cases "truthy (environ_key w)")
    case True
    with no_key have "require_root_key w a s = (Val (a\<lparr>root_key := environ_key w\<rparr>), s)"
      by (simp add: require_root_key_def ret_def)
    with nc True no_key show ?thesis by (intro exI [of _ s]) simp
  next
    case no_env: False
    define s0 where "s0 = s\<lparr>printed := printed s @ [Line ''Weaviate API key not provided via CLI, config file, or environment variables.'']\<rparr>"
    show ?thesis
    proof (cases "getpass w")
      case (Inl e)
      define s1 where "s1 = s0\<lparr>printed := printed s0 @ [About ''Error reading API key: {e!r}'' e]\<rparr>"
      have "require_root_key w a s = (Exit 1, s1)"
        using no_key no_env Inl nc
        by (simp add: require_root_key_def s0_def s1_def close_connection_def monad_defs)
      with nc no_key no_env Inl show ?thesis
        by (intro exI [of _ s1]) (simp add: s1_def s0_def prompted_key_def jsons_append)
    next
      case (Inr entered)
      show ?thesis
      proof (cases "entered = []")
        case True
        define s1 where "s1 = s0\<lparr>printed := printed s0 @ [Line ''Error: Admin API Key is required for this command.'']\<rparr>"
        have "require_root_key w a s = (Exit 1, s1)"
          using no_key no_env Inr True nc
          by (simp add: require_root_key_def s0_def s1_def close_connection_def monad_defs)
        with nc no_key no_env Inr True show ?thesis
          by (intro exI [of _ s1]) (simp add: s1_def s0_def prompted_key_def jsons_append)
      next
        case False
        have "require_root_key w a s = (Val (a\<lparr>root_key := PStr entered\<rparr>), s0)"
          using no_key no_env Inr False
          by (simp add: require_root_key_def s0_def monad_defs)
        with nc no_key no_env Inr False show ?thesis
          by (intro exI [of _ s0]) (simp add: s0_def prompted_key_def jsons_append)
      qed
    qed
  qed
qed

text \<open>
  \<open>main\<close> up to the call of the handler: it raises on a configuration file that holds no
  mapping, or the process exits for want of a key, or the handler runs with the settings
  chosen by precedence; and no request is made before the handler.
\<close>

lemma main_exact:
  "\<exists>s0. calls s0 = [] \<and> \<not> client s0 \<and> jsons (printed s0) = []
      \<and> run w a = (if unreadable w a then (Raise (no_get (config_from_file w a)), s0)
                   else (case effective_args w a of
                           None \<Rightarrow> (Exit 1, s0)
                         | Some a' \<Rightarrow> try_finally (func w a') (close_connection w) s0))"
proof -
  obtain r1 s1 where v: "print_client_version w initial = (r1, s1)"
    by (cases "print_client_version w initial")
  have r1: "r1 = Val ()"
    using v by (cases "version w") (auto simp: print_client_version_def monad_defs split: if_splits)
  have s1: "calls s1 = []" "\<not> client s1" "jsons (printed s1) = []"
    using print_client_version_quiet [of w] v unfolding quiet_def
    by (metis snd_conv initial_def state.select_convs(3),
        metis snd_conv initial_def state.select_convs(1),
        metis snd_conv initial_def state.select_convs(2) jsons.simps(1))
  define load where "load = (case config_file a of
             None \<Rightarrow> ret (YMapping Map.empty)
           | Some file_path \<Rightarrow>
               if file_path = [] then ret (YMapping Map.empty)
               else load_config_from_yaml w file_path)"
  have "quiet load"
    unfolding load_def using load_config_from_yaml_quiet
    by (auto simp: quiet_def ret_def split: option.splits)
  moreover obtain r2 s2 where l: "load s1 = (r2, s2)" by (cases "load s1")
  ultimately have s2: "calls s2 = []" "\<not> client s2" "jsons (printed s2) = []"
    using s1 unfolding quiet_def by (metis snd_conv)+
  have r2: "r2 = Val (config_from_file w a)"
    using l unfolding load_def config_from_file_def
    by (cases "config_file a"; cases "load_yaml w (the (config_file a))")
       (auto simp: load_config_from_yaml_def monad_defs split: if_splits)
  define rest where "rest = (\<lambda>merged. bind (require_root_key w merged) (\<lambda>a'.
       try_finally (func w a') (close_connection w)))"
  have run: "run w a = bind (merge_config (config_from_file w a) a) rest s2"
    using v r1 l r2
    by (simp add: run_def main_def load_def rest_def andthen_def bind_def)
  show ?thesis
  proof (cases "unreadable w a")
    case True
    then have "run w a = (Raise (no_get (config_from_file w a)), s2)"
      unfolding run by (simp add: bind_def merge_config_exact)
    with True s2 show ?thesis by (intro exI [of _ s2]) simp
  next
    case False
    define a1 where "a1 = a\<lparr>url := chosen_url w a,
                      root_key := first_given [root_key a, file_key w a],
                      arg_grpc_host := chosen_grpc_host w a,
                      arg_grpc_port := chosen_grpc_port w a\<rparr>"
    have run1: "run w a = rest a1 s2"
      unfolding run using False by (simp add: bind_def merge_config_exact a1_def)
    from require_root_key_exact [OF s2(2), of w a1] obtain s3 where
      s3: "calls s3 = calls s2" "\<not> client s3" "jsons (printed s3) = jsons (printed s2)"
      and k: "require_root_key w a1 s2
                = (if truthy (first_truthy [root_key a1, environ_key w, prompted_key w])
                   then (Val (a1\<lparr>root_key := first_truthy [root_key a1, environ_key w, prompted_key w]\<rparr>), s3)
                   else (Exit 1, s3))"
      by blast
    have key: "first_truthy [root_key a1, environ_key w, prompted_key w] = chosen_key w a"
      by (simp add: a1_def chosen_key_def environ_key_first_given)
    have eff: "effective_args w a
                 = (if truthy (chosen_key w a) then Some (a1\<lparr>root_key := chosen_key w a\<rparr>) else None)"
      by (simp add: effective_args_def a1_def)
    have "run w a = (case effective_args w a of
                       None \<Rightarrow> (Exit 1, s3)
                     | Some a' \<Rightarrow> try_finally (func w a') (close_connection w) s3)"
      unfolding run1 rest_def eff using k unfolding key by (simp add: bind_def)
    with False s3 s2 show ?thesis by (intro exI [of _ s3]) simp
  qed
qed

lemma effective_args_command:
  "effective_args w a = Some a' \<Longrightarrow>
     command a' = command a \<and> recreate_api_key a' = recreate_api_key a"
  by (auto simp: effective_args_def split: if_splits)

text \<open>A run ends before any request is made, or it is the handler followed by
  \<open>close_connection\<close>, started without client and with no request made.\<close>

lemma main_cases:
  "\<exists>s0. calls s0 = [] \<and> \<not> client s0 \<and> jsons (printed s0) = []
      \<and> (run w a = (Exit 1, s0)
          \<or> (unreadable w a \<and> run w a = (Raise (no_get (config_from_file w a)), s0))
          \<or> (\<exists>a'. command a' = command a \<and> recreate_api_key a' = recreate_api_key a
                \<and> run w a = try_finally (func w a') (close_connection w) s0))"
proof -
  from main_exact [of w a] obtain s0 where
    s0: "calls s0 = []" "\<not> client s0" "jsons (printed s0) = []"
    and r: "run w a = (if unreadable w a then (Raise (no_get (config_from_file w a)), s0)
                   else (case effective_args w a of
                           None \<Rightarrow> (Exit 1, s0)
                         | Some a' \<Rightarrow> try_finally (func w a') (close_connection w) s0))"
    by blast
  have "run w a = (Exit 1, s0)
          \<or> (unreadable w a \<and> run w a = (Raise (no_get (config_from_file w a)), s0))
          \<or> (\<exists>a'. command a' = command a \<and> recreate_api_key a' = recreate_api_key a
                \<and> run w a = try_finally (func w a') (close_connection w) s0)"
  proof (cases "unreadable w a")
    case True
    with r show ?thesis by simp
  next
    case False
    show ?thesis
    proof (cases "effective_args w a")
      case None
      with r False show ?thesis by simp
    next
      case (Some a')
      with r False have "run w a = try_finally (func w a') (close_connection w) s0" by simp
      with effective_args_command [OF Some] show ?thesis by blast
    qed
  qed
  with s0 show ?thesis by blast
qed

text \<open>The shape of the request log of every run.\<close>

lemma run_summary:
  assumes ok: "\<And>a'. command a' = command a \<Longrightarrow> recreate_api_key a' = recreate_api_key a
                 \<Longrightarrow> handler_ok bnd (func w a')"
  shows "\<not> client (snd (run w a))
     \<and> ((fst (run w a) \<noteq> Val () \<and> list_all conn_event (calls (snd (run w a)))
          \<and> list_all fixed_timeouts (calls (snd (run w a)))
          \<and> ready_true \<notin> set (calls (snd (run w a))))
        \<or> (\<exists>c dat ans. calls (snd (run w a))
                = [(ConnectToCustom c, Inr RNone), ready_true] @ dat @ [(Close, ans)]
              \<and> timeout c = (20, 120) \<and> startup_period c = 30
              \<and> list_all data_event dat \<and> length dat \<le> bnd dat))"
proof -
  from main_cases [of w a] obtain s0 where
    s0: "calls s0 = []" "\<not> client s0" "jsons (printed s0) = []"
    and r: "run w a = (Exit 1, s0)
          \<or> (unreadable w a \<and> run w a = (Raise (no_get (config_from_file w a)), s0))
          \<or> (\<exists>a'. command a' = command a \<and> recreate_api_key a' = recreate_api_key a
                \<and> run w a = try_finally (func w a') (close_connection w) s0)"
    by blast
  from r consider (exit) "run w a = (Exit 1, s0)"
    | (raise) "run w a = (Raise (no_get (config_from_file w a)), s0)"
    | (handler) a' where "command a' = command a" "recreate_api_key a' = recreate_api_key a"
        "run w a = try_finally (func w a') (close_connection w) s0"
    by blast
  then show ?thesis
  proof cases
    case exit
    with s0 show ?thesis by simp
  next
    case raise
    with s0 show ?thesis by simp
  next
    case handler
    note a' = handler(1,2) and run = handler(3)
    obtain r1 s1 where f: "func w a' s0 = (r1, s1)" by (cases "func w a' s0")
    from close_connection_effect [of w s1] obtain s2 ans where
      c: "close_connection w s1 = (Val (), s2)" "\<not> client s2"
         "calls s2 = (if client s1 then calls s1 @ [(Close, ans)] else calls s1)"
      by blast
    have fin: "run w a = (r1, s2)"
      unfolding run using f c(1) by (simp add: try_finally_def)
    from ok [OF a'] s0(2) have
      "connect_failure s0 (func w a' s0)
        \<or> (\<exists>s1 dat. connected s0 s1 \<and> client (snd (func w a' s0))
              \<and> calls (snd (func w a' s0)) = calls s1 @ dat
              \<and> list_all data_event dat \<and> length dat \<le> bnd dat)"
      unfolding handler_ok_def by blast
    then show ?thesis
    proof
      assume "connect_failure s0 (func w a' s0)"
      then have "r1 = Exit 1" "failed_state s0 s1"
        using f by (simp_all add: connect_failure_def)
      then show ?thesis
        using fin c s0 by (auto simp: failed_state_def)
    next
      assume "\<exists>sc dat. connected s0 sc \<and> client (snd (func w a' s0))
              \<and> calls (snd (func w a' s0)) = calls sc @ dat
              \<and> list_all data_event dat \<and> length dat \<le> bnd dat"
      then obtain sc dat where sc: "connected s0 sc" "client s1" "calls s1 = calls sc @ dat"
        "list_all data_event dat" "length dat \<le> bnd dat"
        using f by auto
      from sc(1) s0(1) obtain cc where cc: "calls sc = [(ConnectToCustom cc, Inr RNone), ready_true]"
        "timeout cc = (20, 120)" "startup_period cc = 30"
        by (auto simp: connected_def)
      have "calls s2 = [(ConnectToCustom cc, Inr RNone), ready_true] @ dat @ [(Close, ans)]"
        using c(3) sc(2,3) cc(1) by simp
      with cc sc fin c(2) show ?thesis by auto
    qed
  qed
qed

lemmas handler_defs = func_def connect_def connect_to_weaviate_def connect_attempt_def
  connect_except_def connect_failed_def existing_healthy_def custom_connection_def
  parse_http_url_details_def close_connection_def
  handle_collection_create_def handle_collection_delete_def handle_collection_list_def
  handle_collection_describe_def handle_user_create_def handle_user_delete_def
  handle_user_list_def handle_user_update_roles_def handle_role_create_def
  handle_role_delete_def handle_role_get_def handle_role_list_def
  user_list_item_def collection_list_item_def role_list_item_def print_role_def
  permissions_of_def print_collection_details_def vectorizer_config_of_def
  role_permissions_list_def config_dict_def fallback_dict_def json_dumps_def
  replication_config_of_def sharding_config_of_def parse_properties_v4_def parse_property_def
  data_type_enum_def upper_def is_ascii_def upper_char_def json_get_def

lemmas main_defs = run_def main_def initial_def print_client_version_def
  load_config_from_yaml_def merge_config_def require_root_key_def environ_key_def
  dict_get_def dict_get_default_def no_get_def

lemmas sample_defs = demo_world_def demo_args_def exists_raises_world_def
  empty_server_world_def env_url_world_def sample_collection_def yaml_world_def yaml_args_def
  yaml_list_world_def client_v4_wvc_def flat_wvc_def dotless_int_def

lemma data_event_fixed_timeouts: "data_event ev \<Longrightarrow> fixed_timeouts ev"
  by (cases ev, cases "fst ev") (auto simp: data_event_def fixed_timeouts_def)

lemma list_all_data_fixed: "list_all data_event evs \<Longrightarrow> list_all fixed_timeouts evs"
  by (induction evs) (auto simp: data_event_fixed_timeouts)

lemma data_calls_conn: "list_all conn_event evs \<Longrightarrow> data_calls evs = []"
  by (induction evs) (auto simp: data_calls_def conn_event_def data_event_def)

lemma data_calls_data: "list_all data_event evs \<Longrightarrow> data_calls evs = evs"
  by (induction evs) (auto simp: data_calls_def)

lemma data_calls_append: "data_calls (xs @ ys) = data_calls xs @ data_calls ys"
  by (simp add: data_calls_def)

lemma data_calls_connected:
  "list_all data_event dat \<Longrightarrow>
   data_calls ([(ConnectToCustom c, Inr RNone), ready_true] @ dat @ [(Close, ans)]) = dat"
  unfolding data_calls_def
  by (simp add: data_event_def ready_true_def filter_id_conv list_all_iff)

lemma data_event_not_ready: "list_all data_event dat \<Longrightarrow> ready_true \<notin> set dat"
  by (induction dat) (auto simp: data_event_def ready_true_def)

lemma demo_user_list_calls:
  "map fst (calls (snd (run demo_world (demo_args UserList))))
     = [ConnectToCustom \<lparr>http_host = ''localhost'', http_port = 8080, http_secure = False,
          grpc_host = PStr ''localhost'', grpc_port = PInt 50051, grpc_secure = False,
          auth_credentials = Some (PStr ''admin''), timeout = (20, 120), startup_period = 30\<rparr>,
        IsReady, UsersListAll, UsersGetAssignedRoles ''alice'', UsersGetAssignedRoles ''bob'', Close]"
  by (simp add: main_defs handler_defs monad_defs sample_defs lower_def lower_char_def)


lemma run_shape:
  "\<not> client (snd (run w a))
     \<and> ((fst (run w a) \<noteq> Val () \<and> list_all conn_event (calls (snd (run w a)))
          \<and> list_all fixed_timeouts (calls (snd (run w a)))
          \<and> ready_true \<notin> set (calls (snd (run w a))))
        \<or> (\<exists>c dat ans. calls (snd (run w a))
                = [(ConnectToCustom c, Inr RNone), ready_true] @ dat @ [(Close, ans)]
              \<and> timeout c = (20, 120) \<and> startup_period c = 30
              \<and> list_all data_event dat \<and> length dat \<le> call_bound (command a) dat))"
proof (rule run_summary)
  fix a' :: args
  assume "command a' = command a"
  with func_ok [of a' w] show "handler_ok (call_bound (command a)) (func w a')" by simp
qed

text \<open>
  C7: every connection attempt of every run passes the timeout pair (20, 120) and the
  start-up period 30 to the SDK, whatever the command line, the configuration file and
  the environment hold.
\<close>

theorem connection_timeouts_fixed:
  "list_all fixed_timeouts (calls (snd (run w a)))"
proof -
  from run_shape [of w a]
  have "(list_all fixed_timeouts (calls (snd (run w a))))
        \<or> (\<exists>c dat ans. calls (snd (run w a))
                = [(ConnectToCustom c, Inr RNone), ready_true] @ dat @ [(Close, ans)]
              \<and> timeout c = (20, 120) \<and> startup_period c = 30
              \<and> list_all data_event dat)"
    by blast
  then show ?thesis
  proof
    assume "\<exists>c dat ans. calls (snd (run w a))
                = [(ConnectToCustom c, Inr RNone), ready_true] @ dat @ [(Close, ans)]
              \<and> timeout c = (20, 120) \<and> startup_period c = 30
              \<and> list_all data_event dat"
    then obtain c dat ans where "calls (snd (run w a))
                = [(ConnectToCustom c, Inr RNone), ready_true] @ dat @ [(Close, ans)]"
       "timeout c = (20, 120)" "startup_period c = 30" "list_all data_event dat" by blast
    then show ?thesis
      by (simp add: list_all_data_fixed) (simp add: fixed_timeouts_def ready_true_def)
  qed
qed

theorem connection_timeouts_fixed_witness:
  "list_all fixed_timeouts (calls (snd (run demo_world (demo_args UserList))))
   \<and> fst (hd (calls (snd (run demo_world (demo_args UserList)))))
       = ConnectToCustom \<lparr>http_host = ''localhost'', http_port = 8080, http_secure = False,
          grpc_host = PStr ''localhost'', grpc_port = PInt 50051, grpc_secure = False,
          auth_credentials = Some (PStr ''admin''), timeout = (20, 120), startup_period = 30\<rparr>"
  using connection_timeouts_fixed [of demo_world "demo_args UserList"] demo_user_list_calls
  by (cases "calls (snd (run demo_world (demo_args UserList)))") simp_all

text \<open>
  C4: no run ends with the module-level client still bound; and when the client was bound,
  which happens exactly after a readiness check answered True, the last request of the run
  is \<open>close\<close> on it.
\<close>

theorem connection_closed_before_exit:
  "\<not> client (snd (run w a))
   \<and> (ready_true \<in> set (calls (snd (run w a)))
        \<longrightarrow> calls (snd (run w a)) \<noteq> [] \<and> fst (last (calls (snd (run w a)))) = Close)"
proof -
  from run_shape [of w a]
  have nc: "\<not> client (snd (run w a))"
    and shape: "ready_true \<notin> set (calls (snd (run w a)))
        \<or> (\<exists>c dat ans. calls (snd (run w a))
                = [(ConnectToCustom c, Inr RNone), ready_true] @ dat @ [(Close, ans)])"
    by blast+
  from shape have "ready_true \<in> set (calls (snd (run w a)))
        \<longrightarrow> calls (snd (run w a)) \<noteq> [] \<and> fst (last (calls (snd (run w a)))) = Close"
    by auto
  with nc show ?thesis by blast
qed

theorem connection_closed_before_exit_witness:
  "\<not> client (snd (run demo_world (demo_args UserList)))
   \<and> ready_true \<in> set (calls (snd (run demo_world (demo_args UserList))))
   \<and> fst (last (calls (snd (run demo_world (demo_args UserList))))) = Close"
proof -
  have "ready_true \<in> set (calls (snd (run demo_world (demo_args UserList))))"
    by (simp add: main_defs handler_defs monad_defs sample_defs lower_def lower_char_def ready_true_def)
  with connection_closed_before_exit [of demo_world "demo_args UserList"] show ?thesis by blast
qed




section \<open>Runs, handler by handler\<close>

text \<open>A handler started without client: the connection fails, or the rest of the handler
  runs from the connected state.\<close>

lemma after_connect:
  assumes nc: "\<not> client s"
    and k: "\<And>s1. connected s s1 \<Longrightarrow> Q s1 (k s1)"
  shows "connect_failure s (andthen (connect w a) k s)
         \<or> (\<exists>s1. connected s s1 \<and> Q s1 (andthen (connect w a) k s))"
proof -
  from connect_cases [OF nc, of w a] show ?thesis
  proof
    assume f: "connect_failure s (connect w a s)"
    then have "andthen (connect w a) k s = (Exit 1, snd (connect w a s))"
      by (cases "connect w a s") (simp add: connect_failure_def andthen_def bind_def)
    with f show ?thesis by (simp add: connect_failure_def)
  next
    assume "\<exists>s1. connect w a s = (Val (), s1) \<and> connected s s1"
    then obtain s1 where c: "connect w a s = (Val (), s1)" "connected s s1" by blast
    then have "andthen (connect w a) k s = k s1"
      by (simp add: andthen_def bind_def)
    with k [OF c(2)] c(2) show ?thesis by auto
  qed
qed

text \<open>A run ends before the handler starts, or it ends as the handler does, after
  \<open>close_connection\<close> has closed the client if one is bound.\<close>

lemma run_cases:
  "\<exists>s0. calls s0 = [] \<and> \<not> client s0 \<and> jsons (printed s0) = []
      \<and> (run w a = (Exit 1, s0)
          \<or> (unreadable w a \<and> run w a = (Raise (no_get (config_from_file w a)), s0))
          \<or> (\<exists>a' ans. command a' = command a \<and> recreate_api_key a' = recreate_api_key a
                \<and> fst (run w a) = fst (func w a' s0)
                \<and> jsons (printed (snd (run w a))) = jsons (printed (snd (func w a' s0)))
                \<and> set (printed (snd (func w a' s0))) \<subseteq> set (printed (snd (run w a)))
                \<and> calls (snd (run w a))
                    = (if client (snd (func w a' s0)) then calls (snd (func w a' s0)) @ [(Close, ans)]
                       else calls (snd (func w a' s0)))))"
proof -
  from main_cases [of w a] obtain s0 where
    s0: "calls s0 = []" "\<not> client s0" "jsons (printed s0) = []"
    and r: "run w a = (Exit 1, s0)
          \<or> (unreadable w a \<and> run w a = (Raise (no_get (config_from_file w a)), s0))
          \<or> (\<exists>a'. command a' = command a \<and> recreate_api_key a' = recreate_api_key a
                \<and> run w a = try_finally (func w a') (close_connection w) s0)"
    by blast
  from r consider (exit) "run w a = (Exit 1, s0)"
    | (raise) "unreadable w a" "run w a = (Raise (no_get (config_from_file w a)), s0)"
    | (handler) a' where "command a' = command a" "recreate_api_key a' = recreate_api_key a"
        "run w a = try_finally (func w a') (close_connection w) s0"
    by blast
  then show ?thesis
  proof cases
    case exit
    with s0 show ?thesis by blast
  next
    case raise
    with s0 show ?thesis by blast
  next
    case handler
    note a' = handler(1,2) and run = handler(3)
    obtain r1 s1 where f: "func w a' s0 = (r1, s1)" by (cases "func w a' s0")
    from close_connection_effect [of w s1] obtain s2 ans where
      c: "close_connection w s1 = (Val (), s2)" "jsons (printed s2) = jsons (printed s1)"
         "set (printed s1) \<subseteq> set (printed s2)"
         "calls s2 = (if client s1 then calls s1 @ [(Close, ans)] else calls s1)"
      by blast
    have fin: "run w a = (r1, s2)"
      unfolding run using f c(1) by (simp add: try_finally_def)
    have "fst (run w a) = fst (func w a' s0)"
      "jsons (printed (snd (run w a))) = jsons (printed (snd (func w a' s0)))"
      "set (printed (snd (func w a' s0))) \<subseteq> set (printed (snd (run w a)))"
      "calls (snd (run w a))
         = (if client (snd (func w a' s0)) then calls (snd (func w a' s0)) @ [(Close, ans)]
            else calls (snd (func w a' s0)))"
      using fin f c by simp_all
    with a' s0 show ?thesis by blast
  qed
qed

subsection \<open>Deletions\<close>

lemma unconfirmed_delete:
  assumes d: "is_destructive (command a)"
    and no: "\<forall>c. stdin_input w = Inr c \<longrightarrow> lower c \<noteq> ''yes''"
    and nc: "\<not> client s"
  shows "connect_failure s (func w a s)
         \<or> (\<exists>s1. connected s s1
               \<and> (calls (snd (func w a s)) = calls s1 \<and> client (snd (func w a s))
                  \<and> ((\<exists>c. stdin_input w = Inr c) \<longrightarrow> fst (func w a s) = Val ())))"
proof (cases "command a")
  case (CollectionDelete name)
  show ?thesis
    unfolding func_def CollectionDelete command.case handle_collection_delete_def
    by (rule after_connect [OF nc], cases "stdin_input w")
       (use no in \<open>simp_all add: monad_defs connected_def\<close>)
next
  case (UserDelete name)
  show ?thesis
    unfolding func_def UserDelete command.case handle_user_delete_def
    by (rule after_connect [OF nc], cases "stdin_input w")
       (use no in \<open>simp_all add: monad_defs connected_def\<close>)
next
  case (RoleDelete name)
  show ?thesis
    unfolding func_def RoleDelete command.case handle_role_delete_def
    by (rule after_connect [OF nc], cases "stdin_input w")
       (use no in \<open>simp_all add: monad_defs connected_def\<close>)
qed (use d in simp_all)


text \<open>
  C8: when the answer to the confirmation of \<open>collection delete\<close>, \<open>user delete\<close> or
  \<open>role delete\<close> is not a line whose lower-case form is \<open>yes\<close>, the run makes no data
  request at all, so no deletion reaches the server; and when a line was read, the run
  ends normally or, if the connection failed before the question, with \<open>exit(1)\<close>, or else
  it never reached the handler, because \<open>main\<close> raised on a configuration file that holds
  no mapping.
\<close>

theorem deletion_needs_confirmation:
  assumes "is_destructive (command a)"
    and "\<forall>c. stdin_input w = Inr c \<longrightarrow> lower c \<noteq> ''yes''"
  shows "data_calls (calls (snd (run w a))) = []
         \<and> ((\<exists>c. stdin_input w = Inr c)
              \<longrightarrow> fst (run w a) = Val () \<or> fst (run w a) = Exit 1
                  \<or> (unreadable w a \<and> fst (run w a) = Raise (no_get (config_from_file w a))))"
proof -
  from run_cases [of w a] obtain s0 where
    s0: "calls s0 = []" "\<not> client s0"
    and r: "run w a = (Exit 1, s0)
          \<or> (unreadable w a \<and> run w a = (Raise (no_get (config_from_file w a)), s0))
          \<or> (\<exists>a' ans. command a' = command a
                \<and> fst (run w a) = fst (func w a' s0)
                \<and> calls (snd (run w a))
                    = (if client (snd (func w a' s0)) then calls (snd (func w a' s0)) @ [(Close, ans)]
                       else calls (snd (func w a' s0))))"
    by blast
  from r consider (exit) "run w a = (Exit 1, s0)"
    | (raise) "unreadable w a" "run w a = (Raise (no_get (config_from_file w a)), s0)"
    | (handler) a' ans where "command a' = command a"
        "fst (run w a) = fst (func w a' s0)"
        "calls (snd (run w a))
           = (if client (snd (func w a' s0)) then calls (snd (func w a' s0)) @ [(Close, ans)]
              else calls (snd (func w a' s0)))"
    by blast
  then show ?thesis
  proof cases
    case exit
    with s0 show ?thesis by (simp add: data_calls_def)
  next
    case raise
    with s0 show ?thesis by (simp add: data_calls_def)
  next
    case handler
    note a' = handler(1) and res = handler(2) and log = handler(3)
    from assms(1) a' have d: "is_destructive (command a')" by simp
    from unconfirmed_delete [OF d assms(2) s0(2)] show ?thesis
    proof
      assume "connect_failure s0 (func w a' s0)"
      then have "fst (func w a' s0) = Exit 1" "\<not> client (snd (func w a' s0))"
        "list_all conn_event (calls (snd (func w a' s0)))"
        using s0(1) by (auto simp: connect_failure_def failed_state_def)
      with res log show ?thesis by (simp add: data_calls_conn)
    next
      assume "\<exists>s1. connected s0 s1
               \<and> (calls (snd (func w a' s0)) = calls s1 \<and> client (snd (func w a' s0))
                  \<and> ((\<exists>c. stdin_input w = Inr c) \<longrightarrow> fst (func w a' s0) = Val ()))"
      then obtain s1 where s1: "connected s0 s1" "calls (snd (func w a' s0)) = calls s1"
        "client (snd (func w a' s0))"
        "(\<exists>c. stdin_input w = Inr c) \<longrightarrow> fst (func w a' s0) = Val ()"
        by blast
      from s1(1) s0(1) obtain c where "calls s1 = [(ConnectToCustom c, Inr RNone), ready_true]"
        by (auto simp: connected_def)
      with s1 log have "calls (snd (run w a))
          = [(ConnectToCustom c, Inr RNone), ready_true] @ [] @ [(Close, ans)]"
        by simp
      then have "data_calls (calls (snd (run w a))) = []"
        using data_calls_connected [of "[]" c ans] by simp
      with s1(4) res show ?thesis by simp
    qed
  qed
qed

theorem deletion_needs_confirmation_witness:
  "data_calls (calls (snd (run demo_world (demo_args (CollectionDelete ''Articles''))))) = []
   \<and> fst (run demo_world (demo_args (CollectionDelete ''Articles''))) = Val ()
   \<and> Line ''Collection deletion cancelled.''
       \<in> set (printed (snd (run demo_world (demo_args (CollectionDelete ''Articles'')))))
   \<and> map fst (data_calls (calls (snd (run (demo_world\<lparr>stdin_input := Inr ''YES''\<rparr>)
         (demo_args (CollectionDelete ''Articles''))))))
       = [CollectionsDelete ''Articles'']"
proof -
  have d: "is_destructive (command (demo_args (CollectionDelete ''Articles'')))"
    by (simp add: demo_args_def)
  have no: "\<forall>c. stdin_input demo_world = Inr c \<longrightarrow> lower c \<noteq> ''yes''"
    by (simp add: demo_world_def lower_def lower_char_def)
  have v: "fst (run demo_world (demo_args (CollectionDelete ''Articles''))) = Val ()"
    "Line ''Collection deletion cancelled.''
       \<in> set (printed (snd (run demo_world (demo_args (CollectionDelete ''Articles'')))))"
    by (simp_all add: main_defs handler_defs monad_defs sample_defs lower_def lower_char_def)
  have y: "map fst (data_calls (calls (snd (run (demo_world\<lparr>stdin_input := Inr ''YES''\<rparr>)
         (demo_args (CollectionDelete ''Articles''))))))
       = [CollectionsDelete ''Articles'']"
    by (simp add: main_defs handler_defs monad_defs sample_defs lower_def lower_char_def
        data_calls_def data_event_def)
  from deletion_needs_confirmation [OF d no] v y show ?thesis by blast
qed

subsection \<open>Describing a collection\<close>

lemma fetched_configs_append:
  "fetched_configs (xs @ ys) = fetched_configs xs @ fetched_configs ys"
  by (induction xs rule: fetched_configs.induct) simp_all

lemma fetched_configs_conn: "list_all conn_event evs \<Longrightarrow> fetched_configs evs = []"
  by (induction evs rule: fetched_configs.induct) (auto simp: conn_event_def)


text \<open>\<open>handle_collection_describe\<close> after connecting: it returns normally; it prints one
  JSON document for a configuration it fetched and could serialise, no other; and it
  prints the report that goes with its last request.\<close>

lemma describe_cases:
  assumes nc: "\<not> client s"
  shows "connect_failure s (handle_collection_describe w a name s)
         \<or> (\<exists>s1. connected s s1
               \<and> (\<exists>dat. fst (handle_collection_describe w a name s) = Val ()
                     \<and> client (snd (handle_collection_describe w a name s))
                     \<and> calls (snd (handle_collection_describe w a name s)) = calls s1 @ dat
                     \<and> list_all data_event dat \<and> length (fetched_configs dat) \<le> 1
                     \<and> jsons (printed (snd (handle_collection_describe w a name s)))
                         = jsons (printed s1) @ dumped (fetched_configs dat)
                     \<and> dat \<noteq> []
                     \<and> (\<exists>l. describe_report (last dat) = Some l
                            \<and> l \<in> set (printed (snd (handle_collection_describe w a name s))))))"
  unfolding handle_collection_describe_def
  apply (rule after_connect [OF nc])
  subgoal for s1
    apply (cases "sdk_bool w (calls s1) (CollectionsExists name)")
    subgoal for e
      by (rule exI [of _ "[(CollectionsExists name, Inl e)]"])
         (simp add: monad_defs jsons_append data_event_def dumped_def connected_def
            describe_error_def)
    subgoal for exists
      apply (cases exists)
      subgoal
        apply (cases "sdk_none w (calls s1 @ [(CollectionsExists name, Inr (RBool True))])
                 (CollectionsGet name)")
        subgoal for e
          by (rule exI [of _ "[(CollectionsExists name, Inr (RBool True)), (CollectionsGet name, Inl e)]"])
             (simp add: monad_defs jsons_append data_event_def dumped_def connected_def
                describe_error_def)
        subgoal for u
          apply (cases "sdk_config w (calls s1 @ [(CollectionsExists name, Inr (RBool True)),
                   (CollectionsGet name, Inr RNone)]) (ConfigGet name)")
          subgoal for e
            by (rule exI [of _ "[(CollectionsExists name, Inr (RBool True)),
                  (CollectionsGet name, Inr RNone), (ConfigGet name, Inl e)]"])
               (simp add: monad_defs jsons_append data_event_def dumped_def connected_def
                  describe_error_def)
          subgoal for cfg
            by (rule exI [of _ "[(CollectionsExists name, Inr (RBool True)),
                  (CollectionsGet name, Inr RNone), (ConfigGet name, Inr (RConfig cfg))]"])
               (simp add: monad_defs jsons_append data_event_def dumped_def connected_def
                  json_dumps_def describe_error_def)
          done
        done
      subgoal
        by (rule exI [of _ "[(CollectionsExists name, Inr (RBool False))]"])
           (simp add: monad_defs jsons_append data_event_def dumped_def connected_def)
      done
    done
  done

text \<open>
  C6 as stated fails: describing a collection that the server does not know exits 0 and
  prints a line saying so, and no JSON document.
\<close>

theorem describe_json_counterexample:
  "exit_status (fst (run empty_server_world (demo_args (CollectionDescribe ''Articles'')))) = 0
   \<and> jsons (printed (snd (run empty_server_world (demo_args (CollectionDescribe ''Articles''))))) = []
   \<and> Line ''Collection '{args.name}' does not exist.''
        \<in> set (printed (snd (run empty_server_world (demo_args (CollectionDescribe ''Articles'')))))"
  by (simp add: main_defs handler_defs monad_defs sample_defs lower_def lower_char_def)

text \<open>
  C6, amended. An invocation of \<open>collection describe\<close> exits 0 exactly when the connection
  was established. It then prints the report that goes with its last data request
  (\<open>describe_report\<close>): the line \<open>does not exist\<close> when \<open>exists\<close> answered False; a line
  describing the exception when a request raised; and when \<open>config.get()\<close> returned a
  configuration, the JSON document of it (\<open>to_dict()\<close>, or the dictionary of attributes
  when that raises), or a line describing the TypeError of \<open>json.dumps\<close> when the document
  cannot be serialised. The JSON documents printed in a run are exactly the documents of
  the configurations fetched in it that can be serialised: at most one, and none on the
  other paths.
\<close>

theorem describe_prints_json:
  assumes d: "command a = CollectionDescribe name"
  shows "jsons (printed (snd (run w a))) = dumped (fetched_configs (calls (snd (run w a))))
         \<and> length (fetched_configs (calls (snd (run w a)))) \<le> 1
         \<and> (exit_status (fst (run w a)) = 0) = (ready_true \<in> set (calls (snd (run w a))))
         \<and> (ready_true \<in> set (calls (snd (run w a)))
              \<longrightarrow> data_calls (calls (snd (run w a))) \<noteq> []
                  \<and> (\<exists>l. describe_report (last (data_calls (calls (snd (run w a))))) = Some l
                         \<and> l \<in> set (printed (snd (run w a)))))"
proof -
  from run_cases [of w a] obtain s0 where
    s0: "calls s0 = []" "\<not> client s0" "jsons (printed s0) = []"
    and r: "run w a = (Exit 1, s0)
          \<or> (unreadable w a \<and> run w a = (Raise (no_get (config_from_file w a)), s0))
          \<or> (\<exists>a' ans. command a' = command a
                \<and> fst (run w a) = fst (func w a' s0)
                \<and> jsons (printed (snd (run w a))) = jsons (printed (snd (func w a' s0)))
                \<and> set (printed (snd (func w a' s0))) \<subseteq> set (printed (snd (run w a)))
                \<and> calls (snd (run w a))
                    = (if client (snd (func w a' s0)) then calls (snd (func w a' s0)) @ [(Close, ans)]
                       else calls (snd (func w a' s0))))"
    by blast
  from r consider (exit) "run w a = (Exit 1, s0)"
    | (raise) "run w a = (Raise (no_get (config_from_file w a)), s0)"
    | (handler) a' ans where "command a' = command a"
        "fst (run w a) = fst (func w a' s0)"
        "jsons (printed (snd (run w a))) = jsons (printed (snd (func w a' s0)))"
        "set (printed (snd (func w a' s0))) \<subseteq> set (printed (snd (run w a)))"
        "calls (snd (run w a))
           = (if client (snd (func w a' s0)) then calls (snd (func w a' s0)) @ [(Close, ans)]
              else calls (snd (func w a' s0)))"
    by blast
  then show ?thesis
  proof cases
    case exit
    with s0 show ?thesis by (simp add: dumped_def)
  next
    case raise
    with s0 show ?thesis by (simp add: dumped_def)
  next
    case handler
    note a' = handler(1) and res = handler(2) and out = handler(3) and lines = handler(4)
      and log = handler(5)
    have f: "func w a' = handle_collection_describe w a' name"
      using a' d by (simp add: func_def)
    from describe_cases [OF s0(2), of w a' name] show ?thesis
    proof
      assume "connect_failure s0 (handle_collection_describe w a' name s0)"
      then have "fst (func w a' s0) = Exit 1" "\<not> client (snd (func w a' s0))"
        "list_all conn_event (calls (snd (func w a' s0)))"
        "ready_true \<notin> set (calls (snd (func w a' s0)))"
        "jsons (printed (snd (func w a' s0))) = []"
        using s0 f by (auto simp: connect_failure_def failed_state_def)
      with res out log show ?thesis by (simp add: fetched_configs_conn dumped_def)
    next
      assume "\<exists>s1. connected s0 s1
               \<and> (\<exists>dat. fst (handle_collection_describe w a' name s0) = Val ()
                     \<and> client (snd (handle_collection_describe w a' name s0))
                     \<and> calls (snd (handle_collection_describe w a' name s0)) = calls s1 @ dat
                     \<and> list_all data_event dat \<and> length (fetched_configs dat) \<le> 1
                     \<and> jsons (printed (snd (handle_collection_describe w a' name s0)))
                         = jsons (printed s1) @ dumped (fetched_configs dat)
                     \<and> dat \<noteq> []
                     \<and> (\<exists>l. describe_report (last dat) = Some l
                            \<and> l \<in> set (printed (snd (handle_collection_describe w a' name s0)))))"
      then obtain s1 dat l where s1: "connected s0 s1"
        and h: "fst (func w a' s0) = Val ()"
          "client (snd (func w a' s0))" "calls (snd (func w a' s0)) = calls s1 @ dat"
          "list_all data_event dat"
          "length (fetched_configs dat) \<le> 1"
          "jsons (printed (snd (func w a' s0))) = jsons (printed s1) @ dumped (fetched_configs dat)"
          "dat \<noteq> []"
        and l: "describe_report (last dat) = Some l" "l \<in> set (printed (snd (func w a' s0)))"
        using f by auto
      from s1 s0 obtain c where c: "calls s1 = [(ConnectToCustom c, Inr RNone), ready_true]"
        "jsons (printed s1) = []"
        by (auto simp: connected_def)
      have log': "calls (snd (run w a))
                    = [(ConnectToCustom c, Inr RNone), ready_true] @ dat @ [(Close, ans)]"
        using log h(2,3) c(1) by simp
      have dc: "data_calls (calls (snd (run w a))) = dat"
        unfolding log' using h(4) by (rule data_calls_connected)
      have fc: "fetched_configs (calls (snd (run w a))) = fetched_configs dat"
        unfolding log' by (simp add: fetched_configs_append ready_true_def)
      have rdy: "ready_true \<in> set (calls (snd (run w a)))"
        unfolding log' by simp
      have "l \<in> set (printed (snd (run w a)))"
        using l(2) lines by blast
      with l(1) dc fc rdy out h(1,5,6,7) c(2) res show ?thesis by simp
    qed
  qed
qed

theorem describe_prints_json_witness:
  "jsons (printed (snd (run (demo_world\<lparr>sdk_config := (\<lambda>h rq. Inr
        \<lparr>cfg_to_dict = Inr (JObj [(''name'', JStr ''Articles'')]), cfg_name = ''Articles'',
         cfg_description = JNull, cfg_vectorizer = ''none'', cfg_vector_index_type = ''hnsw'',
         cfg_properties = [], cfg_replication_factor = None, cfg_sharding_config = None,
         cfg_inverted_index_config = None\<rparr>)\<rparr>) (demo_args (CollectionDescribe ''Articles'')))))
     = [JObj [(''name'', JStr ''Articles'')]]
   \<and> exit_status (fst (run (demo_world\<lparr>sdk_config := (\<lambda>h rq. Inr
        \<lparr>cfg_to_dict = Inr (JObj [(''name'', JStr ''Articles'')]), cfg_name = ''Articles'',
         cfg_description = JNull, cfg_vectorizer = ''none'', cfg_vector_index_type = ''hnsw'',
         cfg_properties = [], cfg_replication_factor = None, cfg_sharding_config = None,
         cfg_inverted_index_config = None\<rparr>)\<rparr>) (demo_args (CollectionDescribe ''Articles'')))) = 0
   \<and> Json (JObj [(''name'', JStr ''Articles'')])
       \<in> set (printed (snd (run (demo_world\<lparr>sdk_config := (\<lambda>h rq. Inr
        \<lparr>cfg_to_dict = Inr (JObj [(''name'', JStr ''Articles'')]), cfg_name = ''Articles'',
         cfg_description = JNull, cfg_vectorizer = ''none'', cfg_vector_index_type = ''hnsw'',
         cfg_properties = [], cfg_replication_factor = None, cfg_sharding_config = None,
         cfg_inverted_index_config = None\<rparr>)\<rparr>) (demo_args (CollectionDescribe ''Articles'')))))
   \<and> describe_error (Exn WeaviateQueryException ''Query call failed'')
       \<in> set (printed (snd (run exists_raises_world (demo_args (CollectionDescribe ''Articles'')))))"
proof -
  define cfg where "cfg = \<lparr>cfg_to_dict = Inr (JObj [(''name'', JStr ''Articles'')]), cfg_name = ''Articles'',
         cfg_description = JNull, cfg_vectorizer = ''none'', cfg_vector_index_type = ''hnsw'',
         cfg_properties = [], cfg_replication_factor = None, cfg_sharding_config = None,
         cfg_inverted_index_config = None\<rparr>"
  define w where "w = demo_world\<lparr>sdk_config := (\<lambda>h rq. Inr cfg)\<rparr>"
  define a where "a = demo_args (CollectionDescribe ''Articles'')"
  have c: "command a = CollectionDescribe ''Articles''"
    by (simp add: a_def demo_args_def)
  have log: "calls (snd (run w a))
      = [(ConnectToCustom (custom_connection (''localhost'', 8080, False) (PStr ''admin'') PNone PNone),
            Inr RNone), ready_true,
         (CollectionsExists ''Articles'', Inr (RBool True)),
         (CollectionsGet ''Articles'', Inr RNone),
         (ConfigGet ''Articles'', Inr (RConfig cfg)), (Close, Inr RNone)]"
    by (simp add: w_def a_def main_defs handler_defs monad_defs sample_defs lower_def lower_char_def
        ready_true_def)
  have log2: "calls (snd (run exists_raises_world a))
      = [(ConnectToCustom (custom_connection (''localhost'', 8080, False) (PStr ''admin'') PNone PNone),
            Inr RNone), ready_true,
         (CollectionsExists ''Articles'', Inl (Exn WeaviateQueryException ''Query call failed'')),
         (Close, Inr RNone)]"
    by (simp add: a_def main_defs handler_defs monad_defs sample_defs lower_def lower_char_def
        ready_true_def)
  have ser: "config_dict cfg = JObj [(''name'', JStr ''Articles'')]"
    "serializable (JObj [(''name'', JStr ''Articles'')])"
    by (simp_all add: cfg_def config_dict_def)
  from describe_prints_json [OF c, of w] log ser
  have "jsons (printed (snd (run w a))) = [JObj [(''name'', JStr ''Articles'')]]"
    "exit_status (fst (run w a)) = 0"
    "Json (JObj [(''name'', JStr ''Articles'')]) \<in> set (printed (snd (run w a)))"
    by (simp_all add: dumped_def data_calls_def data_event_def ready_true_def)
  moreover from describe_prints_json [OF c, of exists_raises_world] log2
  have "describe_error (Exn WeaviateQueryException ''Query call failed'')
          \<in> set (printed (snd (run exists_raises_world a)))"
    by (simp add: data_calls_def data_event_def ready_true_def)
  ultimately show ?thesis
    unfolding w_def a_def cfg_def by blast
qed

section \<open>Connection parameters\<close>

lemma parse_http_url_details_Inr:
  assumes "parse_http_url_details w url_str = Inr (host, hport, secure)"
  shows "\<exists>u parsed. url_str = PStr u \<and> urlparse w u = Inr parsed
            \<and> hostname parsed = Some host \<and> secure = (lower (scheme parsed) = ''https'')"
  using assms
  by (auto simp: parse_http_url_details_def Let_def
      split: pyval.splits if_splits option.splits sum.splits)

text \<open>The requests of the \<open>try\<close> block of \<open>connect_to_weaviate\<close>: none when the URL does not
  parse; otherwise one connection, with the arguments of \<open>custom_connection\<close>, and after
  it only readiness, liveness and \<open>close\<close>.\<close>

lemma connect_attempt_log:
  assumes nc: "\<not> client s"
  shows "\<exists>ext. calls (snd (connect_attempt w u k h p s)) = calls s @ ext
           \<and> (\<forall>c ans. (ConnectToCustom c, ans) \<in> set ext
                 \<longrightarrow> (\<exists>http. parse_http_url_details w u = Inr http
                         \<and> c = custom_connection http k h p))"
proof (cases "parse_http_url_details w u")
  case (Inl e)
  with nc have "connect_attempt w u k h p s = (Raise e, s)"
    by (simp add: connect_attempt_def monad_defs)
  then show ?thesis by (intro exI [of _ "[]"]) simp
next
  case (Inr http)
  define c where "c = custom_connection http k h p"
  define h1 where "h1 = calls s @ [(ConnectToCustom c, Inr RNone)]"
  define h2 where "h2 = h1 @ [(IsReady, Inr (RBool False))]"
  define h3 where "h3 = h2 @ [(IsLive, map_sum id RBool (sdk_bool w h2 IsLive))]"
  have "\<exists>ans rest. calls (snd (connect_attempt w u k h p s))
           = calls s @ (ConnectToCustom c, ans) # rest
         \<and> (\<forall>c' ans'. (ConnectToCustom c', ans') \<notin> set rest)"
    using nc Inr
    by (cases "sdk_none w (calls s) (ConnectToCustom c)"; cases "sdk_bool w h1 IsReady";
        cases "sdk_bool w h2 IsLive"; cases "sdk_none w h3 Close")
       (simp_all add: connect_attempt_def monad_defs c_def h1_def h2_def h3_def)
  then obtain ans rest where
    "calls (snd (connect_attempt w u k h p s)) = calls s @ (ConnectToCustom c, ans) # rest"
    "\<forall>c' ans'. (ConnectToCustom c', ans') \<notin> set rest"
    by blast
  with Inr show ?thesis
    by (intro exI [of _ "(ConnectToCustom c, ans) # rest"]) (auto simp: c_def)
qed

lemma connect_to_weaviate_log:
  assumes nc: "\<not> client s"
  shows "\<exists>ext. calls (snd (connect_to_weaviate w u k h p s)) = calls s @ ext
           \<and> (\<forall>c ans. (ConnectToCustom c, ans) \<in> set ext
                 \<longrightarrow> (\<exists>http. parse_http_url_details w u = Inr http
                         \<and> c = custom_connection http k h p))"
proof -
  define s0 where "s0 = s\<lparr>printed := printed s @ [Line ''Attempting to connect to Weaviate at {url} (client v4.x) using custom connection parameters...'']\<rparr>"
  have s0: "\<not> client s0" "calls s0 = calls s" using nc by (simp_all add: s0_def)
  have start: "connect_to_weaviate w u k h p s
                 = try_except (connect_attempt w u k h p) (connect_except w) s0"
    using nc by (simp add: connect_to_weaviate_def existing_healthy_def s0_def ret_def bind_def
        andthen_def print_def get_client_def)
  from connect_attempt_cases [OF s0(1), of w u k h p]
  consider (ok) s1 where "connect_attempt w u k h p s0 = (Val (), s1)"
    | (exit) s' where "connect_attempt w u k h p s0 = (Exit 1, s')"
    | (exn) e s' where "connect_attempt w u k h p s0 = (Raise e, s')" "failed_state s0 s'"
    by blast
  then have "calls (snd (connect_to_weaviate w u k h p s)) = calls (snd (connect_attempt w u k h p s0))"
  proof cases
    case ok
    then show ?thesis unfolding start by (simp add: try_except_def)
  next
    case exit
    then show ?thesis unfolding start by (simp add: try_except_def)
  next
    case exn
    from exn(2) have "\<not> client s'" by (simp add: failed_state_def)
    from connect_except_effect [OF this, of w e] exn(1) show ?thesis
      unfolding start by (auto simp: try_except_def)
  qed
  with connect_attempt_log [OF s0(1), of w u k h p] s0(2) show ?thesis by simp
qed

text \<open>After the connection a handler makes data requests only.\<close>

lemma func_log:
  "\<exists>dat. calls (snd (func w a s)) = calls (snd (connect w a s)) @ dat \<and> list_all data_event dat"
proof -
  from func_shape [of w a] obtain k where
    f: "func w a = andthen (connect w a) k" and k: "bounded (call_bound (command a)) k" by blast
  obtain r s1 where c: "connect w a s = (r, s1)" by (cases "connect w a s")
  show ?thesis
  proof (cases r)
    case (Val u)
    from k obtain dat where "calls (snd (k s1)) = calls s1 @ dat" "list_all data_event dat"
      unfolding bounded_def by blast
    with c Val show ?thesis unfolding f by (simp add: andthen_def bind_def)
  next
    case (Raise e)
    with c show ?thesis unfolding f by (simp add: andthen_def bind_def)
  next
    case (Exit n)
    with c show ?thesis unfolding f by (simp add: andthen_def bind_def)
  qed
qed

lemma data_event_not_connect: "list_all data_event dat \<Longrightarrow> (ConnectToCustom c, ans) \<notin> set dat"
  by (induction dat) (auto simp: data_event_def)

text \<open>Every connection request of a run was made by \<open>connect_to_weaviate\<close> from the
  settings chosen by precedence.\<close>

lemma run_connections:
  assumes "(ConnectToCustom c, ans) \<in> set (calls (snd (run w a)))"
  shows "\<exists>http. parse_http_url_details w (chosen_url w a) = Inr http
           \<and> c = custom_connection http (chosen_key w a) (chosen_grpc_host w a)
                   (chosen_grpc_port w a)"
proof -
  from main_exact [of w a] obtain s0 where
    s0: "calls s0 = []" "\<not> client s0"
    and r: "run w a = (if unreadable w a then (Raise (no_get (config_from_file w a)), s0)
                   else (case effective_args w a of
                           None \<Rightarrow> (Exit 1, s0)
                         | Some a' \<Rightarrow> try_finally (func w a') (close_connection w) s0))"
    by blast
  have nu: "\<not> unreadable w a"
    using assms r s0(1) by (cases "unreadable w a") simp_all
  then obtain a' where eff: "effective_args w a = Some a'"
    using assms r s0(1) by (cases "effective_args w a") simp_all
  have run: "run w a = try_finally (func w a') (close_connection w) s0"
    using r nu eff by simp
  have a': "url a' = chosen_url w a" "root_key a' = chosen_key w a"
    "arg_grpc_host a' = chosen_grpc_host w a" "arg_grpc_port a' = chosen_grpc_port w a"
    using eff by (auto simp: effective_args_def split: if_splits)
  obtain r1 s1 where f: "func w a' s0 = (r1, s1)" by (cases "func w a' s0")
  from close_connection_effect [of w s1] obtain s2 ans' where
    cl: "close_connection w s1 = (Val (), s2)"
        "calls s2 = (if client s1 then calls s1 @ [(Close, ans')] else calls s1)"
    by blast
  have "run w a = (r1, s2)"
    unfolding run using f cl(1) by (simp add: try_finally_def)
  with assms cl(2) have in_f: "(ConnectToCustom c, ans) \<in> set (calls s1)"
    by (auto split: if_splits)
  from func_log [of w a' s0] f obtain dat where
    dat: "calls s1 = calls (snd (connect w a' s0)) @ dat" "list_all data_event dat"
    by auto
  from in_f dat data_event_not_connect [OF dat(2)]
  have in_c: "(ConnectToCustom c, ans) \<in> set (calls (snd (connect w a' s0)))"
    by auto
  from connect_to_weaviate_log [OF s0(2), of w "url a'" "root_key a'" "arg_grpc_host a'" "arg_grpc_port a'"]
  obtain ext where
    "calls (snd (connect w a' s0)) = calls s0 @ ext"
    "\<forall>c ans. (ConnectToCustom c, ans) \<in> set ext
        \<longrightarrow> (\<exists>http. parse_http_url_details w (url a') = Inr http
               \<and> c = custom_connection http (root_key a') (arg_grpc_host a') (arg_grpc_port a'))"
    unfolding connect_def by blast
  with in_c s0(1) a' show ?thesis by auto
qed

text \<open>
  C9 as stated fails, in two ways. An empty \<open>--grpc-host\<close> is a value that was given, and
  the connection uses the host of the URL instead. And with neither \<open>--grpc-host\<close> nor
  \<open>--grpc-port\<close> given, the connection uses the \<open>grpc_host\<close> and \<open>grpc_port\<close> of the
  configuration file, not the host of the URL and 50051; there the port 443 makes the gRPC
  connection secure although the URL is an http one.
\<close>

theorem grpc_host_counterexample:
  "fst (hd (calls (snd (run demo_world ((demo_args UserList)\<lparr>arg_grpc_host := PStr []\<rparr>)))))
     = ConnectToCustom \<lparr>http_host = ''localhost'', http_port = 8080, http_secure = False,
          grpc_host = PStr ''localhost'', grpc_port = PInt 50051, grpc_secure = False,
          auth_credentials = Some (PStr ''admin''), timeout = (20, 120), startup_period = 30\<rparr>
   \<and> fst (hd (calls (snd (run yaml_world (yaml_args UserList)))))
     = ConnectToCustom \<lparr>http_host = ''localhost'', http_port = 8080, http_secure = False,
          grpc_host = PStr ''yamlgrpc'', grpc_port = PInt 443, grpc_secure = True,
          auth_credentials = Some (PStr ''yaml-key''), timeout = (20, 120), startup_period = 30\<rparr>"
  by (simp add: main_defs handler_defs monad_defs sample_defs lower_def lower_char_def)

text \<open>
  C9, amended: for every connection request of a run, with the URL, the gRPC host and the
  gRPC port each taken from the command line if given there and otherwise from the
  configuration file: the URL parses; the gRPC host is the chosen one if it is neither
  None nor empty, otherwise the host of the URL; the gRPC port is the chosen one if there
  is one, otherwise 50051; and the gRPC secure flag is true when the chosen port is the
  number 443, false when it is 80, and otherwise the HTTP secure flag, which is true
  exactly when the scheme of the URL is https.
\<close>

theorem grpc_parameters:
  assumes "(ConnectToCustom c, ans) \<in> set (calls (snd (run w a)))"
  shows "\<exists>host hport secure.
           parse_http_url_details w (chosen_url w a) = Inr (host, hport, secure)
           \<and> (\<exists>u parsed. chosen_url w a = PStr u \<and> urlparse w u = Inr parsed
                  \<and> hostname parsed = Some host \<and> secure = (lower (scheme parsed) = ''https''))
           \<and> http_host c = host \<and> http_secure c = secure
           \<and> grpc_host c = (if truthy (chosen_grpc_host w a) then chosen_grpc_host w a
                             else PStr host)
           \<and> grpc_port c = (if chosen_grpc_port w a = PNone then PInt 50051
                             else chosen_grpc_port w a)
           \<and> grpc_secure c = (if chosen_grpc_port w a = PInt 443 then True
                               else if chosen_grpc_port w a = PInt 80 then False else secure)"
proof -
  from run_connections [OF assms] obtain http where
    p: "parse_http_url_details w (chosen_url w a) = Inr http"
    and c: "c = custom_connection http (chosen_key w a) (chosen_grpc_host w a)
                  (chosen_grpc_port w a)"
    by blast
  obtain host hport secure where http: "http = (host, hport, secure)" by (cases http)
  have "http_host c = host" "http_secure c = secure"
    "grpc_host c = (if truthy (chosen_grpc_host w a) then chosen_grpc_host w a else PStr host)"
    "grpc_port c = (if chosen_grpc_port w a = PNone then PInt 50051 else chosen_grpc_port w a)"
    "grpc_secure c = (if chosen_grpc_port w a = PInt 443 then True
                      else if chosen_grpc_port w a = PInt 80 then False else secure)"
    unfolding c http by (simp_all add: custom_connection_def)
  with p parse_http_url_details_Inr [of w "chosen_url w a" host hport secure] http
  show ?thesis by blast
qed

theorem grpc_parameters_witness:
  "chosen_grpc_host yaml_world (yaml_args UserList) = PStr ''yamlgrpc''
   \<and> chosen_grpc_port yaml_world (yaml_args UserList) = PInt 443
   \<and> (\<exists>c. (ConnectToCustom c, Inr RNone) \<in> set (calls (snd (run yaml_world (yaml_args UserList))))
          \<and> http_host c = ''localhost'' \<and> http_secure c = False
          \<and> grpc_host c = PStr ''yamlgrpc'' \<and> grpc_port c = PInt 443 \<and> grpc_secure c = True)
   \<and> (\<exists>c. (ConnectToCustom c, Inr RNone)
             \<in> set (calls (snd (run demo_world ((demo_args UserList)\<lparr>arg_grpc_port := PInt 80\<rparr>))))
          \<and> grpc_host c = PStr ''localhost'' \<and> grpc_port c = PInt 80 \<and> grpc_secure c = False)"
proof -
  define c1 where "c1 = custom_connection (''localhost'', 8080, False) (PStr ''yaml-key'')
                          (PStr ''yamlgrpc'') (PInt 443)"
  define c2 where "c2 = custom_connection (''localhost'', 8080, False) (PStr ''admin'')
                          PNone (PInt 80)"
  have ch: "chosen_grpc_host yaml_world (yaml_args UserList) = PStr ''yamlgrpc''"
    "chosen_grpc_port yaml_world (yaml_args UserList) = PInt 443"
    "chosen_url yaml_world (yaml_args UserList) = PStr ''http://localhost:8080''"
    by (simp_all add: chosen_grpc_host_def chosen_grpc_port_def chosen_url_def file_value_def
        config_from_file_def yaml_world_def yaml_args_def demo_world_def dict_get_def
        dict_get_default_def)
  have ch2: "chosen_grpc_host demo_world ((demo_args UserList)\<lparr>arg_grpc_port := PInt 80\<rparr>) = PNone"
    "chosen_grpc_port demo_world ((demo_args UserList)\<lparr>arg_grpc_port := PInt 80\<rparr>) = PInt 80"
    "chosen_url demo_world ((demo_args UserList)\<lparr>arg_grpc_port := PInt 80\<rparr>)
       = PStr ''http://localhost:8080''"
    by (simp_all add: chosen_grpc_host_def chosen_grpc_port_def chosen_url_def file_value_def
        config_from_file_def demo_world_def demo_args_def dict_get_def dict_get_default_def)
  have p: "parse_http_url_details yaml_world (PStr ''http://localhost:8080'')
             = Inr (''localhost'', 8080, False)"
    "parse_http_url_details demo_world (PStr ''http://localhost:8080'')
             = Inr (''localhost'', 8080, False)"
    by (simp_all add: parse_http_url_details_def yaml_world_def demo_world_def lower_def
        lower_char_def)
  have m1: "(ConnectToCustom c1, Inr RNone) \<in> set (calls (snd (run yaml_world (yaml_args UserList))))"
    by (simp add: c1_def main_defs handler_defs monad_defs sample_defs lower_def lower_char_def)
  have m2: "(ConnectToCustom c2, Inr RNone)
              \<in> set (calls (snd (run demo_world ((demo_args UserList)\<lparr>arg_grpc_port := PInt 80\<rparr>))))"
    by (simp add: c2_def main_defs handler_defs monad_defs sample_defs lower_def lower_char_def)
  from grpc_parameters [OF m1] ch p(1)
  have "http_host c1 = ''localhost'' \<and> http_secure c1 = False
          \<and> grpc_host c1 = PStr ''yamlgrpc'' \<and> grpc_port c1 = PInt 443 \<and> grpc_secure c1 = True"
    by auto
  moreover from grpc_parameters [OF m2] ch2 p(2)
  have "grpc_host c2 = PStr ''localhost'' \<and> grpc_port c2 = PInt 80 \<and> grpc_secure c2 = False"
    by auto
  ultimately show ?thesis using ch m1 m2 by blast
qed

section \<open>Settings\<close>

text \<open>
  C2 as stated fails: no environment variable supplies the URL. With every environment
  variable set to a URL, and no URL on the command line or in a configuration file, the
  run fails on the missing URL before any request.
\<close>

theorem env_url_counterexample:
  "fst (run env_url_world ((demo_args UserList)\<lparr>url := PNone\<rparr>)) = Exit 1
   \<and> calls (snd (run env_url_world ((demo_args UserList)\<lparr>url := PNone\<rparr>))) = []
   \<and> map exn_class_of (described (printed (snd (run env_url_world ((demo_args UserList)\<lparr>url := PNone\<rparr>)))))
       = [ValueError]"
  by (simp add: main_defs handler_defs monad_defs sample_defs lower_def lower_char_def)

text \<open>
  C2, amended: unless \<open>main\<close> raises on a configuration file that holds no mapping, which
  it does as soon as one of the four settings is not given on the command line, the
  handler runs with the settings \<open>effective_args\<close> chooses, and no request is made before
  it. The URL, the gRPC host and the gRPC port are the command-line value if given,
  otherwise the value of the configuration file; no environment variable and no prompt
  supplies them. The key is the command-line value if given, even the empty string,
  otherwise the file's; when the key so chosen is None or empty, the environment's; when
  that is None or empty too, the prompt's; and without a key from any of them the process
  exits with status 1 before the handler starts. So an empty key on the command line hides
  the key of the file, and the environment's is used.
\<close>

theorem settings_precedence:
  "\<exists>s0. calls s0 = [] \<and> \<not> client s0
      \<and> run w a = (if unreadable w a then (Raise (no_get (config_from_file w a)), s0)
                   else (case effective_args w a of
                           None \<Rightarrow> (Exit 1, s0)
                         | Some a' \<Rightarrow> try_finally (func w a') (close_connection w) s0))"
  using main_exact [of w a] by blast

theorem settings_precedence_witness:
  "effective_args yaml_world (yaml_args UserList)
     = Some ((yaml_args UserList)\<lparr>root_key := PStr ''yaml-key'', arg_grpc_host := PStr ''yamlgrpc'',
              arg_grpc_port := PInt 443\<rparr>)
   \<and> effective_args yaml_world ((yaml_args UserList)\<lparr>root_key := PStr []\<rparr>)
     = Some ((yaml_args UserList)\<lparr>root_key := PStr ''env-key'', arg_grpc_host := PStr ''yamlgrpc'',
              arg_grpc_port := PInt 443\<rparr>)
   \<and> (\<exists>s0. run yaml_world ((yaml_args UserList)\<lparr>root_key := PStr []\<rparr>)
            = try_finally
                (func yaml_world
                   ((yaml_args UserList)\<lparr>root_key := PStr ''env-key'',
                      arg_grpc_host := PStr ''yamlgrpc'', arg_grpc_port := PInt 443\<rparr>))
                (close_connection yaml_world) s0)
   \<and> unreadable yaml_list_world (yaml_args UserList)
   \<and> fst (run yaml_list_world (yaml_args UserList))
       = Raise (Exn AttributeError ''list object has no attribute get'')"
proof -
  have e1: "effective_args yaml_world (yaml_args UserList)
     = Some ((yaml_args UserList)\<lparr>root_key := PStr ''yaml-key'', arg_grpc_host := PStr ''yamlgrpc'',
              arg_grpc_port := PInt 443\<rparr>)"
    by (simp add: effective_args_def chosen_key_def chosen_url_def chosen_grpc_host_def
        chosen_grpc_port_def file_value_def file_key_def config_from_file_def env_var_def
        prompted_key_def dict_get_def dict_get_default_def yaml_world_def yaml_args_def
        demo_world_def)
  have e2: "effective_args yaml_world ((yaml_args UserList)\<lparr>root_key := PStr []\<rparr>)
     = Some ((yaml_args UserList)\<lparr>root_key := PStr ''env-key'', arg_grpc_host := PStr ''yamlgrpc'',
              arg_grpc_port := PInt 443\<rparr>)"
    by (simp add: effective_args_def chosen_key_def chosen_url_def chosen_grpc_host_def
        chosen_grpc_port_def file_value_def file_key_def config_from_file_def env_var_def
        prompted_key_def dict_get_def dict_get_default_def yaml_world_def yaml_args_def
        demo_world_def)
  have u2: "\<not> unreadable yaml_world ((yaml_args UserList)\<lparr>root_key := PStr []\<rparr>)"
    by (simp add: unreadable_def config_from_file_def yaml_world_def yaml_args_def demo_world_def)
  have u3: "unreadable yaml_list_world (yaml_args UserList)"
    "no_get (config_from_file yaml_list_world (yaml_args UserList))
       = Exn AttributeError ''list object has no attribute get''"
    by (simp_all add: unreadable_def no_get_def config_from_file_def yaml_list_world_def
        yaml_args_def demo_world_def)
  from settings_precedence [of yaml_world "(yaml_args UserList)\<lparr>root_key := PStr []\<rparr>"] u2 e2
  have "\<exists>s0. run yaml_world ((yaml_args UserList)\<lparr>root_key := PStr []\<rparr>)
            = try_finally
                (func yaml_world
                   ((yaml_args UserList)\<lparr>root_key := PStr ''env-key'',
                      arg_grpc_host := PStr ''yamlgrpc'', arg_grpc_port := PInt 443\<rparr>))
                (close_connection yaml_world) s0"
    by auto
  moreover from settings_precedence [of yaml_list_world "yaml_args UserList"] u3
  have "fst (run yaml_list_world (yaml_args UserList))
       = Raise (Exn AttributeError ''list object has no attribute get'')"
    by auto
  ultimately show ?thesis using e1 e2 u3(1) by blast
qed

section \<open>Where exceptions are caught\<close>

named_theorems flow_rules

lemma no_exit_ret [flow_rules]: "no_exit (ret x)"
  by (simp add: no_exit_def ret_def)

lemma no_exit_raise [flow_rules]: "no_exit (raise e)"
  by (simp add: no_exit_def raise_def)

lemma no_exit_lift [flow_rules]: "no_exit (lift r)"
  by (cases r) (simp_all add: no_exit_def lift_def ret_def raise_def)

lemma no_exit_print [flow_rules]: "no_exit (print l)"
  by (simp add: no_exit_def print_def)

lemma no_exit_call [flow_rules]: "no_exit (call answer wrap rq)"
  unfolding no_exit_def
proof (intro allI)
  fix s n
  show "fst (call answer wrap rq s) \<noteq> Exit n"
    by (cases "answer (calls s) rq") (simp_all add: call_def)
qed

lemma no_exit_bind [flow_rules]:
  assumes "no_exit m" "\<And>x. no_exit (f x)"
  shows "no_exit (bind m f)"
  unfolding no_exit_def
proof (intro allI)
  fix s n
  obtain r s1 where ms: "m s = (r, s1)" by (cases "m s")
  with assms(1) have "\<And>k. r \<noteq> Exit k" unfolding no_exit_def by (metis fst_conv)
  with assms(2) ms show "fst (bind m f s) \<noteq> Exit n"
    by (cases r) (simp_all add: bind_def no_exit_def)
qed

lemma no_exit_andthen [flow_rules]:
  "no_exit m \<Longrightarrow> no_exit k \<Longrightarrow> no_exit (andthen m k)"
  unfolding andthen_def by (rule no_exit_bind)

lemma no_exit_try_except [flow_rules]:
  assumes "no_exit m" "\<And>e. no_exit (h e)"
  shows "no_exit (try_except m h)"
  unfolding no_exit_def
proof (intro allI)
  fix s n
  obtain r s1 where ms: "m s = (r, s1)" by (cases "m s")
  with assms(1) have "\<And>k. r \<noteq> Exit k" unfolding no_exit_def by (metis fst_conv)
  with assms(2) ms show "fst (try_except m h s) \<noteq> Exit n"
    by (cases r) (simp_all add: try_except_def no_exit_def)
qed

lemma no_exit_if [flow_rules]:
  "no_exit m1 \<Longrightarrow> no_exit m2 \<Longrightarrow> no_exit (if b then m1 else m2)"
  by simp

lemma no_exit_case_option [flow_rules]:
  "no_exit m1 \<Longrightarrow> (\<And>y. no_exit (f y)) \<Longrightarrow> no_exit (case x of None \<Rightarrow> m1 | Some y \<Rightarrow> f y)"
  by (cases x) simp_all

lemma returns_no_exit: "returns m \<Longrightarrow> no_exit m"
  unfolding returns_def no_exit_def by (metis res.distinct(3))

lemma returns_ret [flow_rules]: "returns (ret x)"
  by (simp add: returns_def ret_def)

lemma returns_print [flow_rules]: "returns (print l)"
  by (simp add: returns_def print_def)

lemma returns_bind [flow_rules]:
  assumes "returns m" "\<And>x. returns (f x)"
  shows "returns (bind m f)"
  unfolding returns_def
proof
  fix s
  obtain r s1 where ms: "m s = (r, s1)" by (cases "m s")
  with assms(1) obtain x where "r = Val x" unfolding returns_def by (metis fst_conv)
  with assms(2) [of x] ms show "\<exists>y. fst (bind m f s) = Val y"
    by (simp add: bind_def returns_def)
qed

lemma returns_andthen [flow_rules]:
  "returns m \<Longrightarrow> returns k \<Longrightarrow> returns (andthen m k)"
  unfolding andthen_def by (rule returns_bind)

lemma returns_try_except [flow_rules]:
  assumes "no_exit m" "\<And>e. returns (h e)"
  shows "returns (try_except m h)"
  unfolding returns_def
proof
  fix s
  obtain r s1 where ms: "m s = (r, s1)" by (cases "m s")
  with assms(1) have "\<And>k. r \<noteq> Exit k" unfolding no_exit_def by (metis fst_conv)
  with assms(2) ms show "\<exists>y. fst (try_except m h s) = Val y"
    by (cases r) (auto simp: try_except_def returns_def)
qed

lemma returns_if [flow_rules]:
  "returns m1 \<Longrightarrow> returns m2 \<Longrightarrow> returns (if b then m1 else m2)"
  by simp

lemma returns_case_role_item [flow_rules]:
  "(\<And>r. returns (f r)) \<Longrightarrow> (\<And>n. returns (g n)) \<Longrightarrow> returns k \<Longrightarrow>
   returns (case item of ItemRole r \<Rightarrow> f r | ItemStr n \<Rightarrow> g n | ItemOther \<Rightarrow> k)"
  by (cases item) simp_all

lemma returns_print_all [flow_rules]: "returns (print_all ls)"
  by (induction ls) (simp_all add: flow_rules)

lemma no_exit_print_all [flow_rules]: "no_exit (print_all ls)"
  by (rule returns_no_exit) (rule returns_print_all)

lemma returns_print_role [flow_rules]: "returns (print_role detailed perms)"
  unfolding print_role_def by (intro flow_rules)

lemma returns_print_collection_details [flow_rules]: "returns (print_collection_details config)"
  unfolding print_collection_details_def by (intro flow_rules)

lemma no_exit_print_collection_details [flow_rules]: "no_exit (print_collection_details config)"
  by (rule returns_no_exit) (rule returns_print_collection_details)

lemma returns_user_list_loop: "returns (user_list_loop w ks)"
proof (induction ks)
  case Nil
  show ?case by (simp add: returns_ret)
next
  case (Cons k ks)
  show ?case
    unfolding user_list_loop.simps user_list_item_def call_defs
    by (intro flow_rules Cons)
qed

lemma returns_collection_list_loop: "returns (collection_list_loop w detailed names)"
proof (induction names)
  case Nil
  show ?case by (simp add: returns_ret)
next
  case (Cons n names)
  show ?case
    unfolding collection_list_loop.simps collection_list_item_def call_defs
    by (intro flow_rules Cons)
qed

lemma returns_role_list_loop: "returns (role_list_loop w detailed items)"
proof (induction items)
  case Nil
  show ?case by (simp add: returns_ret)
next
  case (Cons item items)
  show ?case
    unfolding role_list_loop.simps role_list_item_def call_defs
    by (intro flow_rules Cons)
qed

lemmas no_exit_loops [flow_rules] =
  returns_user_list_loop [THEN returns_no_exit]
  returns_collection_list_loop [THEN returns_no_exit]
  returns_role_list_loop [THEN returns_no_exit]

text \<open>The confirmation of a deletion returns when the terminal gives a line.\<close>

lemma returns_confirmed:
  assumes "stdin_input w = Inr c" "\<And>x. returns (f x)"
  shows "returns (bind (input_line w prompt) f)"
  unfolding returns_def
proof
  fix s
  from assms(2) [of c] show "\<exists>y. fst (bind (input_line w prompt) f s) = Val y"
    using assms(1) by (simp add: monad_defs returns_def)
qed

lemma after_connect_returns:
  fixes k :: "unit m"
  assumes "\<not> client s" "returns k"
  shows "connect_failure s (andthen (connect w a) k s) \<or> fst (andthen (connect w a) k s) = Val ()"
proof -
  from after_connect [OF assms(1), of "\<lambda>s1 rs. fst rs = Val ()" k w a] assms(2)
  show ?thesis unfolding returns_def by auto
qed

text \<open>Every handler but \<open>handle_collection_create\<close> returns normally once connected,
  whatever the server answers, provided a confirmation it asks for can be read.\<close>

lemma func_returns:
  assumes nc: "\<not> client s"
    and other: "\<forall>opts. command a \<noteq> CollectionCreate opts"
    and line: "is_destructive (command a) \<longrightarrow> (\<exists>c. stdin_input w = Inr c)"
  shows "connect_failure s (func w a s) \<or> fst (func w a s) = Val ()"
proof (cases "command a")
  case (CollectionCreate opts)
  with other show ?thesis by simp
next
  case (CollectionDelete name)
  with line obtain c where "stdin_input w = Inr c" by auto
  then show ?thesis
    unfolding func_def CollectionDelete command.case handle_collection_delete_def call_defs
    by (intro after_connect_returns [OF nc] returns_confirmed flow_rules)
next
  case (CollectionList detailed)
  show ?thesis
    unfolding func_def CollectionList command.case handle_collection_list_def call_defs
    by (intro after_connect_returns [OF nc] flow_rules returns_collection_list_loop)
next
  case (CollectionDescribe name)
  show ?thesis
    unfolding func_def CollectionDescribe command.case handle_collection_describe_def call_defs
    by (intro after_connect_returns [OF nc] flow_rules)
next
  case (UserCreate user_id roles)
  show ?thesis
    unfolding func_def UserCreate command.case handle_user_create_def call_defs Let_def
    by (intro after_connect_returns [OF nc] flow_rules)
next
  case (UserDelete user_id)
  with line obtain c where "stdin_input w = Inr c" by auto
  then show ?thesis
    unfolding func_def UserDelete command.case handle_user_delete_def call_defs
    by (intro after_connect_returns [OF nc] returns_confirmed flow_rules)
next
  case UserList
  show ?thesis
    unfolding func_def UserList command.case handle_user_list_def call_defs
    by (intro after_connect_returns [OF nc] flow_rules returns_user_list_loop)
next
  case (UserUpdateRoles user_id roles)
  show ?thesis
    unfolding func_def UserUpdateRoles command.case handle_user_update_roles_def call_defs Let_def
    by (intro after_connect_returns [OF nc] flow_rules)
next
  case (RoleCreate opts)
  show ?thesis
    unfolding func_def RoleCreate command.case handle_role_create_def call_defs Let_def
    by (intro after_connect_returns [OF nc] flow_rules)
next
  case (RoleDelete name)
  with line obtain c where "stdin_input w = Inr c" by auto
  then show ?thesis
    unfolding func_def RoleDelete command.case handle_role_delete_def call_defs
    by (intro after_connect_returns [OF nc] returns_confirmed flow_rules)
next
  case (RoleGet name)
  show ?thesis
    unfolding func_def RoleGet command.case handle_role_get_def call_defs
    by (intro after_connect_returns [OF nc] flow_rules)
next
  case (RoleList detailed)
  show ?thesis
    unfolding func_def RoleList command.case handle_role_list_def call_defs
    by (intro after_connect_returns [OF nc] flow_rules returns_role_list_loop)
qed


text \<open>
  For every subcommand but \<open>collection create\<close>, and when a confirmation that is asked for
  can be read, the exit status is 0 exactly when the connection was established: an
  exception of the SDK inside the handler is caught. The exit status is 1 when the
  connection fails, when no key is found, and when \<open>main\<close> raises on a configuration file
  that holds no mapping.
\<close>

lemma exit_status_elsewhere:
  assumes other: "\<forall>opts. command a \<noteq> CollectionCreate opts"
    and line: "is_destructive (command a) \<longrightarrow> (\<exists>c. stdin_input w = Inr c)"
  shows "exit_status (fst (run w a))
           = (if ready_true \<in> set (calls (snd (run w a))) then 0 else 1)"
proof -
  from run_cases [of w a] obtain s0 where
    s0: "calls s0 = []" "\<not> client s0"
    and r: "run w a = (Exit 1, s0)
          \<or> (unreadable w a \<and> run w a = (Raise (no_get (config_from_file w a)), s0))
          \<or> (\<exists>a' ans. command a' = command a
                \<and> fst (run w a) = fst (func w a' s0)
                \<and> calls (snd (run w a))
                    = (if client (snd (func w a' s0)) then calls (snd (func w a' s0)) @ [(Close, ans)]
                       else calls (snd (func w a' s0))))"
    by blast
  from r consider (exit) "run w a = (Exit 1, s0)"
    | (raise) "run w a = (Raise (no_get (config_from_file w a)), s0)"
    | (handler) a' ans where "command a' = command a"
        "fst (run w a) = fst (func w a' s0)"
        "calls (snd (run w a))
           = (if client (snd (func w a' s0)) then calls (snd (func w a' s0)) @ [(Close, ans)]
              else calls (snd (func w a' s0)))"
    by blast
  then show ?thesis
  proof cases
    case exit
    with s0 show ?thesis by simp
  next
    case raise
    with s0 show ?thesis by simp
  next
    case handler
    note a' = handler(1) and res = handler(2) and log = handler(3)
    have failed: "exit_status (fst (run w a)) = 1 \<and> ready_true \<notin> set (calls (snd (run w a)))"
      if "connect_failure s0 (func w a' s0)"
      using that res log s0 by (auto simp: connect_failure_def failed_state_def)
    from func_returns [OF s0(2), of a' w] other line a'
    have "connect_failure s0 (func w a' s0) \<or> fst (func w a' s0) = Val ()" by simp
    then show ?thesis
    proof
      assume "connect_failure s0 (func w a' s0)"
      with failed show ?thesis by simp
    next
      assume v: "fst (func w a' s0) = Val ()"
      then have "\<not> connect_failure s0 (func w a' s0)" by (simp add: connect_failure_def)
      with func_ok [of a' w] s0(2) obtain s1 dat where "connected s0 s1"
        "calls (snd (func w a' s0)) = calls s1 @ dat"
        unfolding handler_ok_def by blast
      then have "ready_true \<in> set (calls (snd (func w a' s0)))"
        by (auto simp: connected_def)
      with log have "ready_true \<in> set (calls (snd (run w a)))" by simp
      with v res show ?thesis by simp
    qed
  qed
qed


section \<open>An exception outside the \<open>try\<close> of \<open>handle_collection_create\<close>\<close>

text \<open>
  C1: the connection is established and the key is given, \<open>collections.exists\<close> raises in
  \<open>handle_collection_create\<close>, and the process ends with status 1, not 0 (for the other
  subcommands \<open>exit_status_elsewhere\<close> gives the status the claim states).
\<close>

theorem create_exit_status:
  "truthy (root_key (demo_args (CollectionCreate sample_collection)))
   \<and> ready_true \<in> set (calls (snd (run exists_raises_world (demo_args (CollectionCreate sample_collection)))))
   \<and> fst (run exists_raises_world (demo_args (CollectionCreate sample_collection)))
       = Raise (Exn WeaviateQueryException ''Query call failed'')
   \<and> exit_status (fst (run exists_raises_world (demo_args (CollectionCreate sample_collection)))) = 1"
  by (simp add: main_defs handler_defs monad_defs sample_defs lower_def lower_char_def ready_true_def)

text \<open>
  C3: after a successful connection \<open>collections.exists\<close> raises;
  \<open>handle_collection_create\<close> lets the exception through and prints no line about it, while
  \<open>handle_collection_describe\<close>, which makes the same call inside its \<open>try\<close>, prints a line
  about the exception and returns.
\<close>

theorem create_exception_uncaught:
  "fst (handle_collection_create exists_raises_world (demo_args (CollectionCreate sample_collection))
          sample_collection initial)
     = Raise (Exn WeaviateQueryException ''Query call failed'')
   \<and> described (printed (snd (handle_collection_create exists_raises_world
          (demo_args (CollectionCreate sample_collection)) sample_collection initial))) = []
   \<and> fst (handle_collection_describe exists_raises_world (demo_args (CollectionDescribe ''Articles''))
          ''Articles'' initial) = Val ()
   \<and> described (printed (snd (handle_collection_describe exists_raises_world
          (demo_args (CollectionDescribe ''Articles'')) ''Articles'' initial)))
       = [Exn WeaviateQueryException ''Query call failed'']"
  by (simp add: handler_defs monad_defs sample_defs initial_def lower_def lower_char_def)

section \<open>Parsing of property strings\<close>

text \<open>
  C10: with the module \<open>weaviate.classes\<close> of weaviate-client 4.x, which defines neither
  \<open>DataType\<close> nor \<open>Property\<close>, \<open>parse_properties_v4\<close> does not return the property of an entry
  with a known data type: reading \<open>wvc.DataType.TEXT\<close> raises AttributeError, the \<open>try\<close> of
  the loop catches ValueError only, and the function aborts. An entry without \<open>:\<close> and an
  entry with an unknown data type are skipped with a warning, the second because
  \<open>getattr(wvc.DataType, ...)\<close> stands in a \<open>try\<close> that catches the AttributeError. So
  \<open>collection create\<close> with a \<open>--property\<close> of a known type ends in the exception, after the
  call of \<open>exists\<close> and before any call of \<open>create\<close>. With a module that defines the two
  names the same function returns the properties in input order, and it takes \<open>int\<close>
  written with a dotless i for \<open>INT\<close>.
\<close>

theorem parse_properties_aborts:
  "parse_properties_v4 demo_world (Some [''title:text'']) initial
     = (Raise (Exn AttributeError ''module 'weaviate.classes' has no attribute 'DataType' ''),
        initial)
   \<and> parse_properties_v4 demo_world (Some [''title'', ''size:frob'']) initial
     = (Val None,
        initial\<lparr>printed :=
          [Line ''Warning: Invalid property format '{prop_str}'. Expected 'name:dataType'. Skipping.'',
           Line ''Warning: Unsupported or unknown dataType '{data_type_str}' for property '{name}'. Skipping this property.'']\<rparr>)
   \<and> fst (run empty_server_world (demo_args (CollectionCreate sample_collection)))
     = Raise (Exn AttributeError ''module 'weaviate.classes' has no attribute 'DataType' '')
   \<and> map fst (calls (snd (run empty_server_world (demo_args (CollectionCreate sample_collection)))))
     = [ConnectToCustom \<lparr>http_host = ''localhost'', http_port = 8080, http_secure = False,
          grpc_host = PStr ''localhost'', grpc_port = PInt 50051, grpc_secure = False,
          auth_credentials = Some (PStr ''admin''), timeout = (20, 120), startup_period = 30\<rparr>,
        IsReady, CollectionsExists ''Articles'', Close]
   \<and> fst (parse_properties_v4 (demo_world\<lparr>wvc := flat_wvc\<rparr>)
            (Some [''title:text'', ''bad'', ''size:frob'', ''n:'' @ dotless_int, ''parts:object'']) initial)
     = Val (Some [\<lparr>prop_name = ''title'', prop_data_type = DT_TEXT\<rparr>,
                  \<lparr>prop_name = ''n'', prop_data_type = DT_INT\<rparr>,
                  \<lparr>prop_name = ''parts'', prop_data_type = Member ''OBJECT''\<rparr>])"
  by (simp add: main_defs handler_defs monad_defs sample_defs initial_def lower_def lower_char_def)

end
